theory Spec2Isabelle
  imports Complex_Main
begin

section \<open>Kenchi outlier detectors: a shallow embedding\<close>

text \<open>
  The five detectors of \<^verbatim>\<open>kenchi.outlier_detection\<close> (FastABOD, kernel density, Gaussian /
  graphical lasso, Gaussian mixture, von Mises-Fisher) and the shared decision rule
  \<^verbatim>\<open>DetectorMixin.predict\<close>.

  Conventions of the embedding.
  \<^item> A sample matrix is a list of rows of reals; arithmetic is exact (no rounding, no
    overflow). Values that NumPy can produce but a real cannot hold (\<open>nan\<close>, \<open>inf\<close>) are
    carried by \<open>np_float\<close> where the code of this repository itself can produce them.
  \<^item> A raised exception is the \<open>Inl\<close> of a sum. A method that mutates \<^verbatim>\<open>self\<close> and may
    raise returns the instance as it is left behind, paired with the exception (if any).
  \<^item> scikit-learn, SciPy and NumPy objects (nearest neighbours, kernel density, graphical
    lasso, Gaussian mixture, chi-squared fit and quantile) are not part of the repository:
    they are parameters of the model (records of functions). \<^verbatim>\<open>np.percentile\<close>,
    \<^verbatim>\<open>np.var\<close>, \<^verbatim>\<open>Normalizer\<close>, \<^verbatim>\<open>gen_even_slices\<close> and \<^verbatim>\<open>check_array\<close> are written out.
  \<^item> The pandas decorators (\<^verbatim>\<open>construct_pandas_obj\<close>, \<^verbatim>\<open>assign_info_on_pandas_obj\<close>) are the
    identity on arrays and are left out.
\<close>

subsection \<open>Values and exceptions\<close>

type_synonym vec = "real list"
type_synonym matrix = "real list list"
type_synonym metric_params = "(string \<times> real) list"

datatype error =
    ValueError string
  | NotFittedError
  | FloatingPointError
  | IndexError
  | AttributeError string

datatype np_float = Finite real | PosInf | NegInf | NaN

text \<open>\<^verbatim>\<open>a > b\<close> on float64: every comparison with \<open>nan\<close> is false.\<close>

fun np_greater :: "np_float \<Rightarrow> np_float \<Rightarrow> bool" where
  "np_greater (Finite a) (Finite b) = (a > b)"
| "np_greater (Finite a) NegInf = True"
| "np_greater PosInf (Finite b) = True"
| "np_greater PosInf NegInf = True"
| "np_greater _ _ = False"

definition is_ValueError :: "error + 'a \<Rightarrow> bool" where
  "is_ValueError r = (case r of Inl (ValueError m) \<Rightarrow> True | _ \<Rightarrow> False)"

subsection \<open>Hyperparameters and fitted attributes\<close>

text \<open>
  Each class is a record: the hyperparameters assigned by \<^verbatim>\<open>__init__\<close>, then the
  attributes \<^verbatim>\<open>fit\<close> assigns, \<open>None\<close> while the attribute does not exist
  (written without the trailing underscore of \<^verbatim>\<open>y_score_\<close>, \<^verbatim>\<open>threshold_\<close>, ...).
  Fields carry a class prefix since the five classes share attribute names.
\<close>

text \<open>What \<^verbatim>\<open>NearestNeighbors(...).fit(X)\<close> keeps: its parameters and \<^verbatim>\<open>_fit_X\<close>.\<close>

record knn_index =
  knn_metric :: string
  knn_metric_params :: "metric_params option"
  knn_n_jobs :: int
  knn_n_neighbors :: int
  knn_p :: int
  fit_X :: matrix

record FastABOD =
  abod_fpr :: real
  abod_metric :: string
  abod_metric_params :: "metric_params option"
  abod_n_jobs :: int
  abod_n_neighbors :: int
  abod_p :: int
  abod_knn :: "knn_index option"
  abod_y_score :: "real list option"
  abod_threshold :: "np_float option"

record 'm KernelDensityOutlierDetector =
  kde_bandwidth :: real
  kde_fpr :: real
  kde_kernel :: string
  kde_metric :: string
  kde_metric_params :: "metric_params option"
  kde_kde :: "'m option"
  kde_y_score :: "real list option"
  kde_threshold :: "np_float option"

record 'm GaussianOutlierDetector =
  gauss_alpha :: real
  gauss_assume_centered :: bool
  gauss_fpr :: real
  gauss_max_iter :: int
  gauss_tol :: real
  gauss_glasso :: "'m option"
  gauss_y_score :: "real list option"
  gauss_threshold :: "np_float option"
  gauss_Y_score :: "matrix option"
  gauss_feature_wise_threshold :: "np_float list option"

record 'm GaussianMixtureOutlierDetector =
  gmm_covariance_type :: string
  gmm_fpr :: real
  gmm_max_iter :: int
  gmm_means_init :: "matrix option"
  gmm_n_components :: int
  gmm_precisions_init :: "matrix list option"
  gmm_random_state :: "int option"
  gmm_tol :: real
  gmm_warm_start :: bool
  gmm_weights_init :: "real list option"
  gmm_gmm :: "'m option"
  gmm_y_score :: "real list option"
  gmm_threshold :: "np_float option"

text \<open>\<^verbatim>\<open>Normalizer()\<close> has no fitted state: the attribute is present or not.\<close>

record VMFOutlierDetector =
  vmf_assume_normalized :: bool
  vmf_fpr :: real
  vmf_normalizer :: "unit option"
  vmf_mean_direction :: "np_float list option"
  vmf_y_score :: "np_float list option"
  vmf_threshold :: "np_float option"

subsection \<open>Construction: \<^verbatim>\<open>__init__\<close> and \<^verbatim>\<open>check_params\<close>\<close>

text \<open>
  \<^verbatim>\<open>check_params\<close> raises at the first violated constraint, in the order of the source.
  The message is the source's template; the formatted value is not appended.
\<close>

definition FastABOD_check_params :: "FastABOD \<Rightarrow> error option" where
  "FastABOD_check_params self =
     (if abod_fpr self < 0 \<or> 1 < abod_fpr self then
        Some (ValueError ''fpr must be between 0 and 1 inclusive but was {0}'')
      else if abod_n_neighbors self \<le> 1 then
        Some (ValueError ''n_neighbors must be greator than 1 but was {0}'')
      else if abod_p self < 1 then
        Some (ValueError ''p must be greater than or equal to 1 but was {0}'')
      else None)"

definition FastABOD_init ::
  "real \<Rightarrow> string \<Rightarrow> metric_params option \<Rightarrow> int \<Rightarrow> int \<Rightarrow> int \<Rightarrow> error + FastABOD" where
  "FastABOD_init fpr metric metric_params n_jobs n_neighbors p =
     (let self = \<lparr> abod_fpr = fpr, abod_metric = metric, abod_metric_params = metric_params,
                    abod_n_jobs = n_jobs, abod_n_neighbors = n_neighbors, abod_p = p,
                    abod_knn = None, abod_y_score = None, abod_threshold = None \<rparr>
      in case FastABOD_check_params self of Some e \<Rightarrow> Inl e | None \<Rightarrow> Inr self)"

definition VALID_KERNELS :: "string list" where
  "VALID_KERNELS =
     [''gaussian'', ''tophat'', ''epanechnikov'', ''exponential'', ''linear'', ''cosine'']"

definition KernelDensityOutlierDetector_check_params ::
  "'m KernelDensityOutlierDetector \<Rightarrow> error option" where
  "KernelDensityOutlierDetector_check_params self =
     (if kde_bandwidth self \<le> 0 then
        Some (ValueError ''bandwidth must be positive but was {0}'')
      else if kde_fpr self < 0 \<or> 1 < kde_fpr self then
        Some (ValueError ''fpr must be between 0 and 1 inclusive but was {0}'')
      else if kde_kernel self \<notin> set VALID_KERNELS then
        Some (ValueError ''invalid kernel: {0}'')
      else None)"

definition KernelDensityOutlierDetector_init ::
  "real \<Rightarrow> real \<Rightarrow> string \<Rightarrow> string \<Rightarrow> metric_params option
     \<Rightarrow> error + 'm KernelDensityOutlierDetector" where
  "KernelDensityOutlierDetector_init bandwidth fpr kern metric metric_params =
     (let self = \<lparr> kde_bandwidth = bandwidth, kde_fpr = fpr, kde_kernel = kern,
                    kde_metric = metric, kde_metric_params = metric_params,
                    kde_kde = None, kde_y_score = None, kde_threshold = None \<rparr>
      in case KernelDensityOutlierDetector_check_params self of
           Some e \<Rightarrow> Inl e | None \<Rightarrow> Inr self)"

definition GaussianOutlierDetector_check_params ::
  "'m GaussianOutlierDetector \<Rightarrow> error option" where
  "GaussianOutlierDetector_check_params self =
     (if gauss_alpha self < 0 \<or> 1 < gauss_alpha self then
        Some (ValueError ''alpha must be between 0 and 1 inclusive but was {0}'')
      else if gauss_fpr self < 0 \<or> 1 < gauss_fpr self then
        Some (ValueError ''fpr must be between 0 and 1 inclusive but was {0}'')
      else if gauss_max_iter self \<le> 0 then
        Some (ValueError ''max_iter must be positive but was {0}'')
      else if gauss_tol self < 0 then
        Some (ValueError ''tol must be non-negative but was {0}'')
      else None)"

definition GaussianOutlierDetector_init ::
  "real \<Rightarrow> bool \<Rightarrow> real \<Rightarrow> int \<Rightarrow> real \<Rightarrow> error + 'm GaussianOutlierDetector" where
  "GaussianOutlierDetector_init alpha assume_centered fpr max_iter tol =
     (let self = \<lparr> gauss_alpha = alpha, gauss_assume_centered = assume_centered,
                    gauss_fpr = fpr, gauss_max_iter = max_iter, gauss_tol = tol,
                    gauss_glasso = None, gauss_y_score = None, gauss_threshold = None,
                    gauss_Y_score = None, gauss_feature_wise_threshold = None \<rparr>
      in case GaussianOutlierDetector_check_params self of
           Some e \<Rightarrow> Inl e | None \<Rightarrow> Inr self)"

definition VALID_COVARIANCE_TYPES :: "string list" where
  "VALID_COVARIANCE_TYPES = [''full'', ''tied'', ''diag'', ''spherical'']"

definition GaussianMixtureOutlierDetector_check_params ::
  "'m GaussianMixtureOutlierDetector \<Rightarrow> error option" where
  "GaussianMixtureOutlierDetector_check_params self =
     (if gmm_covariance_type self \<notin> set VALID_COVARIANCE_TYPES then
        Some (ValueError ''invalid covariance_type: {0}'')
      else if gmm_fpr self < 0 \<or> 1 < gmm_fpr self then
        Some (ValueError ''fpr must be between 0 and 1 inclusive but was {0}'')
      else if gmm_max_iter self \<le> 0 then
        Some (ValueError ''max_iter must be positive but was {0}'')
      else if gmm_n_components self \<le> 0 then
        Some (ValueError ''n_components must be positive but was {0}'')
      else if gmm_tol self < 0 then
        Some (ValueError ''tol must be non-negative but was {0}'')
      else None)"

definition GaussianMixtureOutlierDetector_init ::
  "string \<Rightarrow> real \<Rightarrow> int \<Rightarrow> matrix option \<Rightarrow> int \<Rightarrow> matrix list option \<Rightarrow> int option
     \<Rightarrow> real \<Rightarrow> bool \<Rightarrow> real list option \<Rightarrow> error + 'm GaussianMixtureOutlierDetector" where
  "GaussianMixtureOutlierDetector_init covariance_type fpr max_iter means_init n_components
       precisions_init random_state tol warm_start weights_init =
     (let self = \<lparr> gmm_covariance_type = covariance_type, gmm_fpr = fpr,
                    gmm_max_iter = max_iter, gmm_means_init = means_init,
                    gmm_n_components = n_components, gmm_precisions_init = precisions_init,
                    gmm_random_state = random_state, gmm_tol = tol,
                    gmm_warm_start = warm_start, gmm_weights_init = weights_init,
                    gmm_gmm = None, gmm_y_score = None, gmm_threshold = None \<rparr>
      in case GaussianMixtureOutlierDetector_check_params self of
           Some e \<Rightarrow> Inl e | None \<Rightarrow> Inr self)"

definition VMFOutlierDetector_check_params :: "VMFOutlierDetector \<Rightarrow> error option" where
  "VMFOutlierDetector_check_params self =
     (if vmf_fpr self < 0 \<or> 1 < vmf_fpr self then
        Some (ValueError ''fpr must be between 0 and 1 inclusive but was {0}'')
      else None)"

definition VMFOutlierDetector_init :: "bool \<Rightarrow> real \<Rightarrow> error + VMFOutlierDetector" where
  "VMFOutlierDetector_init assume_normalized fpr =
     (let self = \<lparr> vmf_assume_normalized = assume_normalized, vmf_fpr = fpr,
                    vmf_normalizer = None, vmf_mean_direction = None,
                    vmf_y_score = None, vmf_threshold = None \<rparr>
      in case VMFOutlierDetector_check_params self of Some e \<Rightarrow> Inl e | None \<Rightarrow> Inr self)"

subsection \<open>NumPy and scikit-learn helpers, written out\<close>

text \<open>
  \<^verbatim>\<open>sklearn.utils.check_array\<close> on a list of rows: at least one sample, rows of one length,
  at least one feature. (Non-finite entries are excluded by the type of the entries.)
\<close>

definition check_array :: "matrix \<Rightarrow> error + matrix" where
  "check_array X =
     (if X = [] then Inl (ValueError ''Found array with 0 sample(s)'')
      else if list_ex (\<lambda>r. length r \<noteq> length (hd X)) X then
        Inl (ValueError ''setting an array element with a sequence'')
      else if hd X = [] then Inl (ValueError ''Found array with 0 feature(s)'')
      else Inr X)"

text \<open>The first exception of a sequence of computations, or all their results.\<close>

fun sequence_err :: "(error + 'a) list \<Rightarrow> error + 'a list" where
  "sequence_err [] = Inr []"
| "sequence_err (r # rs) =
     (case r of
        Inl e \<Rightarrow> Inl e
      | Inr x \<Rightarrow> (case sequence_err rs of Inl e \<Rightarrow> Inl e | Inr xs \<Rightarrow> Inr (x # xs)))"

text \<open>\<^verbatim>\<open>a @ b\<close> on two vectors.\<close>

definition dot :: "vec \<Rightarrow> vec \<Rightarrow> real" where
  "dot a b = sum_list (map2 (*) a b)"

text \<open>\<^verbatim>\<open>itertools.combinations(xs, 2)\<close>: the pairs of positions \<open>i < j\<close>, in lexicographic order.\<close>

fun combinations2 :: "'a list \<Rightarrow> ('a \<times> 'a) list" where
  "combinations2 [] = []"
| "combinations2 (x # xs) = map (Pair x) xs @ combinations2 xs"

text \<open>
  float64 division of finite operands: \<open>0/0\<close> is \<open>nan\<close> (an \<^emph>\<open>invalid\<close> operation),
  \<open>x/0\<close> is \<open>\<plusminus>inf\<close> (a \<^emph>\<open>divide\<close> operation, which \<^verbatim>\<open>errstate(invalid='raise')\<close> lets pass).
\<close>

definition np_true_divide :: "real \<Rightarrow> real \<Rightarrow> np_float" where
  "np_true_divide x y =
     (if y \<noteq> 0 then Finite (x / y)
      else if x = 0 then NaN else if 0 < x then PosInf else NegInf)"

fun np_divide_f :: "np_float \<Rightarrow> real \<Rightarrow> np_float" where
  "np_divide_f (Finite a) y = np_true_divide a y"
| "np_divide_f PosInf y = (if y < 0 then NegInf else PosInf)"
| "np_divide_f NegInf y = (if y < 0 then PosInf else NegInf)"
| "np_divide_f NaN y = NaN"

definition np_mean :: "real list \<Rightarrow> real" where
  "np_mean xs = sum_list xs / real (length xs)"

text \<open>
  \<^verbatim>\<open>np.var\<close> of one row (population variance) under \<^verbatim>\<open>errstate(invalid='raise')\<close>: an empty
  row divides \<open>0/0\<close>, and a row holding \<open>\<plusminus>inf\<close> subtracts \<open>inf - inf\<close>; both are invalid
  operations and raise.
\<close>

definition np_var :: "np_float list \<Rightarrow> error + real" where
  "np_var row =
     (if row = [] then Inl FloatingPointError
      else if list_all (\<lambda>v. case v of Finite a \<Rightarrow> True | _ \<Rightarrow> False) row then
        (let xs = map (\<lambda>v. case v of Finite a \<Rightarrow> a | _ \<Rightarrow> 0) row
         in Inr (np_mean (map (\<lambda>x. (x - np_mean xs)\<^sup>2) xs)))
      else Inl FloatingPointError)"

text \<open>
  \<^verbatim>\<open>np.percentile(a, q)\<close> with the default linear interpolation, on a vector of finite
  values: \<open>q\<close> outside \<open>[0, 100]\<close> raises; an empty vector gives \<open>nan\<close>.
\<close>

definition np_percentile :: "real list \<Rightarrow> real \<Rightarrow> error + np_float" where
  "np_percentile a q =
     (if q < 0 \<or> 100 < q then Inl (ValueError ''Percentiles must be in the range [0, 100]'')
      else if a = [] then Inr NaN
      else
        (let s = sort a;
             idx = q / 100 * real (length a - 1);
             lo = nat \<lfloor>idx\<rfloor>;
             hi = min (lo + 1) (length a - 1);
             w = idx - real lo
         in Inr (Finite (s ! lo * (1 - w) + s ! hi * w))))"

text \<open>
  \<^verbatim>\<open>sklearn.utils.gen_even_slices(n, n_packs)\<close>: the half-open ranges \<open>(start, end)\<close> of
  \<open>n_packs\<close> packs of nearly equal size, empty packs skipped; \<open>n_packs < 1\<close> raises.
\<close>

fun even_slices_from :: "nat \<Rightarrow> nat \<Rightarrow> nat \<Rightarrow> nat list \<Rightarrow> (nat \<times> nat) list" where
  "even_slices_from n n_packs start [] = []"
| "even_slices_from n n_packs start (pack_num # rest) =
     (let this_n = n div n_packs + (if pack_num < n mod n_packs then 1 else 0)
      in if 0 < this_n
         then (start, start + this_n) # even_slices_from n n_packs (start + this_n) rest
         else even_slices_from n n_packs start rest)"

definition gen_even_slices :: "nat \<Rightarrow> int \<Rightarrow> error + (nat \<times> nat) list" where
  "gen_even_slices n n_packs =
     (if n_packs < 1 then Inl (ValueError ''gen_even_slices got n_packs=%s, must be >=1'')
      else Inr (even_slices_from n (nat n_packs) 0 [0 ..< nat n_packs]))"

text \<open>\<^verbatim>\<open>xs[start:end]\<close>.\<close>

definition slice :: "'a list \<Rightarrow> nat \<times> nat \<Rightarrow> 'a list" where
  "slice xs s = take (snd s - fst s) (drop (fst s) xs)"

subsection \<open>The decision rule: \<^verbatim>\<open>DetectorMixin.predict\<close>\<close>

text \<open>
  \<^verbatim>\<open>check_is_fitted(self, 'threshold_')\<close>, then
  \<^verbatim>\<open>(self.anomaly_score(X) > self.threshold_).astype(np.int32)\<close>. The second argument is the
  outcome of \<^verbatim>\<open>self.anomaly_score(X)\<close>, which is only looked at once the threshold is there.
\<close>

definition DetectorMixin_predict ::
  "np_float option \<Rightarrow> error + np_float list \<Rightarrow> error + int list" where
  "DetectorMixin_predict threshold scores =
     (case threshold of
        None \<Rightarrow> Inl NotFittedError
      | Some t \<Rightarrow>
          (case scores of
             Inl e \<Rightarrow> Inl e
           | Inr ys \<Rightarrow> Inr (map (\<lambda>y. if np_greater y t then 1 else 0) ys)))"

definition finite_scores :: "error + real list \<Rightarrow> error + np_float list" where
  "finite_scores r = (case r of Inl e \<Rightarrow> Inl e | Inr ys \<Rightarrow> Inr (map Finite ys))"

subsection \<open>FastABOD\<close>

text \<open>
  The nearest-neighbour index of scikit-learn: \<^verbatim>\<open>NearestNeighbors(...).fit(X)\<close> and
  \<^verbatim>\<open>kneighbors(X, return_distance=False)\<close>, which returns one row of training indices per
  query row (per training row, itself left out, when \<open>X\<close> is \<open>None\<close>).
\<close>

record neighbors_backend =
  NearestNeighbors_fit ::
    "string \<Rightarrow> metric_params option \<Rightarrow> int \<Rightarrow> int \<Rightarrow> int \<Rightarrow> matrix \<Rightarrow> error + knn_index"
  kneighbors :: "knn_index \<Rightarrow> matrix option \<Rightarrow> error + nat list list"

text \<open>
  One term of \<^verbatim>\<open>_abof\<close>: \<^verbatim>\<open>(pa @ pb) / (pa @ pa) / (pb @ pb)\<close> under
  \<^verbatim>\<open>errstate(invalid='raise')\<close>.
\<close>

definition abof_term :: "vec \<Rightarrow> vec \<Rightarrow> error + np_float" where
  "abof_term pa pb =
     (case np_true_divide (dot pa pb) (dot pa pa) of
        NaN \<Rightarrow> Inl FloatingPointError
      | q \<Rightarrow> (case np_divide_f q (dot pb pb) of
                NaN \<Rightarrow> Inl FloatingPointError
              | r \<Rightarrow> Inr r))"

text \<open>
  The inner list of \<^verbatim>\<open>_abof\<close> for one sample \<open>p\<close> with neighbour indices \<open>ind_p\<close>:
  \<^verbatim>\<open>fit_X[ind_p] - p\<close> (an index out of range raises, as does a row of another length),
  then one term per pair of \<^verbatim>\<open>combinations(..., 2)\<close>.
\<close>

definition abof_terms :: "vec \<Rightarrow> nat list \<Rightarrow> matrix \<Rightarrow> error + np_float list" where
  "abof_terms p ind_p fit_X' =
     (if list_ex (\<lambda>j. length fit_X' \<le> j) ind_p then Inl IndexError
      else if list_ex (\<lambda>j. length (fit_X' ! j) \<noteq> length p) ind_p then
        Inl (ValueError ''operands could not be broadcast together'')
      else sequence_err
             (map (\<lambda>(pa, pb). abof_term pa pb)
                (combinations2 (map (\<lambda>j. map2 (-) (fit_X' ! j) p) ind_p))))"

text \<open>
  \<^verbatim>\<open>_abof(X, ind, fit_X)\<close>: the nested list is built first, row by row, then \<^verbatim>\<open>np.var\<close>
  runs along axis 1 (\<open>ind\<close> is an array, so its rows have one length).
\<close>

definition abof :: "matrix \<Rightarrow> nat list list \<Rightarrow> matrix \<Rightarrow> error + real list" where
  "abof X ind fit_X' =
     (case sequence_err (map (\<lambda>(p, ind_p). abof_terms p ind_p fit_X') (zip X ind)) of
        Inl e \<Rightarrow> Inl e
      | Inr rows \<Rightarrow>
          if rows = [] then Inl (ValueError ''axis 1 is out of bounds for array of dimension 1'')
          else sequence_err (map np_var rows))"

definition FastABOD_anomaly_score ::
  "neighbors_backend \<Rightarrow> FastABOD \<Rightarrow> matrix option \<Rightarrow> error + real list" where
  "FastABOD_anomaly_score be self X =
     (case abod_knn self of
        None \<Rightarrow> Inl NotFittedError
      | Some knn \<Rightarrow>
          (case (case X of None \<Rightarrow> Inr (fit_X knn) | Some X' \<Rightarrow> check_array X') of
             Inl e \<Rightarrow> Inl e
           | Inr X1 \<Rightarrow>
               (case kneighbors be knn X of
                  Inl e \<Rightarrow> Inl e
                | Inr ind \<Rightarrow>
                    (case gen_even_slices (length X1) (abod_n_jobs self) of
                       Inl e \<Rightarrow> Inl e
                     | Inr ss \<Rightarrow>
                         (case sequence_err
                                 (map (\<lambda>s. abof (slice X1 s) (slice ind s) (fit_X knn)) ss) of
                            Inl FloatingPointError \<Rightarrow>
                              Inl (ValueError ''X must not contain training samples'')
                          | Inl e \<Rightarrow> Inl e
                          | Inr result \<Rightarrow> Inr (map uminus (concat result)))))))"

definition FastABOD_fit ::
  "neighbors_backend \<Rightarrow> FastABOD \<Rightarrow> matrix \<Rightarrow> FastABOD \<times> error option" where
  "FastABOD_fit be self X =
     (case check_array X of
        Inl e \<Rightarrow> (self, Some e)
      | Inr X1 \<Rightarrow>
          (case NearestNeighbors_fit be (abod_metric self) (abod_metric_params self)
                  (abod_n_jobs self) (abod_n_neighbors self) (abod_p self) X1 of
             Inl e \<Rightarrow> (self, Some e)
           | Inr knn \<Rightarrow>
               (let self1 = self\<lparr>abod_knn := Some knn\<rparr> in
                case FastABOD_anomaly_score be self1 None of
                  Inl e \<Rightarrow> (self1, Some e)
                | Inr y \<Rightarrow>
                    (let self2 = self1\<lparr>abod_y_score := Some y\<rparr> in
                     case np_percentile y (100 * (1 - abod_fpr self2)) of
                       Inl e \<Rightarrow> (self2, Some e)
                     | Inr t \<Rightarrow> (self2\<lparr>abod_threshold := Some t\<rparr>, None)))))"

definition FastABOD_predict ::
  "neighbors_backend \<Rightarrow> FastABOD \<Rightarrow> matrix option \<Rightarrow> error + int list" where
  "FastABOD_predict be self X =
     DetectorMixin_predict (abod_threshold self)
       (finite_scores (FastABOD_anomaly_score be self X))"

subsection \<open>Kernel density\<close>

text \<open>
  \<^verbatim>\<open>KernelDensity(bandwidth, kernel, metric, metric_params).fit(X)\<close> and
  \<^verbatim>\<open>score_samples\<close> (the log-density, taken to be finite), of scikit-learn.
\<close>

record 'm kde_backend =
  KernelDensity_fit ::
    "real \<Rightarrow> string \<Rightarrow> string \<Rightarrow> metric_params option \<Rightarrow> matrix \<Rightarrow> error + 'm"
  kde_score_samples :: "'m \<Rightarrow> matrix \<Rightarrow> error + real list"

definition KernelDensityOutlierDetector_anomaly_score ::
  "'m kde_backend \<Rightarrow> 'm KernelDensityOutlierDetector \<Rightarrow> matrix option \<Rightarrow> error + real list"
  where
  "KernelDensityOutlierDetector_anomaly_score be self X =
     (case kde_kde self of
        None \<Rightarrow> Inl NotFittedError
      | Some kde \<Rightarrow>
          (case X of
             None \<Rightarrow>
               (case kde_y_score self of
                  None \<Rightarrow> Inl (AttributeError ''y_score_'')
                | Some y \<Rightarrow> Inr y)
           | Some X' \<Rightarrow>
               (case check_array X' of
                  Inl e \<Rightarrow> Inl e
                | Inr X1 \<Rightarrow>
                    (case kde_score_samples be kde X1 of
                       Inl e \<Rightarrow> Inl e
                     | Inr ld \<Rightarrow> Inr (map uminus ld)))))"

definition KernelDensityOutlierDetector_fit ::
  "'m kde_backend \<Rightarrow> 'm KernelDensityOutlierDetector \<Rightarrow> matrix
     \<Rightarrow> 'm KernelDensityOutlierDetector \<times> error option" where
  "KernelDensityOutlierDetector_fit be self X =
     (case check_array X of
        Inl e \<Rightarrow> (self, Some e)
      | Inr X1 \<Rightarrow>
          (case KernelDensity_fit be (kde_bandwidth self) (kde_kernel self) (kde_metric self)
                  (kde_metric_params self) X1 of
             Inl e \<Rightarrow> (self, Some e)
           | Inr kde \<Rightarrow>
               (let self1 = self\<lparr>kde_kde := Some kde\<rparr> in
                case KernelDensityOutlierDetector_anomaly_score be self1 (Some X1) of
                  Inl e \<Rightarrow> (self1, Some e)
                | Inr y \<Rightarrow>
                    (let self2 = self1\<lparr>kde_y_score := Some y\<rparr> in
                     case np_percentile y (100 * (1 - kde_fpr self2)) of
                       Inl e \<Rightarrow> (self2, Some e)
                     | Inr t \<Rightarrow> (self2\<lparr>kde_threshold := Some t\<rparr>, None)))))"

definition KernelDensityOutlierDetector_predict ::
  "'m kde_backend \<Rightarrow> 'm KernelDensityOutlierDetector \<Rightarrow> matrix option \<Rightarrow> error + int list"
  where
  "KernelDensityOutlierDetector_predict be self X =
     DetectorMixin_predict (kde_threshold self)
       (finite_scores (KernelDensityOutlierDetector_anomaly_score be self X))"

subsection \<open>Gaussian (graphical lasso)\<close>

text \<open>
  \<^verbatim>\<open>GraphLasso(alpha, assume_centered, max_iter, tol).fit(X)\<close> with its \<^verbatim>\<open>mahalanobis\<close>,
  \<^verbatim>\<open>precision_\<close> (square, positive diagonal) and \<^verbatim>\<open>location_\<close>; and SciPy's
  \<^verbatim>\<open>chi2.fit(data)\<close> and \<^verbatim>\<open>chi2.ppf(q, df, loc, scale)\<close>.
\<close>

record 'm glasso_backend =
  GraphLasso_fit :: "real \<Rightarrow> bool \<Rightarrow> int \<Rightarrow> real \<Rightarrow> matrix \<Rightarrow> error + 'm"
  mahalanobis :: "'m \<Rightarrow> matrix \<Rightarrow> error + real list"
  precision :: "'m \<Rightarrow> matrix"
  location :: "'m \<Rightarrow> vec"

record chi2_backend =
  chi2_fit :: "np_float list \<Rightarrow> error + real \<times> real \<times> real"
  chi2_ppf :: "real \<Rightarrow> real \<Rightarrow> real \<Rightarrow> real \<Rightarrow> np_float"

definition GaussianOutlierDetector_anomaly_score ::
  "'m glasso_backend \<Rightarrow> 'm GaussianOutlierDetector \<Rightarrow> matrix option \<Rightarrow> error + real list"
  where
  "GaussianOutlierDetector_anomaly_score be self X =
     (case gauss_glasso self of
        None \<Rightarrow> Inl NotFittedError
      | Some glasso \<Rightarrow>
          (case X of
             None \<Rightarrow>
               (case gauss_y_score self of
                  None \<Rightarrow> Inl (AttributeError ''y_score_'')
                | Some y \<Rightarrow> Inr y)
           | Some X' \<Rightarrow>
               (case check_array X' of
                  Inl e \<Rightarrow> Inl e
                | Inr X1 \<Rightarrow> mahalanobis be glasso X1)))"

text \<open>\<^verbatim>\<open>np.diag(P)\<close> and \<^verbatim>\<open>v @ P\<close> for a square matrix \<open>P\<close>.\<close>

definition np_diag :: "matrix \<Rightarrow> vec" where
  "np_diag P = map (\<lambda>i. P ! i ! i) [0 ..< length P]"

definition vec_mat :: "vec \<Rightarrow> matrix \<Rightarrow> vec" where
  "vec_mat v P = map (\<lambda>c. dot v c) (transpose P)"

definition GaussianOutlierDetector_feature_wise_anomaly_score ::
  "'m glasso_backend \<Rightarrow> 'm GaussianOutlierDetector \<Rightarrow> matrix option \<Rightarrow> error + matrix"
  where
  "GaussianOutlierDetector_feature_wise_anomaly_score be self X =
     (case gauss_glasso self of
        None \<Rightarrow> Inl NotFittedError
      | Some glasso \<Rightarrow>
          (case X of
             None \<Rightarrow>
               (case gauss_Y_score self of
                  None \<Rightarrow> Inl (AttributeError ''Y_score_'')
                | Some Y \<Rightarrow> Inr Y)
           | Some X' \<Rightarrow>
               (case check_array X' of
                  Inl e \<Rightarrow> Inl e
                | Inr X1 \<Rightarrow>
                    Inr (map (\<lambda>x. map (\<lambda>(d, m). 0.5 * ln (2.0 * pi / d) + 0.5 / d * m\<^sup>2)
                                  (zip (np_diag (precision be glasso))
                                     (vec_mat (map2 (-) x (location be glasso))
                                        (precision be glasso))))
                           X1))))"

definition GaussianOutlierDetector_fit ::
  "'m glasso_backend \<Rightarrow> chi2_backend \<Rightarrow> 'm GaussianOutlierDetector \<Rightarrow> matrix
     \<Rightarrow> 'm GaussianOutlierDetector \<times> error option" where
  "GaussianOutlierDetector_fit be chi2 self X =
     (case check_array X of
        Inl e \<Rightarrow> (self, Some e)
      | Inr X1 \<Rightarrow>
          (case GraphLasso_fit be (gauss_alpha self) (gauss_assume_centered self)
                  (gauss_max_iter self) (gauss_tol self) X1 of
             Inl e \<Rightarrow> (self, Some e)
           | Inr glasso \<Rightarrow>
               (let self1 = self\<lparr>gauss_glasso := Some glasso\<rparr> in
                case GaussianOutlierDetector_anomaly_score be self1 (Some X1) of
                  Inl e \<Rightarrow> (self1, Some e)
                | Inr y \<Rightarrow>
                    (let self2 = self1\<lparr>gauss_y_score := Some y\<rparr> in
                     case chi2_fit chi2 (map Finite y) of
                       Inl e \<Rightarrow> (self2, Some e)
                     | Inr (df, loc, scale) \<Rightarrow>
                         (let self3 = self2\<lparr>gauss_threshold :=
                                  Some (chi2_ppf chi2 (1.0 - gauss_fpr self2) df loc scale)\<rparr> in
                          case GaussianOutlierDetector_feature_wise_anomaly_score be self3
                                 (Some X1) of
                            Inl e \<Rightarrow> (self3, Some e)
                          | Inr Y \<Rightarrow>
                              (let self4 = self3\<lparr>gauss_Y_score := Some Y\<rparr> in
                               case sequence_err
                                      (map (\<lambda>col. np_percentile col
                                                    (100.0 * (1.0 - gauss_fpr self4)))
                                         (transpose Y)) of
                                 Inl e \<Rightarrow> (self4, Some e)
                               | Inr ts \<Rightarrow>
                                   (self4\<lparr>gauss_feature_wise_threshold := Some ts\<rparr>,
                                    None)))))))"

definition GaussianOutlierDetector_predict ::
  "'m glasso_backend \<Rightarrow> 'm GaussianOutlierDetector \<Rightarrow> matrix option \<Rightarrow> error + int list"
  where
  "GaussianOutlierDetector_predict be self X =
     DetectorMixin_predict (gauss_threshold self)
       (finite_scores (GaussianOutlierDetector_anomaly_score be self X))"

subsection \<open>Gaussian mixture\<close>

text \<open>\<^verbatim>\<open>GaussianMixture(...).fit(X)\<close> and \<^verbatim>\<open>score_samples\<close> (the log-likelihood).\<close>

record 'm gmm_backend =
  GaussianMixture_fit ::
    "string \<Rightarrow> int \<Rightarrow> matrix option \<Rightarrow> int \<Rightarrow> matrix list option \<Rightarrow> int option \<Rightarrow> real
       \<Rightarrow> bool \<Rightarrow> real list option \<Rightarrow> matrix \<Rightarrow> error + 'm"
  gmm_score_samples :: "'m \<Rightarrow> matrix \<Rightarrow> error + real list"

definition GaussianMixtureOutlierDetector_anomaly_score ::
  "'m gmm_backend \<Rightarrow> 'm GaussianMixtureOutlierDetector \<Rightarrow> matrix option
     \<Rightarrow> error + real list" where
  "GaussianMixtureOutlierDetector_anomaly_score be self X =
     (case gmm_gmm self of
        None \<Rightarrow> Inl NotFittedError
      | Some gmm \<Rightarrow>
          (case X of
             None \<Rightarrow>
               (case gmm_y_score self of
                  None \<Rightarrow> Inl (AttributeError ''y_score_'')
                | Some y \<Rightarrow> Inr y)
           | Some X' \<Rightarrow>
               (case check_array X' of
                  Inl e \<Rightarrow> Inl e
                | Inr X1 \<Rightarrow>
                    (case gmm_score_samples be gmm X1 of
                       Inl e \<Rightarrow> Inl e
                     | Inr ll \<Rightarrow> Inr (map uminus ll)))))"

definition GaussianMixtureOutlierDetector_fit ::
  "'m gmm_backend \<Rightarrow> 'm GaussianMixtureOutlierDetector \<Rightarrow> matrix
     \<Rightarrow> 'm GaussianMixtureOutlierDetector \<times> error option" where
  "GaussianMixtureOutlierDetector_fit be self X =
     (case check_array X of
        Inl e \<Rightarrow> (self, Some e)
      | Inr X1 \<Rightarrow>
          (case GaussianMixture_fit be (gmm_covariance_type self) (gmm_max_iter self)
                  (gmm_means_init self) (gmm_n_components self) (gmm_precisions_init self)
                  (gmm_random_state self) (gmm_tol self) (gmm_warm_start self)
                  (gmm_weights_init self) X1 of
             Inl e \<Rightarrow> (self, Some e)
           | Inr gmm \<Rightarrow>
               (let self1 = self\<lparr>gmm_gmm := Some gmm\<rparr> in
                case GaussianMixtureOutlierDetector_anomaly_score be self1 (Some X1) of
                  Inl e \<Rightarrow> (self1, Some e)
                | Inr y \<Rightarrow>
                    (let self2 = self1\<lparr>gmm_y_score := Some y\<rparr> in
                     case np_percentile y (100 * (1 - gmm_fpr self2)) of
                       Inl e \<Rightarrow> (self2, Some e)
                     | Inr t \<Rightarrow> (self2\<lparr>gmm_threshold := Some t\<rparr>, None)))))"

definition GaussianMixtureOutlierDetector_predict ::
  "'m gmm_backend \<Rightarrow> 'm GaussianMixtureOutlierDetector \<Rightarrow> matrix option \<Rightarrow> error + int list"
  where
  "GaussianMixtureOutlierDetector_predict be self X =
     DetectorMixin_predict (gmm_threshold self)
       (finite_scores (GaussianMixtureOutlierDetector_anomaly_score be self X))"

subsection \<open>Von Mises-Fisher\<close>

text \<open>
  \<^verbatim>\<open>Normalizer().transform\<close>: each row divided by its Euclidean norm, a zero row left as
  it is.
\<close>

definition normalize_row :: "vec \<Rightarrow> vec" where
  "normalize_row x =
     (let n = sqrt (dot x x) in map (\<lambda>v. v / (if n = 0 then 1 else n)) x)"

definition Normalizer_transform :: "matrix \<Rightarrow> matrix" where
  "Normalizer_transform X = map normalize_row X"

text \<open>float64 arithmetic that reaches \<open>nan\<close> or \<open>inf\<close> without raising (the default error state).\<close>

fun np_multiply :: "real \<Rightarrow> np_float \<Rightarrow> np_float" where
  "np_multiply x (Finite b) = Finite (x * b)"
| "np_multiply x PosInf = (if x = 0 then NaN else if 0 < x then PosInf else NegInf)"
| "np_multiply x NegInf = (if x = 0 then NaN else if 0 < x then NegInf else PosInf)"
| "np_multiply x NaN = NaN"

fun np_add :: "np_float \<Rightarrow> np_float \<Rightarrow> np_float" where
  "np_add (Finite a) (Finite b) = Finite (a + b)"
| "np_add NaN _ = NaN"
| "np_add _ NaN = NaN"
| "np_add PosInf NegInf = NaN"
| "np_add NegInf PosInf = NaN"
| "np_add PosInf _ = PosInf"
| "np_add _ PosInf = PosInf"
| "np_add NegInf _ = NegInf"
| "np_add _ NegInf = NegInf"

fun np_one_minus :: "np_float \<Rightarrow> np_float" where
  "np_one_minus (Finite a) = Finite (1.0 - a)"
| "np_one_minus PosInf = NegInf"
| "np_one_minus NegInf = PosInf"
| "np_one_minus NaN = NaN"

definition np_dot_f :: "vec \<Rightarrow> np_float list \<Rightarrow> np_float" where
  "np_dot_f x d = foldr np_add (map2 np_multiply x d) (Finite 0)"

text \<open>\<^verbatim>\<open>1.0 - X @ self.mean_direction_\<close>; a row of another length than the vector raises.\<close>

definition vmf_score :: "matrix \<Rightarrow> np_float list \<Rightarrow> error + np_float list" where
  "vmf_score X d =
     (if list_ex (\<lambda>x. length x \<noteq> length d) X then
        Inl (ValueError ''shapes not aligned'')
      else Inr (map (\<lambda>x. np_one_minus (np_dot_f x d)) X))"

definition VMFOutlierDetector_anomaly_score ::
  "VMFOutlierDetector \<Rightarrow> matrix option \<Rightarrow> error + np_float list" where
  "VMFOutlierDetector_anomaly_score self X =
     (case vmf_normalizer self of
        None \<Rightarrow> Inl NotFittedError
      | Some normalizer \<Rightarrow>
          (case X of
             None \<Rightarrow>
               (case vmf_y_score self of
                  None \<Rightarrow> Inl (AttributeError ''y_score_'')
                | Some y \<Rightarrow> Inr y)
           | Some X' \<Rightarrow>
               (case check_array X' of
                  Inl e \<Rightarrow> Inl e
                | Inr X1 \<Rightarrow>
                    (let X2 = (if \<not> vmf_assume_normalized self
                               then Normalizer_transform X1 else X1) in
                     case vmf_mean_direction self of
                       None \<Rightarrow> Inl (AttributeError ''mean_direction_'')
                     | Some d \<Rightarrow> vmf_score X2 d))))"

definition VMFOutlierDetector_fit ::
  "chi2_backend \<Rightarrow> VMFOutlierDetector \<Rightarrow> matrix \<Rightarrow> VMFOutlierDetector \<times> error option"
  where
  "VMFOutlierDetector_fit chi2 self X =
     (case check_array X of
        Inl e \<Rightarrow> (self, Some e)
      | Inr X1 \<Rightarrow>
          (let self1 = (if \<not> vmf_assume_normalized self
                        then self\<lparr>vmf_normalizer := Some ()\<rparr> else self);
               X2 = (if \<not> vmf_assume_normalized self then Normalizer_transform X1 else X1);
               mean = map np_mean (transpose X2);
               self2 = self1\<lparr>vmf_mean_direction :=
                         Some (map (\<lambda>m. np_true_divide m (sqrt (dot mean mean))) mean)\<rparr>
           in case VMFOutlierDetector_anomaly_score self2 (Some X2) of
                Inl e \<Rightarrow> (self2, Some e)
              | Inr y \<Rightarrow>
                  (let self3 = self2\<lparr>vmf_y_score := Some y\<rparr> in
                   case chi2_fit chi2 y of
                     Inl e \<Rightarrow> (self3, Some e)
                   | Inr (df, loc, scale) \<Rightarrow>
                       (self3\<lparr>vmf_threshold :=
                                 Some (chi2_ppf chi2 (1.0 - vmf_fpr self3) df loc scale)\<rparr>,
                        None))))"

definition VMFOutlierDetector_predict ::
  "VMFOutlierDetector \<Rightarrow> matrix option \<Rightarrow> error + int list" where
  "VMFOutlierDetector_predict self X =
     DetectorMixin_predict (vmf_threshold self) (VMFOutlierDetector_anomaly_score self X)"

subsection \<open>The angle-based outlier factor, in the words of the specification\<close>

text \<open>
  The score of a point \<open>p\<close> with neighbours \<open>nbrs\<close>: the negative of the variance, over
  all unordered pairs \<open>{a, b}\<close> of neighbours, of
  \<open>(p - a) \<cdot> (p - b) / (\<parallel>p - a\<parallel>\<^sup>2 \<parallel>p - b\<parallel>\<^sup>2)\<close>.
\<close>

definition unordered_pairs :: "'a list \<Rightarrow> ('a \<times> 'a) list" where
  "unordered_pairs xs =
     concat (map (\<lambda>i. map (\<lambda>j. (xs ! i, xs ! j)) [Suc i ..< length xs]) [0 ..< length xs])"

definition sq_norm :: "vec \<Rightarrow> real" where
  "sq_norm v = sum_list (map (\<lambda>x. x\<^sup>2) v)"

definition variance :: "real list \<Rightarrow> real" where
  "variance xs =
     (\<Sum>x\<leftarrow>xs. (x - (\<Sum>y\<leftarrow>xs. y) / real (length xs))\<^sup>2) / real (length xs)"

definition normalized_inner_product :: "vec \<Rightarrow> vec \<Rightarrow> vec \<Rightarrow> real" where
  "normalized_inner_product p a b =
     dot (map2 (-) p a) (map2 (-) p b)
       / (sq_norm (map2 (-) p a) * sq_norm (map2 (-) p b))"

definition abof_spec :: "vec \<Rightarrow> matrix \<Rightarrow> real" where
  "abof_spec p nbrs =
     - variance (map (\<lambda>(a, b). normalized_inner_product p a b) (unordered_pairs nbrs))"

subsection \<open>Reference backends for worked examples\<close>

text \<open>
  Concrete stand-ins for the external libraries, used where a statement is evaluated at an
  explicit input. \<open>brute_neighbors\<close> is the exhaustive Euclidean search that
  \<^verbatim>\<open>NearestNeighbors\<close> performs for \<^verbatim>\<open>metric='minkowski', p=2\<close>: training indices by increasing
  distance, the first \<open>n_neighbors\<close> of them; without a query each training row is
  looked up among the others.
\<close>

definition sq_dist :: "vec \<Rightarrow> vec \<Rightarrow> real" where
  "sq_dist a b = sum_list (map2 (\<lambda>x y. (x - y)\<^sup>2) a b)"

definition brute_kneighbors :: "knn_index \<Rightarrow> matrix option \<Rightarrow> error + nat list list" where
  "brute_kneighbors knn X =
     (let k = nat (knn_n_neighbors knn); F = fit_X knn; n = length F in
      case X of
        None \<Rightarrow>
          if n \<le> k then Inl (ValueError ''Expected n_neighbors <= n_samples'')
          else Inr (map (\<lambda>i. take k (sort_key (\<lambda>j. sq_dist (F ! j) (F ! i))
                                        (filter (\<lambda>j. j \<noteq> i) [0 ..< n])))
                      [0 ..< n])
      | Some Q \<Rightarrow>
          if n < k then Inl (ValueError ''Expected n_neighbors <= n_samples'')
          else if list_ex (\<lambda>q. length q \<noteq> length (hd F)) Q then
            Inl (ValueError ''query data dimension must match training data dimension'')
          else Inr (map (\<lambda>q. take k (sort_key (\<lambda>j. sq_dist (F ! j) q) [0 ..< n])) Q))"

definition brute_neighbors :: neighbors_backend where
  "brute_neighbors =
     \<lparr> NearestNeighbors_fit =
         (\<lambda>metric mp n_jobs k p X.
            Inr \<lparr> knn_metric = metric, knn_metric_params = mp, knn_n_jobs = n_jobs,
                  knn_n_neighbors = k, knn_p = p, fit_X = X \<rparr>),
       kneighbors = brute_kneighbors \<rparr>"

text \<open>
  A density model that keeps the training matrix and scores a sample by minus its
  squared distance to the training centroid (the log-density of one spherical Gaussian
  component, up to scale and an additive constant).
\<close>

definition centroid :: "matrix \<Rightarrow> vec" where
  "centroid X = map np_mean (transpose X)"

definition centroid_log_density :: "matrix \<Rightarrow> matrix \<Rightarrow> error + real list" where
  "centroid_log_density m Q = Inr (map (\<lambda>q. - sq_dist q (centroid m)) Q)"

definition centroid_kde :: "matrix kde_backend" where
  "centroid_kde =
     \<lparr> KernelDensity_fit = (\<lambda>bandwidth kern metric mp X. Inr X),
       kde_score_samples = centroid_log_density \<rparr>"

definition centroid_gmm :: "matrix gmm_backend" where
  "centroid_gmm =
     \<lparr> GaussianMixture_fit = (\<lambda>ct mi means n prec rs tol ws w X. Inr X),
       gmm_score_samples = centroid_log_density \<rparr>"

text \<open>A covariance model with identity precision and the training centroid as location.\<close>

definition identity_matrix :: "nat \<Rightarrow> matrix" where
  "identity_matrix d = map (\<lambda>i. map (\<lambda>j. if i = j then 1 else 0) [0 ..< d]) [0 ..< d]"

definition centroid_glasso :: "matrix glasso_backend" where
  "centroid_glasso =
     \<lparr> GraphLasso_fit = (\<lambda>alpha ac mi tol X. Inr X),
       mahalanobis = (\<lambda>m Q. Inr (map (\<lambda>q. sq_dist q (centroid m)) Q)),
       precision = (\<lambda>m. identity_matrix (length (hd m))),
       location = centroid \<rparr>"

text \<open>
  A chi-squared stand-in: the fit always reports two degrees of freedom, location \<open>0\<close>
  and scale \<open>1\<close>; the quantile is that of two degrees of freedom,
  \<open>loc - 2 scale ln (1 - q)\<close>, infinite at \<open>q = 1\<close>.
\<close>

definition chi2_two :: chi2_backend where
  "chi2_two =
     \<lparr> chi2_fit = (\<lambda>ys. Inr (2, 0, 1)),
       chi2_ppf = (\<lambda>q df loc scale.
          if q < 0 \<or> 1 < q then NaN
          else if q = 1 then PosInf
          else Finite (loc - 2 * scale * ln (1 - q))) \<rparr>"

subsection \<open>Auxiliary notions for the proofs\<close>

text \<open>One row of \<^verbatim>\<open>_abof\<close>: its terms, then their variance.\<close>

definition abof_row :: "matrix \<Rightarrow> vec \<times> nat list \<Rightarrow> error + real" where
  "abof_row F z =
     (case abof_terms (fst z) (snd z) F of Inl e \<Rightarrow> Inl e | Inr r \<Rightarrow> np_var r)"

text \<open>How many samples a label vector flags.\<close>

definition n_flagged :: "int list \<Rightarrow> nat" where
  "n_flagged labels = length (filter (\<lambda>l. l = 1) labels)"

text \<open>The size of pack \<open>p\<close> in \<^verbatim>\<open>gen_even_slices(n, k)\<close>.\<close>

definition pack_size :: "nat \<Rightarrow> nat \<Rightarrow> nat \<Rightarrow> nat" where
  "pack_size n k p = n div k + (if p < n mod k then 1 else 0)"

subsection \<open>Worked examples\<close>

text \<open>
  Instances as the constructors return them, and small training sets: four points of the
  plane for FastABOD (and a variant with a repeated row), four points of the line for the
  density and covariance detectors, three directions for von Mises-Fisher.
\<close>

definition abod_new :: FastABOD where
  "abod_new = \<lparr> abod_fpr = 1/2, abod_metric = ''minkowski'', abod_metric_params = None,
                 abod_n_jobs = 2, abod_n_neighbors = 3, abod_p = 2,
                 abod_knn = None, abod_y_score = None, abod_threshold = None \<rparr>"

definition abod_train :: matrix where
  "abod_train = [[0, 0], [1, 0], [0, 2], [3, 3]]"

definition abod_dup :: matrix where
  "abod_dup = [[0, 0], [0, 0], [1, 1], [2, 0]]"

definition abod_index :: "matrix \<Rightarrow> knn_index" where
  "abod_index X = \<lparr> knn_metric = ''minkowski'', knn_metric_params = None, knn_n_jobs = 2,
                     knn_n_neighbors = 3, knn_p = 2, fit_X = X \<rparr>"

definition abod_fitted :: FastABOD where
  "abod_fitted = abod_new\<lparr> abod_knn := Some (abod_index abod_train),
       abod_y_score := Some [- (1 / 216), - (62 / 2925), - (499 / 45000), - (1 / 228150)],
       abod_threshold := Some (Finite (- (1061 / 135000))) \<rparr>"

definition line_train :: matrix where
  "line_train = [[0], [1], [2], [7]]"

definition kde_new :: "real \<Rightarrow> matrix KernelDensityOutlierDetector" where
  "kde_new fpr = \<lparr> kde_bandwidth = 1, kde_fpr = fpr, kde_kernel = ''gaussian'',
                    kde_metric = ''euclidean'', kde_metric_params = None,
                    kde_kde = None, kde_y_score = None, kde_threshold = None \<rparr>"

definition gauss_new :: "real \<Rightarrow> matrix GaussianOutlierDetector" where
  "gauss_new fpr = \<lparr> gauss_alpha = 1/100, gauss_assume_centered = False, gauss_fpr = fpr,
                      gauss_max_iter = 100, gauss_tol = 1/10000,
                      gauss_glasso = None, gauss_y_score = None, gauss_threshold = None,
                      gauss_Y_score = None, gauss_feature_wise_threshold = None \<rparr>"

definition gmm_new :: "real \<Rightarrow> matrix GaussianMixtureOutlierDetector" where
  "gmm_new fpr = \<lparr> gmm_covariance_type = ''full'', gmm_fpr = fpr, gmm_max_iter = 100,
                    gmm_means_init = None, gmm_n_components = 1, gmm_precisions_init = None,
                    gmm_random_state = None, gmm_tol = 1/1000, gmm_warm_start = False,
                    gmm_weights_init = None,
                    gmm_gmm = None, gmm_y_score = None, gmm_threshold = None \<rparr>"

definition vmf_new :: "bool \<Rightarrow> real \<Rightarrow> VMFOutlierDetector" where
  "vmf_new assume_normalized fpr =
     \<lparr> vmf_assume_normalized = assume_normalized, vmf_fpr = fpr,
       vmf_normalizer = None, vmf_mean_direction = None,
       vmf_y_score = None, vmf_threshold = None \<rparr>"

definition vmf_train :: matrix where
  "vmf_train = [[1, 0], [-1, 0], [1, 0]]"

text \<open>The mean direction that \<^verbatim>\<open>VMFOutlierDetector.fit\<close> computes from a validated matrix.\<close>

definition vmf_direction :: "bool \<Rightarrow> matrix \<Rightarrow> np_float list" where
  "vmf_direction assume_normalized X1 =
     (let X2 = (if \<not> assume_normalized then Normalizer_transform X1 else X1);
          mean = map np_mean (transpose X2)
      in map (\<lambda>m. np_true_divide m (sqrt (dot mean mean))) mean)"

subsection \<open>What is assumed of the chi-squared quantile\<close>

text \<open>\<^verbatim>\<open>a <= b\<close> on float64: false whenever an operand is \<open>nan\<close>.\<close>

fun np_less_equal :: "np_float \<Rightarrow> np_float \<Rightarrow> bool" where
  "np_less_equal NaN _ = False"
| "np_less_equal _ NaN = False"
| "np_less_equal NegInf _ = True"
| "np_less_equal _ PosInf = True"
| "np_less_equal (Finite a) (Finite b) = (a \<le> b)"
| "np_less_equal _ _ = False"

text \<open>
  For the parameters that \<^verbatim>\<open>chi2.fit\<close> returns, \<^verbatim>\<open>chi2.ppf\<close> is nondecreasing in its level on
  \<open>[0, 1]\<close>, and its value at level \<open>1\<close> is \<open>+inf\<close> (the distribution is unbounded above).
\<close>

definition quantile_nondecreasing :: "chi2_backend \<Rightarrow> bool" where
  "quantile_nondecreasing chi2 =
     (\<forall>ys df loc scale q q'.
        chi2_fit chi2 ys = Inr (df, loc, scale) \<and> 0 \<le> q \<and> q \<le> q' \<and> q' \<le> 1 \<longrightarrow>
        np_less_equal (chi2_ppf chi2 q df loc scale) (chi2_ppf chi2 q' df loc scale))"

definition quantile_unbounded :: "chi2_backend \<Rightarrow> bool" where
  "quantile_unbounded chi2 =
     (\<forall>ys df loc scale.
        chi2_fit chi2 ys = Inr (df, loc, scale) \<longrightarrow> chi2_ppf chi2 1 df loc scale = PosInf)"

section \<open>Properties\<close>

subsection \<open>Auxiliary lemmas\<close>

lemma sum_list_all_zero: "(\<forall>x\<in>set xs. x = (0::real)) \<Longrightarrow> sum_list xs = 0"
  by (induction xs) auto

lemma dot_self_zero: "dot a a = 0 \<Longrightarrow> dot a b = 0"
proof -
  assume h: "dot a a = 0"
  have "\<forall>x\<in>set a. x = 0"
  proof -
    have "sum_list (map (\<lambda>x. x * x) a) = 0"
      using h by (simp add: dot_def zip_same_conv_map comp_def)
    hence "\<forall>x\<in>set (map (\<lambda>x. x*x) a). x = 0"
      by (subst (asm) sum_list_nonneg_eq_0_iff) auto
    thus ?thesis by auto
  qed
  hence "\<forall>z\<in>set (zip a b). fst z = 0" by (auto dest: set_zip_leftD)
  hence "\<forall>x\<in>set (map2 (*) a b). x = 0" by auto
  thus ?thesis unfolding dot_def by (rule sum_list_all_zero)
qed

lemma dot_commute: "dot a b = dot b a"
proof -
  have "map2 (*) a b = map2 (*) b a"
    by (induction a arbitrary: b) (auto simp: mult.commute split: list.splits, case_tac b, auto)
  thus ?thesis by (simp add: dot_def)
qed

lemma abof_term_char:
  "abof_term pa pb =
     (if dot pa pa = 0 \<or> dot pb pb = 0 then Inl FloatingPointError
      else Inr (Finite (dot pa pb / dot pa pa / dot pb pb)))"
proof -
  have 1: "dot pa pa = 0 \<Longrightarrow> dot pa pb = 0" by (rule dot_self_zero)
  have 2: "dot pb pb = 0 \<Longrightarrow> dot pa pb = 0" using dot_self_zero[of pb pa] dot_commute[of pa pb] by simp
  show ?thesis using 1 2
    by (auto simp: abof_term_def np_true_divide_def)
qed

lemma sequence_err_map_Inr: "sequence_err (map Inr xs) = Inr xs"
  by (induction xs) auto

lemma sequence_err_Inr_D: "sequence_err rs = Inr xs \<Longrightarrow> rs = map Inr xs"
  by (induction rs arbitrary: xs) (auto split: sum.splits)

lemma sequence_err_Inl: "sequence_err rs = Inl e \<Longrightarrow> Inl e \<in> set rs"
  by (induction rs) (auto split: sum.splits)

lemma sequence_err_ex_Inl:
  "Inl e0 \<in> set rs \<Longrightarrow> \<exists>e. sequence_err rs = Inl e"
  by (induction rs) (auto split: sum.splits)




lemma even_slices_concat:
  "concat (map (slice xs) (even_slices_from n k start packs))
     = take (sum_list (map (pack_size n k) packs)) (drop start xs)"
proof (induction packs arbitrary: start)
  case Nil
  then show ?case by simp
next
  case (Cons p packs)
  show ?case
  proof (cases "0 < pack_size n k p")
    case True
    have "concat (map (slice xs) (even_slices_from n k start (p # packs)))
          = slice xs (start, start + pack_size n k p)
            @ concat (map (slice xs) (even_slices_from n k (start + pack_size n k p) packs))"
      using True by (simp add: pack_size_def Let_def)
    also have "\<dots> = take (pack_size n k p) (drop start xs)
            @ take (sum_list (map (pack_size n k) packs)) (drop (start + pack_size n k p) xs)"
      by (simp add: Cons.IH slice_def)
    also have "\<dots> = take (pack_size n k p + sum_list (map (pack_size n k) packs)) (drop start xs)"
      by (simp add: take_add add.commute)
    finally show ?thesis by simp
  next
    case False
    then show ?thesis using Cons.IH[of start] by (simp add: pack_size_def Let_def)
  qed
qed

lemma sum_pack_size_aux:
  "m \<le> k \<Longrightarrow> sum_list (map (pack_size n k) [0 ..< m]) = m * (n div k) + min m (n mod k)"
  by (induction m) (auto simp: pack_size_def)

lemma sum_pack_size: "0 < k \<Longrightarrow> sum_list (map (pack_size n k) [0 ..< k]) = n"
proof -
  assume k: "0 < k"
  have "n mod k < k" using k by simp
  hence "min k (n mod k) = n mod k" by simp
  thus ?thesis using sum_pack_size_aux[of k k n] by (simp add: mult.commute)
qed

lemma gen_even_slices_cover:
  assumes "gen_even_slices n n_jobs = Inr ss" "length xs \<le> n"
  shows "concat (map (slice xs) ss) = xs"
proof -
  from assms(1) have k: "1 \<le> n_jobs" and ss: "ss = even_slices_from n (nat n_jobs) 0 [0 ..< nat n_jobs]"
    by (auto simp: gen_even_slices_def split: if_splits)
  have "0 < nat n_jobs" using k by simp
  hence "sum_list (map (pack_size n (nat n_jobs)) [0 ..< nat n_jobs]) = n" by (rule sum_pack_size)
  thus ?thesis using assms(2) by (simp add: ss even_slices_concat)
qed

lemma slice_zip: "slice (zip xs ys) s = zip (slice xs s) (slice ys s)"
  by (simp add: slice_def take_zip drop_zip)

lemma abof_Inr_rows:
  assumes "abof X ind F = Inr ys"
  shows "map (abof_row F) (zip X ind) = map Inr ys"
proof -
  from assms obtain rows where
    r: "sequence_err (map (\<lambda>(p, ind_p). abof_terms p ind_p F) (zip X ind)) = Inr rows"
    and v: "sequence_err (map np_var rows) = Inr ys"
    by (auto simp: abof_def split: sum.splits if_splits)
  from r have r': "map (\<lambda>(p, ind_p). abof_terms p ind_p F) (zip X ind) = map Inr rows"
    by (rule sequence_err_Inr_D)
  from v have v': "map np_var rows = map Inr ys" by (rule sequence_err_Inr_D)
  have len: "length rows = length (zip X ind)" "length ys = length rows"
    using arg_cong[OF r', of length] arg_cong[OF v', of length] by simp_all
  show ?thesis
  proof (rule nth_equalityI)
    show "length (map (abof_row F) (zip X ind)) = length (map Inr ys)" using len by simp
  next
    fix i assume "i < length (map (abof_row F) (zip X ind))"
    hence i: "i < length (zip X ind)" by simp
    have "abof_terms (fst (zip X ind ! i)) (snd (zip X ind ! i)) F = Inr (rows ! i)"
      using arg_cong[OF r', of "\<lambda>l. l ! i"] i len by (simp add: case_prod_beta)
    moreover have "np_var (rows ! i) = Inr (ys ! i)"
      using arg_cong[OF v', of "\<lambda>l. l ! i"] i len by simp
    ultimately show "map (abof_row F) (zip X ind) ! i = map Inr ys ! i"
      using i len by (simp add: abof_row_def)
  qed
qed

lemma anomaly_score_rows:
  assumes "FastABOD_anomaly_score be self X = Inr scores"
      and "abod_knn self = Some knn"
      and "kneighbors be knn X = Inr ind"
  shows "map (abof_row (fit_X knn)) (zip (case X of None \<Rightarrow> fit_X knn | Some X' \<Rightarrow> X') ind)
           = map Inr (map uminus scores)"
proof -
  define X1 where "X1 = (case X of None \<Rightarrow> fit_X knn | Some X' \<Rightarrow> X')"
  have cx: "(case X of None \<Rightarrow> Inr (fit_X knn) | Some X' \<Rightarrow> check_array X') = Inr X1"
    using assms by (auto simp: FastABOD_anomaly_score_def X1_def check_array_def
        split: option.splits sum.splits if_splits)
  from assms cx obtain ss result where
    ss: "gen_even_slices (length X1) (abod_n_jobs self) = Inr ss"
    and res: "sequence_err (map (\<lambda>s. abof (slice X1 s) (slice ind s) (fit_X knn)) ss) = Inr result"
    and sc: "scores = map uminus (concat result)"
    by (auto simp: FastABOD_anomaly_score_def split: sum.splits error.splits)
  from res have res': "map (\<lambda>s. abof (slice X1 s) (slice ind s) (fit_X knn)) ss = map Inr result"
    by (rule sequence_err_Inr_D)
  have len: "length result = length ss" using arg_cong[OF res', of length] by simp
  have each: "\<forall>t < length ss. map (abof_row (fit_X knn)) (slice (zip X1 ind) (ss ! t))
                                = map Inr (result ! t)"
  proof (intro allI impI)
    fix t assume t: "t < length ss"
    have "abof (slice X1 (ss ! t)) (slice ind (ss ! t)) (fit_X knn) = Inr (result ! t)"
      using arg_cong[OF res', of "\<lambda>l. l ! t"] t len by simp
    from abof_Inr_rows[OF this]
    show "map (abof_row (fit_X knn)) (slice (zip X1 ind) (ss ! t)) = map Inr (result ! t)"
      by (simp add: slice_zip)
  qed
  have "map (map (abof_row (fit_X knn))) (map (slice (zip X1 ind)) ss) = map (map Inr) result"
    by (rule nth_equalityI) (use each len in auto)
  hence "concat (map (map (abof_row (fit_X knn))) (map (slice (zip X1 ind)) ss))
          = concat (map (map Inr) result)" by simp
  hence "map (abof_row (fit_X knn)) (concat (map (slice (zip X1 ind)) ss)) = map Inr (concat result)"
    by (simp add: map_concat)
  moreover have "concat (map (slice (zip X1 ind)) ss) = zip X1 ind"
    by (rule gen_even_slices_cover[OF ss]) simp
  ultimately have "map (abof_row (fit_X knn)) (zip X1 ind) = map Inr (concat result)" by simp
  moreover have "map uminus scores = concat result" by (simp add: sc comp_def)
  ultimately show ?thesis by (simp add: X1_def)
qed




lemma combinations2_map: "combinations2 (map f xs) = map (map_prod f f) (combinations2 xs)"
  by (induction xs) auto

lemma unordered_pairs_Cons:
  "unordered_pairs (x # xs) = map (Pair x) xs @ unordered_pairs xs"
proof -
  have a: "map (\<lambda>j. ((x # xs) ! 0, (x # xs) ! j)) [Suc 0 ..< length (x # xs)] = map (Pair x) xs"
  proof -
    have "[Suc 0 ..< length (x # xs)] = map Suc [0 ..< length xs]"
      by (simp add: map_Suc_upt)
    hence "map (\<lambda>j. ((x # xs) ! 0, (x # xs) ! j)) [Suc 0 ..< length (x # xs)]
            = map (\<lambda>j. (x, xs ! j)) [0 ..< length xs]"
      by (simp add: comp_def)
    also have "\<dots> = map (Pair x) (map (\<lambda>j. xs ! j) [0 ..< length xs])" by (simp add: comp_def)
    also have "\<dots> = map (Pair x) xs" by (simp add: map_nth)
    finally show ?thesis .
  qed
  have b: "map (\<lambda>i. map (\<lambda>j. ((x # xs) ! i, (x # xs) ! j)) [Suc i ..< length (x # xs)])
               [Suc 0 ..< length (x # xs)]
           = map (\<lambda>i. map (\<lambda>j. (xs ! i, xs ! j)) [Suc i ..< length xs]) [0 ..< length xs]"
  proof -
    have u: "[Suc 0 ..< length (x # xs)] = map Suc [0 ..< length xs]"
      by (simp add: map_Suc_upt)
    have "\<And>i. map (\<lambda>j. ((x # xs) ! Suc i, (x # xs) ! j)) [Suc (Suc i) ..< Suc (length xs)]
             = map (\<lambda>j. (xs ! i, xs ! j)) [Suc i ..< length xs]"
    proof -
      fix i
      have "[Suc (Suc i) ..< Suc (length xs)] = map Suc [Suc i ..< length xs]"
        by (simp add: map_Suc_upt)
      thus "map (\<lambda>j. ((x # xs) ! Suc i, (x # xs) ! j)) [Suc (Suc i) ..< Suc (length xs)]
             = map (\<lambda>j. (xs ! i, xs ! j)) [Suc i ..< length xs]"
        by (simp add: comp_def)
    qed
    thus ?thesis unfolding u by (simp add: comp_def)
  qed
  have "[0 ..< length (x # xs)] = 0 # [Suc 0 ..< length (x # xs)]"
    by (simp add: upt_rec)
  thus ?thesis unfolding unordered_pairs_def using a b by simp
qed

lemma combinations2_unordered_pairs: "combinations2 xs = unordered_pairs xs"
  by (induction xs) (simp_all add: unordered_pairs_Cons, simp add: unordered_pairs_def)

lemma dot_uminus: "dot (map uminus u) (map uminus v) = dot u v"
proof -
  have "map2 (*) (map uminus u) (map uminus v) = map2 (*) u (v::real list)"
    by (induction u arbitrary: v) (auto, case_tac v, auto)
  thus ?thesis by (simp add: dot_def)
qed

lemma map2_minus_swap: "map2 (-) a p = map uminus (map2 (-) p (a::real list))"
  by (induction a arbitrary: p) (auto, case_tac p, auto)

lemma sq_norm_dot: "sq_norm v = dot v v"
  by (simp add: sq_norm_def dot_def zip_same_conv_map comp_def power2_eq_square)

lemma term_eq_spec:
  "dot (map2 (-) a p) (map2 (-) b p) / dot (map2 (-) a p) (map2 (-) a p)
       / dot (map2 (-) b p) (map2 (-) b p)
   = normalized_inner_product p a b"
proof -
  have 1: "dot (map2 (-) a p) (map2 (-) b p) = dot (map2 (-) p a) (map2 (-) p b)"
    by (simp only: map2_minus_swap[of a p] map2_minus_swap[of b p] dot_uminus)
  have 2: "dot (map2 (-) a p) (map2 (-) a p) = sq_norm (map2 (-) p a)"
    by (simp only: map2_minus_swap[of a p] dot_uminus sq_norm_dot)
  have 3: "dot (map2 (-) b p) (map2 (-) b p) = sq_norm (map2 (-) p b)"
    by (simp only: map2_minus_swap[of b p] dot_uminus sq_norm_dot)
  show ?thesis by (simp add: 1 2 3 normalized_inner_product_def)
qed

lemma term_eq_spec':
  "dot (map2 (-) a p) (map2 (-) b p)
     / (dot (map2 (-) a p) (map2 (-) a p) * dot (map2 (-) b p) (map2 (-) b p))
   = normalized_inner_product p a b"
  using term_eq_spec[of a p b] by simp

lemma np_var_Finite: "xs \<noteq> [] \<Longrightarrow> np_var (map Finite xs) = Inr (variance xs)"
  by (simp add: np_var_def list_all_iff comp_def np_mean_def variance_def Let_def)

lemma np_var_Inr_D: "np_var row = Inr v \<Longrightarrow> \<exists>xs. row = map Finite xs \<and> xs \<noteq> []"
proof -
  assume h: "np_var row = Inr v"
  hence ne: "row \<noteq> []" and fin: "list_all (\<lambda>v. case v of Finite a \<Rightarrow> True | _ \<Rightarrow> False) row"
    by (auto simp: np_var_def split: if_splits)
  have "row = map Finite (map (\<lambda>v. case v of Finite a \<Rightarrow> a | _ \<Rightarrow> 0) row)"
    using fin by (induction row) (auto split: np_float.splits)
  thus ?thesis using ne by (metis map_is_Nil_conv)
qed

lemma abof_terms_Inr:
  assumes "abof_terms p ip F = Inr terms"
  shows "terms = map Finite (map (\<lambda>(a, b). normalized_inner_product p a b)
                               (unordered_pairs (map (\<lambda>j. F ! j) ip)))"
proof -
  let ?d = "\<lambda>a. map2 (-) a p"
  let ?combos = "combinations2 (map (\<lambda>j. ?d (F ! j)) ip)"
  from assms have s: "sequence_err (map (\<lambda>(pa, pb). abof_term pa pb) ?combos) = Inr terms"
    by (auto simp: abof_terms_def split: if_splits)
  hence m: "map (\<lambda>(pa, pb). abof_term pa pb) ?combos = map Inr terms"
    by (rule sequence_err_Inr_D)
  have c: "?combos = map (map_prod ?d ?d) (unordered_pairs (map (\<lambda>j. F ! j) ip))"
    using combinations2_map[of ?d "map (\<lambda>j. F ! j) ip"]
    by (simp add: comp_def combinations2_unordered_pairs)
  let ?U = "unordered_pairs (map (\<lambda>j. F ! j) ip)"
  have len: "length terms = length ?U" using arg_cong[OF m, of length] c by simp
  show ?thesis
  proof (rule nth_equalityI)
    show "length terms = length (map Finite (map (\<lambda>(a, b). normalized_inner_product p a b) ?U))"
      using len by simp
  next
    fix i assume i: "i < length terms"
    obtain a b where ab: "?U ! i = (a, b)" by (cases "?U ! i")
    have "abof_term (?d a) (?d b) = Inr (terms ! i)"
      using arg_cong[OF m, of "\<lambda>l. l ! i"] i len c ab by simp
    hence "terms ! i = Finite (dot (?d a) (?d b) / dot (?d a) (?d a) / dot (?d b) (?d b))"
      by (simp add: abof_term_char split: if_splits)
    thus "terms ! i = map Finite (map (\<lambda>(a, b). normalized_inner_product p a b) ?U) ! i"
      using i len ab by (simp add: term_eq_spec')
  qed
qed

lemma abof_row_spec:
  assumes "abof_row F (p, ip) = Inr v"
  shows "- v = abof_spec p (map (\<lambda>j. F ! j) ip)"
proof -
  from assms obtain terms where t: "abof_terms p ip F = Inr terms" and v: "np_var terms = Inr v"
    by (auto simp: abof_row_def split: sum.splits)
  let ?xs = "map (\<lambda>(a, b). normalized_inner_product p a b) (unordered_pairs (map (\<lambda>j. F ! j) ip))"
  have e: "terms = map Finite ?xs" by (rule abof_terms_Inr[OF t])
  from v have "terms \<noteq> []" by (auto simp: np_var_def split: if_splits)
  hence "?xs \<noteq> []" using e by auto
  hence "np_var (map Finite ?xs) = Inr (variance ?xs)" by (rule np_var_Finite)
  hence "v = variance ?xs" using v e by simp
  thus ?thesis by (simp add: abof_spec_def)
qed



subsection \<open>Construction-time validation\<close>

text \<open>
  C10. Constructing a detector with a hyperparameter outside its domain raises a
  configuration error (\<^verbatim>\<open>ValueError\<close>) from \<^verbatim>\<open>__init__\<close> itself, so no instance exists on
  which \<^verbatim>\<open>fit\<close> could be called: \<open>fpr\<close> outside \<open>[0, 1]\<close> for every family;
  \<open>n_neighbors \<le> 1\<close> or \<open>p < 1\<close> for FastABOD; \<open>bandwidth \<le> 0\<close> or an unlisted kernel for
  kernel density; \<open>alpha\<close> outside \<open>[0, 1]\<close>, \<open>max_iter \<le> 0\<close> or \<open>tol < 0\<close> for the Gaussian
  family; an unlisted \<open>covariance_type\<close> or \<open>n_components \<le> 0\<close> for the mixture family.
\<close>

theorem init_rejects_invalid_hyperparameters:
  "(fpr < 0 \<or> 1 < fpr \<or> n_neighbors \<le> 1 \<or> p < 1 \<longrightarrow>
      is_ValueError (FastABOD_init fpr metric mp n_jobs n_neighbors p))
   \<and> (fpr < 0 \<or> 1 < fpr \<or> bandwidth \<le> 0 \<or> kern \<notin> set VALID_KERNELS \<longrightarrow>
      is_ValueError (KernelDensityOutlierDetector_init bandwidth fpr kern metric mp
        :: error + 'a KernelDensityOutlierDetector))
   \<and> (fpr < 0 \<or> 1 < fpr \<or> alpha < 0 \<or> 1 < alpha \<or> max_iter \<le> 0 \<or> tol < 0 \<longrightarrow>
      is_ValueError (GaussianOutlierDetector_init alpha assume_centered fpr max_iter tol
        :: error + 'b GaussianOutlierDetector))
   \<and> (fpr < 0 \<or> 1 < fpr \<or> covariance_type \<notin> set VALID_COVARIANCE_TYPES
        \<or> n_components \<le> 0 \<longrightarrow>
      is_ValueError (GaussianMixtureOutlierDetector_init covariance_type fpr max_iter
        means_init n_components precisions_init random_state tol warm_start weights_init
        :: error + 'c GaussianMixtureOutlierDetector))
   \<and> (fpr < 0 \<or> 1 < fpr \<longrightarrow>
      is_ValueError (VMFOutlierDetector_init assume_normalized fpr))"
  by (simp add: is_ValueError_def FastABOD_init_def FastABOD_check_params_def
      KernelDensityOutlierDetector_init_def KernelDensityOutlierDetector_check_params_def
      GaussianOutlierDetector_init_def GaussianOutlierDetector_check_params_def
      GaussianMixtureOutlierDetector_init_def GaussianMixtureOutlierDetector_check_params_def
      VMFOutlierDetector_init_def VMFOutlierDetector_check_params_def Let_def)

theorem init_rejects_invalid_hyperparameters_witness:
  "is_ValueError (FastABOD_init (11/10) ''minkowski'' None 1 5 2)
   \<and> is_ValueError (FastABOD_init (1/100) ''minkowski'' None 1 1 2)
   \<and> is_ValueError (KernelDensityOutlierDetector_init 1 (1/100) ''triangular'' ''minkowski'' None
        :: error + unit KernelDensityOutlierDetector)
   \<and> is_ValueError (GaussianOutlierDetector_init (1/100) False (11/10) 100 (1/10000)
        :: error + unit GaussianOutlierDetector)
   \<and> is_ValueError (GaussianMixtureOutlierDetector_init ''banded'' (1/100) 100 None 1 None None
        (1/1000) False None :: error + unit GaussianMixtureOutlierDetector)
   \<and> is_ValueError (VMFOutlierDetector_init False (- (1/10)))"
proof -
  note R = init_rejects_invalid_hyperparameters
  have a: "is_ValueError (FastABOD_init (11/10) ''minkowski'' None 1 5 2)"
    by (rule R [THEN conjunct1, THEN mp]) simp
  have b: "is_ValueError (FastABOD_init (1/100) ''minkowski'' None 1 1 2)"
    by (rule R [THEN conjunct1, THEN mp]) simp
  have c: "is_ValueError (KernelDensityOutlierDetector_init 1 (1/100) ''triangular''
             ''minkowski'' None :: error + unit KernelDensityOutlierDetector)"
    by (rule R [THEN conjunct2, THEN conjunct1, THEN mp]) (simp add: VALID_KERNELS_def)
  have d: "is_ValueError (GaussianOutlierDetector_init (1/100) False (11/10) 100 (1/10000)
             :: error + unit GaussianOutlierDetector)"
    by (rule R [THEN conjunct2, THEN conjunct2, THEN conjunct1, THEN mp]) simp
  have e: "is_ValueError (GaussianMixtureOutlierDetector_init ''banded'' (1/100) 100 None 1
             None None (1/1000) False None :: error + unit GaussianMixtureOutlierDetector)"
    by (rule R [THEN conjunct2, THEN conjunct2, THEN conjunct2, THEN conjunct1, THEN mp])
      (simp add: VALID_COVARIANCE_TYPES_def)
  have f: "is_ValueError (VMFOutlierDetector_init False (- (1/10)))"
    by (rule R [THEN conjunct2, THEN conjunct2, THEN conjunct2, THEN conjunct2, THEN mp])
      simp
  from a b c d e f show ?thesis by simp
qed

text \<open>
  C7. For a fitted FastABOD detector, the anomaly score of each scored point \<open>p\<close> (a query
  row, or a training row when \<open>X\<close> is omitted) with neighbour indices \<open>I\<close> returned by the
  index is the negative of the variance, over all unordered pairs \<open>{a, b}\<close> of the
  neighbours \<open>fit_X[I]\<close>, of \<open>(p - a) \<cdot> (p - b) / (\<parallel>p - a\<parallel>\<^sup>2 \<parallel>p - b\<parallel>\<^sup>2)\<close>.
\<close>

theorem FastABOD_score_is_negative_variance:
  assumes "abod_knn self = Some knn"
      and "kneighbors be knn X = Inr ind"
      and "FastABOD_anomaly_score be self X = Inr scores"
      and "i < length (case X of None \<Rightarrow> fit_X knn | Some X' \<Rightarrow> X')"
      and "i < length ind"
  shows "i < length scores \<and>
         scores ! i = abof_spec ((case X of None \<Rightarrow> fit_X knn | Some X' \<Rightarrow> X') ! i)
                        (map (\<lambda>j. fit_X knn ! j) (ind ! i))"
proof -
  let ?Xq = "case X of None \<Rightarrow> fit_X knn | Some X' \<Rightarrow> X'"
  have rows: "map (abof_row (fit_X knn)) (zip ?Xq ind) = map Inr (map uminus scores)"
    by (rule anomaly_score_rows[OF assms(3) assms(1) assms(2)])
  have len: "length scores = length (zip ?Xq ind)"
    using arg_cong[OF rows, of length] by simp
  hence i: "i < length scores" using assms(4,5) by simp
  have "abof_row (fit_X knn) (?Xq ! i, ind ! i) = Inr (- scores ! i)"
    using arg_cong[OF rows, of "\<lambda>l. l ! i"] i len assms(4,5) by simp
  from abof_row_spec[OF this] i show ?thesis by simp
qed

lemma fit_train_example:
  "FastABOD_fit brute_neighbors abod_new abod_train = (abod_fitted, None)"
  by code_simp

theorem FastABOD_score_is_negative_variance_witness:
  "abod_knn abod_fitted = Some (abod_index abod_train)
   \<and> kneighbors brute_neighbors (abod_index abod_train) (Some [[1, 1]]) = Inr [[1, 0, 2]]
   \<and> FastABOD_anomaly_score brute_neighbors abod_fitted (Some [[1, 1]]) = Inr [- (1 / 6)]
   \<and> abof_spec [1, 1] [[1, 0], [0, 0], [0, 2]] = - (1 / 6)"
proof -
  have a: "abod_knn abod_fitted = Some (abod_index abod_train)"
    by code_simp
  have k: "kneighbors brute_neighbors (abod_index abod_train) (Some [[1, 1]]) = Inr [[1, 0, 2]]"
    by code_simp
  have s: "FastABOD_anomaly_score brute_neighbors abod_fitted (Some [[1, 1]]) = Inr [- (1 / 6)]"
    by code_simp
  have "[- (1 / 6)] ! 0 = abof_spec ((case Some [[1, 1]] of None \<Rightarrow> fit_X (abod_index abod_train)
                                        | Some X' \<Rightarrow> X') ! 0)
                              (map (\<lambda>j. fit_X (abod_index abod_train) ! j) ([[1, 0, 2]] ! 0))"
    using FastABOD_score_is_negative_variance[OF a k s, of 0] by simp
  hence "abof_spec [1, 1] [[1, 0], [0, 0], [0, 2]] = - (1 / 6)"
    by (simp add: abod_index_def abod_train_def)
  with a k s show ?thesis by simp
qed

lemma check_array_rect:
  assumes "check_array X = Inr X'"
  shows "X' = X \<and> X \<noteq> [] \<and> (\<forall>r\<in>set X. length r = length (hd X)) \<and> hd X \<noteq> []"
proof -
  have a: "X \<noteq> []"
  proof
    assume "X = []"
    hence "check_array X = Inl (ValueError ''Found array with 0 sample(s)'')"
      by (simp add: check_array_def)
    with assms show False by simp
  qed
  have b: "\<not> list_ex (\<lambda>r. length r \<noteq> length (hd X)) X"
  proof
    assume "list_ex (\<lambda>r. length r \<noteq> length (hd X)) X"
    hence "check_array X = Inl (ValueError ''setting an array element with a sequence'')"
      using a by (simp only: check_array_def if_True if_False)
    with assms show False by simp
  qed
  have c: "hd X \<noteq> []"
  proof
    assume "hd X = []"
    hence "check_array X = Inl (ValueError ''Found array with 0 feature(s)'')"
      using a b by (simp add: check_array_def)
    with assms show False by simp
  qed
  have "check_array X = Inr X" using a b c by (simp only: check_array_def if_False)
  with assms have d: "X' = X" by simp
  from b have "\<forall>r\<in>set X. length r = length (hd X)" unfolding list_ex_iff by blast
  with a c d show ?thesis by blast
qed

lemma check_array_Inr_iff:
  "check_array X = Inr X' \<longleftrightarrow>
     X' = X \<and> X \<noteq> [] \<and> (\<forall>r\<in>set X. length r = length (hd X)) \<and> hd X \<noteq> []"
proof
  assume "check_array X = Inr X'" thus "X' = X \<and> X \<noteq> [] \<and> (\<forall>r\<in>set X. length r = length (hd X)) \<and> hd X \<noteq> []"
    by (rule check_array_rect)
next
  assume h: "X' = X \<and> X \<noteq> [] \<and> (\<forall>r\<in>set X. length r = length (hd X)) \<and> hd X \<noteq> []"
  hence "\<not> list_ex (\<lambda>r. length r \<noteq> length (hd X)) X" unfolding list_ex_iff by blast
  moreover from h have "X \<noteq> []" "hd X \<noteq> []" "X' = X" by blast+
  ultimately show "check_array X = Inr X'" by (simp only: check_array_def if_False)
qed

lemma check_array_idem: "check_array X = Inr X' \<Longrightarrow> check_array X' = Inr X'"
proof -
  assume a: "check_array X = Inr X'"
  from check_array_rect[OF a] have "X' = X" by blast
  with a show ?thesis by simp
qed



lemma combinations2_members:
  "2 \<le> length xs \<Longrightarrow> x \<in> set xs \<Longrightarrow>
     \<exists>y. (x, y) \<in> set (combinations2 xs) \<or> (y, x) \<in> set (combinations2 xs)"
proof (induction xs)
  case Nil
  then show ?case by simp
next
  case (Cons a xs)
  show ?case
  proof (cases "x = a")
    case True
    from Cons.prems obtain b where "b \<in> set xs" by (cases xs) auto
    hence "(x, b) \<in> set (combinations2 (a # xs))" using True by auto
    thus ?thesis by blast
  next
    case False
    hence "x \<in> set xs" using Cons.prems by simp
    hence "(a, x) \<in> set (combinations2 (a # xs))" by auto
    thus ?thesis by blast
  qed
qed

lemma combinations2_Nil_iff: "combinations2 xs = [] \<longleftrightarrow> length xs < 2"
  by (induction xs) (auto simp: less_Suc_eq_0_disj)

lemma abof_term_error: "abof_term pa pb = Inl e \<Longrightarrow> e = FloatingPointError"
  by (simp add: abof_term_char split: if_splits)

lemma np_var_error: "np_var row = Inl e \<Longrightarrow> e = FloatingPointError"
  by (simp add: np_var_def Let_def split: if_splits)

lemma dot_diff_self: "dot (map2 (-) p p) (map2 (-) p p) = 0"
proof -
  have "\<forall>x\<in>set (map2 (-) p p). x = 0" by (induction p) auto
  hence "\<forall>x\<in>set (map2 (*) (map2 (-) p p) (map2 (-) p p)). x = 0"
    by (auto dest!: set_zip_leftD)
  thus ?thesis unfolding dot_def by (rule sum_list_all_zero)
qed

text \<open>A row whose indices are in range and whose neighbours have the dimension of the
  sample can only raise \<^verbatim>\<open>FloatingPointError\<close>.\<close>

lemma abof_row_error:
  assumes "\<forall>j\<in>set ip. j < length F \<and> length (F ! j) = length p"
      and "abof_row F (p, ip) = Inl e"
  shows "e = FloatingPointError"
proof -
  have t: "abof_terms p ip F = sequence_err (map (\<lambda>(pa, pb). abof_term pa pb)
             (combinations2 (map (\<lambda>j. map2 (-) (F ! j) p) ip)))"
    using assms(1) by (auto simp: abof_terms_def list_ex_iff)
  show ?thesis
  proof (cases "abof_terms p ip F")
    case (Inl e')
    hence "e' = e" using assms(2) by (simp add: abof_row_def)
    moreover from Inl t have "Inl e' \<in> set (map (\<lambda>(pa, pb). abof_term pa pb)
             (combinations2 (map (\<lambda>j. map2 (-) (F ! j) p) ip)))"
      using sequence_err_Inl by metis
    then obtain pa pb where "abof_term pa pb = Inl e'" by auto
    ultimately show ?thesis using abof_term_error by blast
  next
    case (Inr r)
    hence "np_var r = Inl e" using assms(2) by (simp add: abof_row_def)
    thus ?thesis by (rule np_var_error)
  qed
qed

lemma abof_row_overlap:
  assumes "\<forall>j\<in>set ip. j < length F \<and> length (F ! j) = length p"
      and "j \<in> set ip" and "F ! j = p"
  shows "abof_row F (p, ip) = Inl FloatingPointError"
proof -
  let ?ds = "map (\<lambda>j. map2 (-) (F ! j) p) ip"
  have t: "abof_terms p ip F = sequence_err (map (\<lambda>(pa, pb). abof_term pa pb) (combinations2 ?ds))"
    using assms(1) by (auto simp: abof_terms_def list_ex_iff)
  have d: "map2 (-) p p \<in> set ?ds" using assms(2,3) by force
  show ?thesis
  proof (cases "abof_row F (p, ip)")
    case (Inl e)
    thus ?thesis using abof_row_error[OF assms(1) Inl] by simp
  next
    case (Inr v)
    then obtain terms where tr: "abof_terms p ip F = Inr terms" and v: "np_var terms = Inr v"
      by (auto simp: abof_row_def split: sum.splits)
    from v have ne: "terms \<noteq> []" by (auto simp: np_var_def split: if_splits)
    from tr t have m: "map (\<lambda>(pa, pb). abof_term pa pb) (combinations2 ?ds) = map Inr terms"
      using sequence_err_Inr_D by metis
    hence "combinations2 ?ds \<noteq> []" using ne by auto
    hence "2 \<le> length ?ds" using combinations2_Nil_iff[of ?ds] by simp
    from combinations2_members[OF this d] obtain y where
      y: "(map2 (-) p p, y) \<in> set (combinations2 ?ds) \<or> (y, map2 (-) p p) \<in> set (combinations2 ?ds)"
      by blast
    have all: "\<forall>z\<in>set (combinations2 ?ds). \<exists>w. (case z of (pa, pb) \<Rightarrow> abof_term pa pb) = Inr w"
    proof
      fix z assume "z \<in> set (combinations2 ?ds)"
      hence "(case z of (pa, pb) \<Rightarrow> abof_term pa pb) \<in> set (map Inr terms)"
        using m by (metis (no_types, lifting) image_eqI set_map)
      thus "\<exists>w. (case z of (pa, pb) \<Rightarrow> abof_term pa pb) = Inr w" by auto
    qed
    from y all have "(\<exists>w. abof_term (map2 (-) p p) y = Inr w) \<or> (\<exists>w. abof_term y (map2 (-) p p) = Inr w)"
      by fastforce
    hence False by (auto simp: abof_term_char dot_diff_self)
    thus ?thesis ..
  qed
qed

lemma abof_Inl_D:
  assumes "abof X ind F = Inl e" "zip X ind \<noteq> []"
  shows "\<exists>z\<in>set (zip X ind). abof_row F z = Inl e"
proof (cases "sequence_err (map (\<lambda>(p, ind_p). abof_terms p ind_p F) (zip X ind))")
  case (Inl e')
  hence "e' = e" using assms(1) by (simp add: abof_def)
  moreover from Inl have "Inl e' \<in> set (map (\<lambda>(p, ind_p). abof_terms p ind_p F) (zip X ind))"
    by (rule sequence_err_Inl)
  ultimately obtain z where "z \<in> set (zip X ind)" "abof_terms (fst z) (snd z) F = Inl e"
    by (auto simp: case_prod_beta)
  thus ?thesis by (auto simp: abof_row_def intro!: bexI[of _ z])
next
  case (Inr rows)
  hence m: "map (\<lambda>(p, ind_p). abof_terms p ind_p F) (zip X ind) = map Inr rows"
    by (rule sequence_err_Inr_D)
  have len: "length rows = length (zip X ind)" using arg_cong[OF m, of length] by simp
  have "rows \<noteq> []" using len assms(2) by (metis length_0_conv)
  hence "sequence_err (map np_var rows) = Inl e" using assms(1) Inr by (simp add: abof_def)
  hence "Inl e \<in> set (map np_var rows)" by (rule sequence_err_Inl)
  then obtain t where t: "t < length rows" "np_var (rows ! t) = Inl e"
    by (auto simp: in_set_conv_nth)
  have "abof_terms (fst (zip X ind ! t)) (snd (zip X ind ! t)) F = Inr (rows ! t)"
    using arg_cong[OF m, of "\<lambda>l. l ! t"] t len by (simp add: case_prod_beta)
  hence "abof_row F (zip X ind ! t) = Inl e" using t by (simp add: abof_row_def)
  moreover have "zip X ind ! t \<in> set (zip X ind)" using t len by (metis nth_mem)
  ultimately show ?thesis by blast
qed

lemma even_slices_bounds:
  "s \<in> set (even_slices_from n k start packs) \<Longrightarrow>
     fst s < snd s \<and> start \<le> fst s \<and> snd s \<le> start + sum_list (map (pack_size n k) packs)"
proof (induction packs arbitrary: start)
  case Nil
  then show ?case by simp
next
  case (Cons p packs)
  show ?case
  proof (cases "0 < pack_size n k p")
    case True
    from Cons.prems True have
      "s = (start, start + pack_size n k p)
       \<or> s \<in> set (even_slices_from n k (start + pack_size n k p) packs)"
      by (simp add: pack_size_def Let_def)
    thus ?thesis
    proof
      assume "s = (start, start + pack_size n k p)"
      thus ?thesis using True by simp
    next
      assume "s \<in> set (even_slices_from n k (start + pack_size n k p) packs)"
      from Cons.IH[OF this] show ?thesis by simp
    qed
  next
    case False
    with Cons.prems have "s \<in> set (even_slices_from n k start packs)"
      by (simp add: pack_size_def Let_def)
    from Cons.IH[OF this] show ?thesis by simp
  qed
qed

lemma gen_even_slices_nonempty:
  assumes "gen_even_slices n n_jobs = Inr ss" "s \<in> set ss" "length xs = n"
  shows "slice xs s \<noteq> []"
proof -
  from assms(1) have k: "1 \<le> n_jobs" and ss: "ss = even_slices_from n (nat n_jobs) 0 [0 ..< nat n_jobs]"
    by (auto simp: gen_even_slices_def split: if_splits)
  have "0 < nat n_jobs" using k by simp
  hence "sum_list (map (pack_size n (nat n_jobs)) [0 ..< nat n_jobs]) = n" by (rule sum_pack_size)
  with even_slices_bounds[of s n "nat n_jobs" 0 "[0 ..< nat n_jobs]"] assms(2) ss
  have "fst s < snd s \<and> snd s \<le> n" by simp
  thus ?thesis using assms(3) by (simp add: slice_def)
qed




lemma gen_even_slices_ex: "1 \<le> n_jobs \<Longrightarrow> \<exists>ss. gen_even_slices n n_jobs = Inr ss"
  by (simp add: gen_even_slices_def)

text \<open>
  C8. For a fitted FastABOD detector, if a query row coincides with a training row that is
  among the neighbours returned for it (so that a denominator of \<^verbatim>\<open>_abof\<close> is zero),
  \<^verbatim>\<open>anomaly_score\<close> raises the \<^verbatim>\<open>ValueError\<close> "X must not contain training samples"
  instead of returning scores. The index is assumed to answer as scikit-learn's does: one
  row of in-range indices per query row, for queries of the training dimension.
\<close>

theorem FastABOD_overlap_raises:
  assumes knn: "abod_knn self = Some knn"
      and chk: "check_array X = Inr X"
      and kn: "kneighbors be knn (Some X) = Inr ind"
      and len: "length ind = length X"
      and jobs: "1 \<le> abod_n_jobs self"
      and inrange: "\<forall>ip\<in>set ind. \<forall>j\<in>set ip. j < length (fit_X knn)"
      and dims: "\<forall>r\<in>set (fit_X knn). length r = length (hd X)"
      and i: "i < length X" and j: "j \<in> set (ind ! i)" and eq: "fit_X knn ! j = X ! i"
  shows "FastABOD_anomaly_score be self (Some X)
           = Inl (ValueError ''X must not contain training samples'')"
proof -
  let ?F = "fit_X knn"
  let ?Z = "zip X ind"
  from check_array_rect[OF chk] have rect: "\<forall>r\<in>set X. length r = length (hd X)"
    by blast
  have ok: "\<And>p ip. (p, ip) \<in> set ?Z \<Longrightarrow>
              \<forall>j\<in>set ip. j < length ?F \<and> length (?F ! j) = length p"
  proof
    fix p ip j assume z: "(p, ip) \<in> set ?Z" and jj: "j \<in> set ip"
    have pX: "p \<in> set X" using z by (rule set_zip_leftD)
    have iI: "ip \<in> set ind" using z by (rule set_zip_rightD)
    have 1: "j < length ?F" using inrange iI jj by blast
    hence "?F ! j \<in> set ?F" by simp
    hence "length (?F ! j) = length (hd X)" using dims by blast
    moreover have "length p = length (hd X)" using rect pX by blast
    ultimately show "j < length ?F \<and> length (?F ! j) = length p" using 1 by simp
  qed
  have only: "\<And>z e. z \<in> set ?Z \<Longrightarrow> abof_row ?F z = Inl e \<Longrightarrow> e = FloatingPointError"
  proof -
    fix z e assume z: "z \<in> set ?Z" and e: "abof_row ?F z = Inl e"
    obtain p ip where pz: "z = (p, ip)" by (cases z)
    have "\<forall>j\<in>set ip. j < length ?F \<and> length (?F ! j) = length p" using ok z pz by blast
    from abof_row_error[OF this, of e] e pz show "e = FloatingPointError" by simp
  qed
  have zi: "?Z ! i = (X ! i, ind ! i)" using i len by simp
  have "i < length ?Z" using i len by simp
  hence "?Z ! i \<in> set ?Z" by (rule nth_mem)
  hence zim: "(X ! i, ind ! i) \<in> set ?Z" using zi by simp
  have bad: "abof_row ?F (X ! i, ind ! i) = Inl FloatingPointError"
    by (rule abof_row_overlap[OF ok[OF zim] j eq])
  from gen_even_slices_ex[OF jobs] obtain ss where
    ss: "gen_even_slices (length X) (abod_n_jobs self) = Inr ss" by blast
  have cover: "concat (map (slice ?Z) ss) = ?Z"
    by (rule gen_even_slices_cover[OF ss]) simp
  let ?rs = "map (\<lambda>s. abof (slice X s) (slice ind s) ?F) ss"
  have errs: "\<And>e. Inl e \<in> set ?rs \<Longrightarrow> e = FloatingPointError"
  proof -
    fix e assume "Inl e \<in> set ?rs"
    then obtain s where s: "s \<in> set ss" "abof (slice X s) (slice ind s) ?F = Inl e" by auto
    have "slice ?Z s \<noteq> []" by (rule gen_even_slices_nonempty[OF ss s(1)]) (simp add: len)
    hence "zip (slice X s) (slice ind s) \<noteq> []" by (simp add: slice_zip)
    from abof_Inl_D[OF s(2) this] obtain z where
      z: "z \<in> set (slice ?Z s)" "abof_row ?F z = Inl e" by (auto simp: slice_zip)
    have "z \<in> set (drop (fst s) ?Z)" using z(1) unfolding slice_def by (rule in_set_takeD)
    hence "z \<in> set ?Z" by (rule in_set_dropD)
    thus "e = FloatingPointError" using only z(2) by blast
  qed
  have "(X ! i, ind ! i) \<in> set (concat (map (slice ?Z) ss))" unfolding cover by (rule zim)
  hence "\<exists>s\<in>set ss. (X ! i, ind ! i) \<in> set (slice ?Z s)" unfolding set_concat set_map by blast
  then obtain s where s: "s \<in> set ss" "(X ! i, ind ! i) \<in> set (slice ?Z s)" by blast
  have "\<exists>e. abof (slice X s) (slice ind s) ?F = Inl e"
  proof (cases "abof (slice X s) (slice ind s) ?F")
    case (Inl e) thus ?thesis by blast
  next
    case (Inr ys)
    from abof_Inr_rows[OF this] have "map (abof_row ?F) (slice ?Z s) = map Inr ys"
      by (simp add: slice_zip)
    moreover have "abof_row ?F (X ! i, ind ! i) \<in> set (map (abof_row ?F) (slice ?Z s))"
      unfolding set_map using s(2) by (rule imageI)
    ultimately have "Inl FloatingPointError \<in> set (map Inr ys)" using bad by simp
    hence False by auto
    thus ?thesis ..
  qed
  then obtain e0 where e0: "abof (slice X s) (slice ind s) ?F = Inl e0" by blast
  have "Inl e0 \<in> (\<lambda>s. abof (slice X s) (slice ind s) ?F) ` set ss"
    by (rule image_eqI[where x = s]) (simp_all add: s(1) e0)
  hence "Inl e0 \<in> set ?rs" unfolding set_map .
  from sequence_err_ex_Inl[OF this] obtain e where e: "sequence_err ?rs = Inl e" by blast
  from sequence_err_Inl[OF e] errs have "e = FloatingPointError" by blast
  with e have r: "sequence_err ?rs = Inl FloatingPointError" by simp
  show ?thesis
    unfolding FastABOD_anomaly_score_def by (simp add: knn chk kn ss r)
qed




theorem FastABOD_overlap_raises_witness:
  "abod_knn abod_fitted = Some (abod_index abod_train)
   \<and> check_array [[1, 0]] = Inr [[1, 0]]
   \<and> kneighbors brute_neighbors (abod_index abod_train) (Some [[1, 0]]) = Inr [[1, 0, 2]]
   \<and> fit_X (abod_index abod_train) ! 1 = [[1, 0]] ! 0
   \<and> FastABOD_anomaly_score brute_neighbors abod_fitted (Some [[1, 0]])
        = Inl (ValueError ''X must not contain training samples'')"
proof -
  have a: "abod_knn abod_fitted = Some (abod_index abod_train)" by code_simp
  have c: "check_array [[1, 0]] = Inr [[1, 0]]" by code_simp
  have k: "kneighbors brute_neighbors (abod_index abod_train) (Some [[1, 0]]) = Inr [[1, 0, 2]]"
    by code_simp
  have l: "length [[1, 0, 2 :: nat]] = length [[1, 0 :: real]]" by simp
  have n: "1 \<le> abod_n_jobs abod_fitted" by code_simp
  have r: "\<forall>ip\<in>set [[1, 0, 2]]. \<forall>j\<in>set ip. j < length (fit_X (abod_index abod_train))"
    by code_simp
  have d: "\<forall>r\<in>set (fit_X (abod_index abod_train)). length r = length (hd [[1, 0 :: real]])"
    by code_simp
  have i: "0 < length [[1, 0 :: real]]" by simp
  have j: "1 \<in> set ([[1, 0, 2 :: nat]] ! 0)" by simp
  have e: "fit_X (abod_index abod_train) ! 1 = [[1, 0]] ! 0" by code_simp
  from FastABOD_overlap_raises[OF a c k l n r d i j e] a c k e show ?thesis by simp
qed

subsection \<open>What a call of \<^verbatim>\<open>fit\<close> leaves behind\<close>

lemma FastABOD_anomaly_score_cong:
  "abod_knn s = abod_knn s' \<Longrightarrow> abod_n_jobs s = abod_n_jobs s' \<Longrightarrow>
     FastABOD_anomaly_score be s X = FastABOD_anomaly_score be s' X"
  by (simp add: FastABOD_anomaly_score_def cong: option.case_cong sum.case_cong)

lemma FastABOD_fit_cases:
  "FastABOD_fit be self X =
     (case check_array X of
        Inl e \<Rightarrow> (self, Some e)
      | Inr X1 \<Rightarrow>
          (case NearestNeighbors_fit be (abod_metric self) (abod_metric_params self)
                  (abod_n_jobs self) (abod_n_neighbors self) (abod_p self) X1 of
             Inl e \<Rightarrow> (self, Some e)
           | Inr knn \<Rightarrow>
               (case FastABOD_anomaly_score be (self\<lparr>abod_knn := Some knn\<rparr>) None of
                  Inl e \<Rightarrow> (self\<lparr>abod_knn := Some knn\<rparr>, Some e)
                | Inr y \<Rightarrow>
                    (case np_percentile y (100 * (1 - abod_fpr self)) of
                       Inl e \<Rightarrow> (self\<lparr>abod_knn := Some knn, abod_y_score := Some y\<rparr>, Some e)
                     | Inr t \<Rightarrow> (self\<lparr>abod_knn := Some knn, abod_y_score := Some y,
                                        abod_threshold := Some t\<rparr>, None)))))"
  by (simp add: FastABOD_fit_def Let_def split: sum.splits)

lemma FastABOD_fit_success:
  assumes "FastABOD_fit be self X = (s, None)"
  shows "\<exists>knn y t. check_array X = Inr X
           \<and> NearestNeighbors_fit be (abod_metric self) (abod_metric_params self)
                 (abod_n_jobs self) (abod_n_neighbors self) (abod_p self) X = Inr knn
           \<and> FastABOD_anomaly_score be (self\<lparr>abod_knn := Some knn\<rparr>) None = Inr y
           \<and> np_percentile y (100 * (1 - abod_fpr self)) = Inr t
           \<and> s = self\<lparr>abod_knn := Some knn, abod_y_score := Some y, abod_threshold := Some t\<rparr>"
proof -
  from assms obtain X1 where c: "check_array X = Inr X1"
    by (cases "check_array X") (simp_all add: FastABOD_fit_cases)
  from check_array_rect[OF c] have x: "X1 = X" by blast
  from assms c x show ?thesis
    by (simp add: FastABOD_fit_cases split: sum.splits)
qed

lemma KDE_fit_cases:
  "KernelDensityOutlierDetector_fit be self X =
     (case check_array X of
        Inl e \<Rightarrow> (self, Some e)
      | Inr X1 \<Rightarrow>
          (case KernelDensity_fit be (kde_bandwidth self) (kde_kernel self) (kde_metric self)
                  (kde_metric_params self) X1 of
             Inl e \<Rightarrow> (self, Some e)
           | Inr kde \<Rightarrow>
               (case kde_score_samples be kde X1 of
                  Inl e \<Rightarrow> (self\<lparr>kde_kde := Some kde\<rparr>, Some e)
                | Inr ld \<Rightarrow>
                    (case np_percentile (map uminus ld) (100 * (1 - kde_fpr self)) of
                       Inl e \<Rightarrow> (self\<lparr>kde_kde := Some kde,
                                        kde_y_score := Some (map uminus ld)\<rparr>, Some e)
                     | Inr t \<Rightarrow> (self\<lparr>kde_kde := Some kde,
                                        kde_y_score := Some (map uminus ld),
                                        kde_threshold := Some t\<rparr>, None)))))"
proof (cases "check_array X")
  case (Inl e)
  then show ?thesis by (simp add: KernelDensityOutlierDetector_fit_def)
next
  case (Inr X1)
  hence i: "check_array X1 = Inr X1" by (rule check_array_idem)
  show ?thesis
    by (simp add: KernelDensityOutlierDetector_fit_def Inr i Let_def
        KernelDensityOutlierDetector_anomaly_score_def split: sum.splits)
qed

lemma GMM_fit_cases:
  "GaussianMixtureOutlierDetector_fit be self X =
     (case check_array X of
        Inl e \<Rightarrow> (self, Some e)
      | Inr X1 \<Rightarrow>
          (case GaussianMixture_fit be (gmm_covariance_type self) (gmm_max_iter self)
                  (gmm_means_init self) (gmm_n_components self) (gmm_precisions_init self)
                  (gmm_random_state self) (gmm_tol self) (gmm_warm_start self)
                  (gmm_weights_init self) X1 of
             Inl e \<Rightarrow> (self, Some e)
           | Inr gmm \<Rightarrow>
               (case gmm_score_samples be gmm X1 of
                  Inl e \<Rightarrow> (self\<lparr>gmm_gmm := Some gmm\<rparr>, Some e)
                | Inr ll \<Rightarrow>
                    (case np_percentile (map uminus ll) (100 * (1 - gmm_fpr self)) of
                       Inl e \<Rightarrow> (self\<lparr>gmm_gmm := Some gmm,
                                        gmm_y_score := Some (map uminus ll)\<rparr>, Some e)
                     | Inr t \<Rightarrow> (self\<lparr>gmm_gmm := Some gmm,
                                        gmm_y_score := Some (map uminus ll),
                                        gmm_threshold := Some t\<rparr>, None)))))"
proof (cases "check_array X")
  case (Inl e)
  then show ?thesis by (simp add: GaussianMixtureOutlierDetector_fit_def)
next
  case (Inr X1)
  hence i: "check_array X1 = Inr X1" by (rule check_array_idem)
  show ?thesis
    by (simp add: GaussianMixtureOutlierDetector_fit_def Inr i Let_def
        GaussianMixtureOutlierDetector_anomaly_score_def split: sum.splits)
qed

text \<open>The Gaussian detector up to the scalar threshold; the feature-wise part follows it.\<close>

lemma Gaussian_fit_prefix:
  assumes "check_array X = Inr X1"
      and "GraphLasso_fit be (gauss_alpha self) (gauss_assume_centered self)
             (gauss_max_iter self) (gauss_tol self) X1 = Inr g"
      and "mahalanobis be g X1 = Inr y"
      and "chi2_fit chi2 (map Finite y) = Inr (df, loc, scale)"
  shows "gauss_glasso (fst (GaussianOutlierDetector_fit be chi2 self X)) = Some g
       \<and> gauss_y_score (fst (GaussianOutlierDetector_fit be chi2 self X)) = Some y
       \<and> gauss_threshold (fst (GaussianOutlierDetector_fit be chi2 self X))
           = Some (chi2_ppf chi2 (1 - gauss_fpr self) df loc scale)
       \<and> gauss_fpr (fst (GaussianOutlierDetector_fit be chi2 self X)) = gauss_fpr self"
proof -
  have i: "check_array X1 = Inr X1" using assms(1) by (rule check_array_idem)
  show ?thesis
    by (simp add: GaussianOutlierDetector_fit_def assms i Let_def
        GaussianOutlierDetector_anomaly_score_def
        GaussianOutlierDetector_feature_wise_anomaly_score_def split: sum.splits)
qed

lemma Gaussian_fit_success:
  assumes "GaussianOutlierDetector_fit be chi2 self X = (s, None)"
  shows "\<exists>g y df loc scale. check_array X = Inr X
           \<and> GraphLasso_fit be (gauss_alpha self) (gauss_assume_centered self)
                 (gauss_max_iter self) (gauss_tol self) X = Inr g
           \<and> mahalanobis be g X = Inr y
           \<and> chi2_fit chi2 (map Finite y) = Inr (df, loc, scale)
           \<and> gauss_glasso s = Some g \<and> gauss_y_score s = Some y
           \<and> gauss_threshold s = Some (chi2_ppf chi2 (1 - gauss_fpr self) df loc scale)
           \<and> gauss_fpr s = gauss_fpr self"
proof -
  from assms obtain X1 where c: "check_array X = Inr X1"
    by (cases "check_array X") (simp_all add: GaussianOutlierDetector_fit_def)
  from check_array_rect[OF c] have x: "X1 = X" by blast
  have i: "check_array X1 = Inr X1" using c by (rule check_array_idem)
  from assms c obtain g where g: "GraphLasso_fit be (gauss_alpha self) (gauss_assume_centered self)
                 (gauss_max_iter self) (gauss_tol self) X1 = Inr g"
    by (cases "GraphLasso_fit be (gauss_alpha self) (gauss_assume_centered self)
                 (gauss_max_iter self) (gauss_tol self) X1")
       (simp_all add: GaussianOutlierDetector_fit_def)
  from assms c g i obtain y where y: "mahalanobis be g X1 = Inr y"
    by (cases "mahalanobis be g X1")
       (simp_all add: GaussianOutlierDetector_fit_def Let_def
          GaussianOutlierDetector_anomaly_score_def)
  from assms c g i y obtain df loc scale where f: "chi2_fit chi2 (map Finite y) = Inr (df, loc, scale)"
    by (cases "chi2_fit chi2 (map Finite y)")
       (auto simp add: GaussianOutlierDetector_fit_def Let_def
          GaussianOutlierDetector_anomaly_score_def)
  from Gaussian_fit_prefix[OF c g y f] assms c g y f x show ?thesis by auto
qed

lemma VMF_fit_success:
  assumes "VMFOutlierDetector_fit chi2 self X = (s, None)"
  shows "\<exists>y df loc scale. vmf_y_score s = Some y
           \<and> chi2_fit chi2 y = Inr (df, loc, scale)
           \<and> vmf_threshold s = Some (chi2_ppf chi2 (1 - vmf_fpr self) df loc scale)
           \<and> vmf_normalizer s = Some () \<and> vmf_fpr s = vmf_fpr self
           \<and> vmf_assume_normalized s = vmf_assume_normalized self"
  using assms
  by (auto simp add: VMFOutlierDetector_fit_def Let_def VMFOutlierDetector_anomaly_score_def
      split: sum.splits option.splits if_splits)

lemma KDE_fit_success:
  assumes "KernelDensityOutlierDetector_fit be self X = (s, None)"
  shows "\<exists>kde ld t. check_array X = Inr X
           \<and> KernelDensity_fit be (kde_bandwidth self) (kde_kernel self) (kde_metric self)
                 (kde_metric_params self) X = Inr kde
           \<and> kde_score_samples be kde X = Inr ld
           \<and> np_percentile (map uminus ld) (100 * (1 - kde_fpr self)) = Inr t
           \<and> s = self\<lparr>kde_kde := Some kde, kde_y_score := Some (map uminus ld),
                      kde_threshold := Some t\<rparr>"
proof -
  from assms obtain X1 where c: "check_array X = Inr X1"
    by (cases "check_array X") (simp_all add: KDE_fit_cases)
  from check_array_rect[OF c] have x: "X1 = X" by blast
  from assms c x show ?thesis
    by (simp add: KDE_fit_cases split: sum.splits)
qed

lemma GMM_fit_success:
  assumes "GaussianMixtureOutlierDetector_fit be self X = (s, None)"
  shows "\<exists>gmm ll t. check_array X = Inr X
           \<and> GaussianMixture_fit be (gmm_covariance_type self) (gmm_max_iter self)
                  (gmm_means_init self) (gmm_n_components self) (gmm_precisions_init self)
                  (gmm_random_state self) (gmm_tol self) (gmm_warm_start self)
                  (gmm_weights_init self) X = Inr gmm
           \<and> gmm_score_samples be gmm X = Inr ll
           \<and> np_percentile (map uminus ll) (100 * (1 - gmm_fpr self)) = Inr t
           \<and> s = self\<lparr>gmm_gmm := Some gmm, gmm_y_score := Some (map uminus ll),
                      gmm_threshold := Some t\<rparr>"
proof -
  from assms obtain X1 where c: "check_array X = Inr X1"
    by (cases "check_array X") (simp_all add: GMM_fit_cases)
  from check_array_rect[OF c] have x: "X1 = X" by blast
  from assms c x show ?thesis
    by (simp add: GMM_fit_cases split: sum.splits)
qed

lemma np_percentile_Inr:
  "0 \<le> q \<Longrightarrow> q \<le> 100 \<Longrightarrow> \<exists>t. np_percentile a q = Inr t"
  by (simp add: np_percentile_def Let_def)

lemma sequence_err_all_Inr:
  "(\<And>x. x \<in> set xs \<Longrightarrow> \<exists>y. f x = Inr y) \<Longrightarrow> \<exists>ys. sequence_err (map f xs) = Inr ys"
proof (induction xs)
  case Nil
  then show ?case by simp
next
  case (Cons a xs)
  from Cons.prems[of a] obtain y where y: "f a = Inr y" by auto
  from Cons.IH Cons.prems obtain ys where "sequence_err (map f xs) = Inr ys" by auto
  with y show ?case by simp
qed

lemma Gaussian_fit_ok:
  assumes "check_array X = Inr X1"
      and "GraphLasso_fit be (gauss_alpha self) (gauss_assume_centered self)
             (gauss_max_iter self) (gauss_tol self) X1 = Inr g"
      and "mahalanobis be g X1 = Inr y"
      and "chi2_fit chi2 (map Finite y) = Inr (df, loc, scale)"
      and "0 \<le> gauss_fpr self" "gauss_fpr self \<le> 1"
  shows "snd (GaussianOutlierDetector_fit be chi2 self X) = None"
proof -
  have i: "check_array X1 = Inr X1" using assms(1) by (rule check_array_idem)
  have q: "0 \<le> 100 * (1 - gauss_fpr self)" "100 * (1 - gauss_fpr self) \<le> 100"
    using assms(5,6) by simp_all
  have "\<And>Y. \<exists>ts. sequence_err (map (\<lambda>col. np_percentile col (100 * (1 - gauss_fpr self)))
                                  (transpose Y)) = Inr ts"
    by (rule sequence_err_all_Inr) (rule np_percentile_Inr[OF q])
  hence p: "\<And>Y. \<exists>ts. sequence_err (map (\<lambda>col. np_percentile col (100 * (1 - gauss_fpr self)))
                                  (transpose Y)) = Inr ts" .
  obtain Y where Y: "GaussianOutlierDetector_feature_wise_anomaly_score be
      (self\<lparr>gauss_glasso := Some g, gauss_y_score := Some y,
             gauss_threshold := Some (chi2_ppf chi2 (1 - gauss_fpr self) df loc scale)\<rparr>)
      (Some X1) = Inr Y"
    by (simp add: GaussianOutlierDetector_feature_wise_anomaly_score_def i)
  from p[of Y] obtain ts where ts: "sequence_err (map (\<lambda>col. np_percentile col
                  (100 * (1 - gauss_fpr self))) (transpose Y)) = Inr ts" by blast
  have ts': "sequence_err (map (\<lambda>col. np_percentile col (100 - 100 * gauss_fpr self))
                             (transpose Y)) = Inr ts"
    using ts by (simp add: algebra_simps)
  show ?thesis
    by (simp add: GaussianOutlierDetector_fit_def assms(1-4) i Let_def
        GaussianOutlierDetector_anomaly_score_def Y ts')
qed

lemma sqrt_ninth: "sqrt (1 / 9) = 1 / 3"
  by (rule real_sqrt_unique) (simp_all add: power2_eq_square)

lemma vmf_fit_example:
  "VMFOutlierDetector_fit chi2_two (vmf_new False 1) vmf_train
     = ((vmf_new False 1)\<lparr> vmf_normalizer := Some (),
           vmf_mean_direction := Some [Finite 1, Finite 0],
           vmf_y_score := Some [Finite 0, Finite 2, Finite 0],
           vmf_threshold := Some (Finite 0) \<rparr>, None)"
  by (simp add: VMFOutlierDetector_fit_def vmf_new_def vmf_train_def check_array_def
      Normalizer_transform_def normalize_row_def dot_def np_mean_def sqrt_ninth
      np_true_divide_def VMFOutlierDetector_anomaly_score_def vmf_score_def np_dot_f_def
      chi2_two_def Let_def)


lemma gauss_fit_example:
  "snd (GaussianOutlierDetector_fit centroid_glasso chi2_two (gauss_new f) line_train) = None"
  if "0 \<le> f" "f \<le> 1"
proof (rule Gaussian_fit_ok)
  show "check_array line_train = Inr line_train" by code_simp
  show "GraphLasso_fit centroid_glasso (gauss_alpha (gauss_new f))
          (gauss_assume_centered (gauss_new f)) (gauss_max_iter (gauss_new f))
          (gauss_tol (gauss_new f)) line_train = Inr line_train"
    by (simp add: centroid_glasso_def)
  show "mahalanobis centroid_glasso line_train line_train = Inr [25 / 4, 9 / 4, 1 / 4, 81 / 4]"
    by code_simp
  show "chi2_fit chi2_two (map Finite [25 / 4, 9 / 4, 1 / 4, 81 / 4]) = Inr (2, 0, 1)"
    by (simp add: chi2_two_def)
  show "0 \<le> gauss_fpr (gauss_new f)" "gauss_fpr (gauss_new f) \<le> 1"
    using that by (simp_all add: gauss_new_def)
qed

text \<open>
  C1. A \<^verbatim>\<open>VMFOutlierDetector\<close> constructed with \<^verbatim>\<open>assume_normalized=True\<close> is claimed to
  complete \<^verbatim>\<open>fit(X)\<close> on every valid sample matrix. In the code, \<^verbatim>\<open>fit\<close> then skips the
  assignment of \<^verbatim>\<open>_normalizer\<close>, and the \<^verbatim>\<open>anomaly_score\<close> it calls checks for exactly that
  attribute: on a new instance \<^verbatim>\<open>fit\<close> raises \<^verbatim>\<open>NotFittedError\<close> for every valid \<open>X\<close>, after
  \<^verbatim>\<open>mean_direction_\<close> has been assigned, and scoring stays unavailable.
\<close>

theorem VMF_assume_normalized_fit_raises:
  assumes "VMFOutlierDetector_init True fpr = Inr self"
      and "check_array X = Inr X'"
  shows "snd (VMFOutlierDetector_fit chi2 self X) = Some NotFittedError
       \<and> vmf_mean_direction (fst (VMFOutlierDetector_fit chi2 self X)) \<noteq> None
       \<and> VMFOutlierDetector_anomaly_score (fst (VMFOutlierDetector_fit chi2 self X)) Y
           = Inl NotFittedError"
proof -
  from assms(1) have s: "vmf_assume_normalized self" "vmf_normalizer self = None"
    by (auto simp: VMFOutlierDetector_init_def Let_def split: option.splits)
  show ?thesis
    by (simp add: VMFOutlierDetector_fit_def assms(2) s Let_def
        VMFOutlierDetector_anomaly_score_def)
qed

theorem VMF_assume_normalized_fit_raises_witness:
  "VMFOutlierDetector_init True (1/100) = Inr (vmf_new True (1/100))
   \<and> check_array [[1, 0], [0, 1]] = Inr [[1, 0], [0, 1]]
   \<and> snd (VMFOutlierDetector_fit chi2_two (vmf_new True (1/100)) [[1, 0], [0, 1]])
        = Some NotFittedError
   \<and> VMFOutlierDetector_anomaly_score
        (fst (VMFOutlierDetector_fit chi2_two (vmf_new True (1/100)) [[1, 0], [0, 1]]))
        (Some [[1, 0]]) = Inl NotFittedError"
proof -
  have i: "VMFOutlierDetector_init True (1/100) = Inr (vmf_new True (1/100))"
    by (simp add: VMFOutlierDetector_init_def VMFOutlierDetector_check_params_def vmf_new_def)
  have c: "check_array [[1, 0], [0, 1]] = Inr [[1, 0], [0, 1]]" by code_simp
  from VMF_assume_normalized_fit_raises[OF i c, of chi2_two "Some [[1, 0]]"] i c
  show ?thesis by simp
qed

text \<open>
  C5 (as the code has it). On an instance as the constructor returns it, every call of
  \<^verbatim>\<open>anomaly_score\<close> and of \<^verbatim>\<open>predict\<close> raises \<^verbatim>\<open>NotFittedError\<close>, with or without an argument.
  In general \<^verbatim>\<open>predict\<close> raises it whenever \<^verbatim>\<open>threshold_\<close> is absent, and \<^verbatim>\<open>anomaly_score\<close>
  whenever the attribute it checks (\<^verbatim>\<open>_knn\<close>, \<^verbatim>\<open>_kde\<close>, \<^verbatim>\<open>_glasso\<close>, \<^verbatim>\<open>_gmm\<close>,
  \<^verbatim>\<open>_normalizer\<close>) is absent.
\<close>

theorem unfitted_raises_NotFittedError:
  "(FastABOD_init fpr metric mp n_jobs n_neighbors p = Inr a \<longrightarrow>
      FastABOD_anomaly_score nb a X = Inl NotFittedError
      \<and> FastABOD_predict nb a X = Inl NotFittedError)
   \<and> (KernelDensityOutlierDetector_init bandwidth fpr kern metric mp = Inr k \<longrightarrow>
      KernelDensityOutlierDetector_anomaly_score kb k X = Inl NotFittedError
      \<and> KernelDensityOutlierDetector_predict kb k X = Inl NotFittedError)
   \<and> (GaussianOutlierDetector_init alpha assume_centered fpr max_iter tol = Inr g \<longrightarrow>
      GaussianOutlierDetector_anomaly_score gb g X = Inl NotFittedError
      \<and> GaussianOutlierDetector_predict gb g X = Inl NotFittedError)
   \<and> (GaussianMixtureOutlierDetector_init covariance_type fpr max_iter means_init
        n_components precisions_init random_state tol warm_start weights_init = Inr m \<longrightarrow>
      GaussianMixtureOutlierDetector_anomaly_score mb m X = Inl NotFittedError
      \<and> GaussianMixtureOutlierDetector_predict mb m X = Inl NotFittedError)
   \<and> (VMFOutlierDetector_init assume_normalized fpr = Inr v \<longrightarrow>
      VMFOutlierDetector_anomaly_score v X = Inl NotFittedError
      \<and> VMFOutlierDetector_predict v X = Inl NotFittedError)
   \<and> (abod_knn a' = None \<longrightarrow> FastABOD_anomaly_score nb a' X = Inl NotFittedError)
   \<and> (abod_threshold a' = None \<longrightarrow> FastABOD_predict nb a' X = Inl NotFittedError)
   \<and> (kde_kde k' = None \<longrightarrow>
        KernelDensityOutlierDetector_anomaly_score kb k' X = Inl NotFittedError)
   \<and> (kde_threshold k' = None \<longrightarrow>
        KernelDensityOutlierDetector_predict kb k' X = Inl NotFittedError)
   \<and> (gauss_glasso g' = None \<longrightarrow>
        GaussianOutlierDetector_anomaly_score gb g' X = Inl NotFittedError)
   \<and> (gauss_threshold g' = None \<longrightarrow>
        GaussianOutlierDetector_predict gb g' X = Inl NotFittedError)
   \<and> (gmm_gmm m' = None \<longrightarrow>
        GaussianMixtureOutlierDetector_anomaly_score mb m' X = Inl NotFittedError)
   \<and> (gmm_threshold m' = None \<longrightarrow>
        GaussianMixtureOutlierDetector_predict mb m' X = Inl NotFittedError)
   \<and> (vmf_normalizer v' = None \<longrightarrow> VMFOutlierDetector_anomaly_score v' X = Inl NotFittedError)
   \<and> (vmf_threshold v' = None \<longrightarrow> VMFOutlierDetector_predict v' X = Inl NotFittedError)"
proof -
  have 1: "FastABOD_init fpr metric mp n_jobs n_neighbors p = Inr a \<Longrightarrow>
             abod_knn a = None \<and> abod_threshold a = None"
    by (auto simp: FastABOD_init_def Let_def split: option.splits)
  have 2: "KernelDensityOutlierDetector_init bandwidth fpr kern metric mp = Inr k \<Longrightarrow>
             kde_kde k = None \<and> kde_threshold k = None"
    by (auto simp: KernelDensityOutlierDetector_init_def Let_def split: option.splits)
  have 3: "GaussianOutlierDetector_init alpha assume_centered fpr max_iter tol = Inr g \<Longrightarrow>
             gauss_glasso g = None \<and> gauss_threshold g = None"
    by (auto simp: GaussianOutlierDetector_init_def Let_def split: option.splits)
  have 4: "GaussianMixtureOutlierDetector_init covariance_type fpr max_iter means_init
        n_components precisions_init random_state tol warm_start weights_init = Inr m \<Longrightarrow>
             gmm_gmm m = None \<and> gmm_threshold m = None"
    by (auto simp: GaussianMixtureOutlierDetector_init_def Let_def split: option.splits)
  have 5: "VMFOutlierDetector_init assume_normalized fpr = Inr v \<Longrightarrow>
             vmf_normalizer v = None \<and> vmf_threshold v = None"
    by (auto simp: VMFOutlierDetector_init_def Let_def split: option.splits)
  show ?thesis
    using 1 2 3 4 5
    by (simp add: FastABOD_anomaly_score_def FastABOD_predict_def DetectorMixin_predict_def
        KernelDensityOutlierDetector_anomaly_score_def KernelDensityOutlierDetector_predict_def
        GaussianOutlierDetector_anomaly_score_def GaussianOutlierDetector_predict_def
        GaussianMixtureOutlierDetector_anomaly_score_def
        GaussianMixtureOutlierDetector_predict_def
        VMFOutlierDetector_anomaly_score_def VMFOutlierDetector_predict_def)
qed

theorem unfitted_raises_NotFittedError_witness:
  "FastABOD_init (1/2) ''minkowski'' None 2 3 2 = Inr abod_new
   \<and> FastABOD_anomaly_score brute_neighbors abod_new (Some abod_train) = Inl NotFittedError
   \<and> FastABOD_predict brute_neighbors abod_new (Some abod_train) = Inl NotFittedError
   \<and> KernelDensityOutlierDetector_init 1 (1/2) ''gaussian'' ''euclidean'' None
        = Inr (kde_new (1/2))
   \<and> KernelDensityOutlierDetector_anomaly_score centroid_kde (kde_new (1/2)) None
        = Inl NotFittedError
   \<and> KernelDensityOutlierDetector_predict centroid_kde (kde_new (1/2)) (Some line_train)
        = Inl NotFittedError
   \<and> GaussianOutlierDetector_init (1/100) False 0 100 (1/10000) = Inr (gauss_new 0)
   \<and> GaussianOutlierDetector_anomaly_score centroid_glasso (gauss_new 0) (Some line_train)
        = Inl NotFittedError
   \<and> GaussianOutlierDetector_predict centroid_glasso (gauss_new 0) (Some line_train)
        = Inl NotFittedError
   \<and> GaussianMixtureOutlierDetector_init ''full'' (1/2) 100 None 1 None None (1/1000) False None
        = Inr (gmm_new (1/2))
   \<and> GaussianMixtureOutlierDetector_anomaly_score centroid_gmm (gmm_new (1/2))
        (Some line_train) = Inl NotFittedError
   \<and> GaussianMixtureOutlierDetector_predict centroid_gmm (gmm_new (1/2)) (Some line_train)
        = Inl NotFittedError
   \<and> VMFOutlierDetector_init False 1 = Inr (vmf_new False 1)
   \<and> VMFOutlierDetector_anomaly_score (vmf_new False 1) (Some vmf_train) = Inl NotFittedError
   \<and> VMFOutlierDetector_predict (vmf_new False 1) (Some vmf_train) = Inl NotFittedError
   \<and> abod_knn abod_new = None \<and> abod_threshold abod_new = None
   \<and> kde_kde (kde_new (1/2)) = None \<and> kde_threshold (kde_new (1/2)) = None
   \<and> gauss_glasso (gauss_new 0) = None \<and> gauss_threshold (gauss_new 0) = None
   \<and> gmm_gmm (gmm_new (1/2)) = None \<and> gmm_threshold (gmm_new (1/2)) = None
   \<and> vmf_normalizer (vmf_new False 1) = None \<and> vmf_threshold (vmf_new False 1) = None"
proof -
  have a: "FastABOD_init (1/2) ''minkowski'' None 2 3 2 = Inr abod_new"
    by (simp add: FastABOD_init_def FastABOD_check_params_def abod_new_def)
  have k: "KernelDensityOutlierDetector_init 1 (1/2) ''gaussian'' ''euclidean'' None
            = Inr (kde_new (1/2))"
    by (simp add: KernelDensityOutlierDetector_init_def
        KernelDensityOutlierDetector_check_params_def kde_new_def VALID_KERNELS_def)
  have g: "GaussianOutlierDetector_init (1/100) False 0 100 (1/10000) = Inr (gauss_new 0)"
    by (simp add: GaussianOutlierDetector_init_def GaussianOutlierDetector_check_params_def
        gauss_new_def)
  have m: "GaussianMixtureOutlierDetector_init ''full'' (1/2) 100 None 1 None None (1/1000)
             False None = Inr (gmm_new (1/2))"
    by (simp add: GaussianMixtureOutlierDetector_init_def
        GaussianMixtureOutlierDetector_check_params_def gmm_new_def VALID_COVARIANCE_TYPES_def)
  have v: "VMFOutlierDetector_init False 1 = Inr (vmf_new False 1)"
    by (simp add: VMFOutlierDetector_init_def VMFOutlierDetector_check_params_def vmf_new_def)
  have n: "abod_knn abod_new = None" "abod_threshold abod_new = None"
    "kde_kde (kde_new (1/2)) = None" "kde_threshold (kde_new (1/2)) = None"
    "gauss_glasso (gauss_new 0) = None" "gauss_threshold (gauss_new 0) = None"
    "gmm_gmm (gmm_new (1/2)) = None" "gmm_threshold (gmm_new (1/2)) = None"
    "vmf_normalizer (vmf_new False 1) = None" "vmf_threshold (vmf_new False 1) = None"
    by (simp_all add: abod_new_def kde_new_def gauss_new_def gmm_new_def vmf_new_def)
  note R = unfitted_raises_NotFittedError
  note a1 = R [THEN conjunct1, THEN mp, OF a, of brute_neighbors "Some abod_train"]
  note k1 = R [THEN conjunct2, THEN conjunct1, THEN mp, OF k, of centroid_kde None]
  note k2 = R [THEN conjunct2, THEN conjunct1, THEN mp, OF k, of centroid_kde "Some line_train"]
  note g1 = R [THEN conjunct2, THEN conjunct2, THEN conjunct1, THEN mp, OF g,
               of centroid_glasso "Some line_train"]
  note m1 = R [THEN conjunct2, THEN conjunct2, THEN conjunct2, THEN conjunct1, THEN mp, OF m,
               of centroid_gmm "Some line_train"]
  note v1 = R [THEN conjunct2, THEN conjunct2, THEN conjunct2, THEN conjunct2, THEN conjunct1,
               THEN mp, OF v, of "Some vmf_train"]
  from a a1 k k1 k2 g g1 m m1 v v1 n show ?thesis by simp
qed

text \<open>
  C5 as stated fails once a \<^verbatim>\<open>fit\<close> has failed after assigning the model: a new FastABOD
  instance whose only \<^verbatim>\<open>fit\<close> raised (the training matrix repeats a row) scores a query
  without a not-fitted error.
\<close>

theorem failed_fit_then_score_counterexample:
  "FastABOD_init (1/2) ''minkowski'' None 2 3 2 = Inr abod_new
   \<and> snd (FastABOD_fit brute_neighbors abod_new abod_dup)
        = Some (ValueError ''X must not contain training samples'')
   \<and> FastABOD_anomaly_score brute_neighbors
        (fst (FastABOD_fit brute_neighbors abod_new abod_dup)) (Some [[5, 5]])
        = Inr [- (13 / 2080800)]"
proof -
  have a: "FastABOD_init (1/2) ''minkowski'' None 2 3 2 = Inr abod_new"
    by (simp add: FastABOD_init_def FastABOD_check_params_def abod_new_def)
  have b: "snd (FastABOD_fit brute_neighbors abod_new abod_dup)
        = Some (ValueError ''X must not contain training samples'')" by code_simp
  have c: "FastABOD_anomaly_score brute_neighbors
        (fst (FastABOD_fit brute_neighbors abod_new abod_dup)) (Some [[5, 5]])
        = Inr [- (13 / 2080800)]" by code_simp
  from a b c show ?thesis by simp
qed

text \<open>
  C4 (as the code has it). A \<^verbatim>\<open>fit\<close> that fails in the validation of \<open>X\<close>
  (\<^verbatim>\<open>check_array\<close>) or in the fit of the underlying estimator (\<^verbatim>\<open>NearestNeighbors\<close>,
  \<^verbatim>\<open>KernelDensity\<close>, \<^verbatim>\<open>GraphLasso\<close>, \<^verbatim>\<open>GaussianMixture\<close>) raises that error and leaves the
  instance exactly as it was. (A failure in a later step comes after the new model has
  been assigned.)
\<close>

theorem fit_failure_before_assignment_keeps_state:
  "(check_array X = Inl e \<longrightarrow>
      FastABOD_fit nb a X = (a, Some e)
      \<and> KernelDensityOutlierDetector_fit kb k X = (k, Some e)
      \<and> GaussianOutlierDetector_fit gb chi2 g X = (g, Some e)
      \<and> GaussianMixtureOutlierDetector_fit mb m X = (m, Some e)
      \<and> VMFOutlierDetector_fit chi2 v X = (v, Some e))
   \<and> (check_array X = Inr X1 \<and>
        NearestNeighbors_fit nb (abod_metric a) (abod_metric_params a) (abod_n_jobs a)
          (abod_n_neighbors a) (abod_p a) X1 = Inl e \<longrightarrow>
      FastABOD_fit nb a X = (a, Some e))
   \<and> (check_array X = Inr X1 \<and>
        KernelDensity_fit kb (kde_bandwidth k) (kde_kernel k) (kde_metric k)
          (kde_metric_params k) X1 = Inl e \<longrightarrow>
      KernelDensityOutlierDetector_fit kb k X = (k, Some e))
   \<and> (check_array X = Inr X1 \<and>
        GraphLasso_fit gb (gauss_alpha g) (gauss_assume_centered g) (gauss_max_iter g)
          (gauss_tol g) X1 = Inl e \<longrightarrow>
      GaussianOutlierDetector_fit gb chi2 g X = (g, Some e))
   \<and> (check_array X = Inr X1 \<and>
        GaussianMixture_fit mb (gmm_covariance_type m) (gmm_max_iter m) (gmm_means_init m)
          (gmm_n_components m) (gmm_precisions_init m) (gmm_random_state m) (gmm_tol m)
          (gmm_warm_start m) (gmm_weights_init m) X1 = Inl e \<longrightarrow>
      GaussianMixtureOutlierDetector_fit mb m X = (m, Some e))"
  by (simp add: FastABOD_fit_cases KDE_fit_cases GMM_fit_cases
      GaussianOutlierDetector_fit_def VMFOutlierDetector_fit_def)

theorem fit_failure_before_assignment_keeps_state_witness:
  "check_array [] = Inl (ValueError ''Found array with 0 sample(s)'')
   \<and> FastABOD_fit brute_neighbors abod_fitted []
        = (abod_fitted, Some (ValueError ''Found array with 0 sample(s)''))
   \<and> KernelDensityOutlierDetector_fit centroid_kde (kde_new (1/2)) []
        = (kde_new (1/2), Some (ValueError ''Found array with 0 sample(s)''))
   \<and> GaussianOutlierDetector_fit centroid_glasso chi2_two (gauss_new 0) []
        = (gauss_new 0, Some (ValueError ''Found array with 0 sample(s)''))
   \<and> GaussianMixtureOutlierDetector_fit centroid_gmm (gmm_new (1/2)) []
        = (gmm_new (1/2), Some (ValueError ''Found array with 0 sample(s)''))
   \<and> VMFOutlierDetector_fit chi2_two (vmf_new False 1) []
        = (vmf_new False 1, Some (ValueError ''Found array with 0 sample(s)''))
   \<and> check_array abod_train = Inr abod_train
   \<and> FastABOD_fit
        (brute_neighbors\<lparr>NearestNeighbors_fit :=
           \<lambda>metric mp n_jobs n_neighbors p X. Inl (ValueError ''Metric not valid'')\<rparr>)
        abod_fitted abod_train = (abod_fitted, Some (ValueError ''Metric not valid''))
   \<and> check_array line_train = Inr line_train
   \<and> KernelDensityOutlierDetector_fit
        (centroid_kde\<lparr>KernelDensity_fit :=
           \<lambda>bandwidth kern metric mp X. Inl (ValueError ''Metric not valid'')\<rparr>)
        (kde_new (1/2)) line_train = (kde_new (1/2), Some (ValueError ''Metric not valid''))
   \<and> GaussianOutlierDetector_fit
        (centroid_glasso\<lparr>GraphLasso_fit :=
           \<lambda>alpha ac mi tol X. Inl FloatingPointError\<rparr>)
        chi2_two (gauss_new 0) line_train = (gauss_new 0, Some FloatingPointError)
   \<and> GaussianMixtureOutlierDetector_fit
        (centroid_gmm\<lparr>GaussianMixture_fit :=
           \<lambda>ct mi means n prec rs tol ws w X. Inl (ValueError ''ill-defined covariance'')\<rparr>)
        (gmm_new (1/2)) line_train
        = (gmm_new (1/2), Some (ValueError ''ill-defined covariance''))"
proof -
  note R = fit_failure_before_assignment_keeps_state
  have c0: "check_array [] = Inl (ValueError ''Found array with 0 sample(s)'')"
    by (simp add: check_array_def)
  note r0 = R [THEN conjunct1, THEN mp, OF c0]
  have c1: "check_array abod_train = Inr abod_train" by code_simp
  have c2: "check_array line_train = Inr line_train" by code_simp
  have r1: "FastABOD_fit
        (brute_neighbors\<lparr>NearestNeighbors_fit :=
           \<lambda>metric mp n_jobs n_neighbors p X. Inl (ValueError ''Metric not valid'')\<rparr>)
        abod_fitted abod_train = (abod_fitted, Some (ValueError ''Metric not valid''))"
    by (rule R [THEN conjunct2, THEN conjunct1, THEN mp]) (simp add: c1)
  have r2: "KernelDensityOutlierDetector_fit
        (centroid_kde\<lparr>KernelDensity_fit :=
           \<lambda>bandwidth kern metric mp X. Inl (ValueError ''Metric not valid'')\<rparr>)
        (kde_new (1/2)) line_train = (kde_new (1/2), Some (ValueError ''Metric not valid''))"
    by (rule R [THEN conjunct2, THEN conjunct2, THEN conjunct1, THEN mp]) (simp add: c2)
  have r3: "GaussianOutlierDetector_fit
        (centroid_glasso\<lparr>GraphLasso_fit :=
           \<lambda>alpha ac mi tol X. Inl FloatingPointError\<rparr>)
        chi2_two (gauss_new 0) line_train = (gauss_new 0, Some FloatingPointError)"
    by (rule R [THEN conjunct2, THEN conjunct2, THEN conjunct2, THEN conjunct1, THEN mp])
      (simp add: c2)
  have r4: "GaussianMixtureOutlierDetector_fit
        (centroid_gmm\<lparr>GaussianMixture_fit :=
           \<lambda>ct mi means n prec rs tol ws w X. Inl (ValueError ''ill-defined covariance'')\<rparr>)
        (gmm_new (1/2)) line_train
        = (gmm_new (1/2), Some (ValueError ''ill-defined covariance''))"
    by (rule R [THEN conjunct2, THEN conjunct2, THEN conjunct2, THEN conjunct2, THEN mp])
      (simp add: c2)
  from c0 r0 c1 c2 r1 r2 r3 r4 show ?thesis by simp
qed

text \<open>
  C4 as stated fails: a fitted FastABOD instance is refitted on a matrix that repeats a
  row; the call raises, and the instance is left with the new neighbour index beside the
  scores and the threshold of the earlier fit.
\<close>

theorem failed_refit_changes_state_counterexample:
  "FastABOD_fit brute_neighbors abod_new abod_train = (abod_fitted, None)
   \<and> FastABOD_fit brute_neighbors abod_fitted abod_dup
        = (abod_fitted\<lparr>abod_knn := Some (abod_index abod_dup)\<rparr>,
           Some (ValueError ''X must not contain training samples''))
   \<and> abod_knn abod_fitted = Some (abod_index abod_train)
   \<and> abod_index abod_dup \<noteq> abod_index abod_train"
proof -
  have a: "FastABOD_fit brute_neighbors abod_new abod_train = (abod_fitted, None)"
    by (rule fit_train_example)
  have b: "FastABOD_fit brute_neighbors abod_fitted abod_dup
        = (abod_fitted\<lparr>abod_knn := Some (abod_index abod_dup)\<rparr>,
           Some (ValueError ''X must not contain training samples''))" by code_simp
  have c: "abod_knn abod_fitted = Some (abod_index abod_train)" by code_simp
  have d: "abod_index abod_dup \<noteq> abod_index abod_train"
    by (simp add: abod_index_def abod_dup_def abod_train_def)
  from a b c d show ?thesis by simp
qed





lemma gauss_example_state:
  "gauss_glasso (fst (GaussianOutlierDetector_fit centroid_glasso chi2_two (gauss_new f)
                        line_train)) = Some line_train
   \<and> gauss_y_score (fst (GaussianOutlierDetector_fit centroid_glasso chi2_two (gauss_new f)
                        line_train)) = Some [25 / 4, 9 / 4, 1 / 4, 81 / 4]
   \<and> gauss_threshold (fst (GaussianOutlierDetector_fit centroid_glasso chi2_two (gauss_new f)
                        line_train)) = Some (chi2_ppf chi2_two (1 - f) 2 0 1)"
proof -
  have c: "check_array line_train = Inr line_train" by code_simp
  have g: "GraphLasso_fit centroid_glasso (gauss_alpha (gauss_new f))
          (gauss_assume_centered (gauss_new f)) (gauss_max_iter (gauss_new f))
          (gauss_tol (gauss_new f)) line_train = Inr line_train"
    by (simp add: centroid_glasso_def)
  have y: "mahalanobis centroid_glasso line_train line_train = Inr [25 / 4, 9 / 4, 1 / 4, 81 / 4]"
    by code_simp
  have h: "chi2_fit chi2_two (map Finite [25 / 4, 9 / 4, 1 / 4, 81 / 4]) = Inr (2, 0, 1)"
    by (simp add: chi2_two_def)
  have "gauss_fpr (gauss_new f) = f" by (simp add: gauss_new_def)
  with Gaussian_fit_prefix[OF c g y h] show ?thesis by simp
qed

lemma gauss_example_score:
  "gauss_glasso s = Some line_train \<Longrightarrow>
   GaussianOutlierDetector_anomaly_score centroid_glasso s (Some line_train)
     = Inr [25 / 4, 9 / 4, 1 / 4, 81 / 4]"
proof -
  assume a: "gauss_glasso s = Some line_train"
  have c: "check_array line_train = Inr line_train" by code_simp
  have y: "mahalanobis centroid_glasso line_train line_train = Inr [25 / 4, 9 / 4, 1 / 4, 81 / 4]"
    by code_simp
  show ?thesis by (simp add: GaussianOutlierDetector_anomaly_score_def a c y)
qed

lemma vmf_example_score:
  "VMFOutlierDetector_anomaly_score
     (fst (VMFOutlierDetector_fit chi2_two (vmf_new False 1) vmf_train)) (Some vmf_train)
     = Inr [Finite 0, Finite 2, Finite 0]"
  by (simp add: vmf_fit_example)
     (simp add: VMFOutlierDetector_anomaly_score_def vmf_new_def vmf_train_def check_array_def
        Normalizer_transform_def normalize_row_def dot_def vmf_score_def np_dot_f_def)

text \<open>
  C2 (as the code has it). For the kernel-density, Gaussian, Gaussian-mixture and von
  Mises-Fisher detectors, \<^verbatim>\<open>anomaly_score()\<close> without an argument returns the stored
  \<^verbatim>\<open>y_score_\<close> as it is, whatever the external estimator would compute. FastABOD has no
  such branch: \<^verbatim>\<open>anomaly_score()\<close> recomputes the scores from the stored neighbour index
  and never reads \<^verbatim>\<open>y_score_\<close>. For all five, directly after a successful \<^verbatim>\<open>fit\<close> the
  value returned by \<^verbatim>\<open>anomaly_score()\<close> is the stored \<^verbatim>\<open>y_score_\<close>.
\<close>

theorem anomaly_score_without_argument:
  "(kde_kde k = Some km \<and> kde_y_score k = Some y \<longrightarrow>
      KernelDensityOutlierDetector_anomaly_score kb k None = Inr y)
   \<and> (gauss_glasso g = Some gm \<and> gauss_y_score g = Some y \<longrightarrow>
      GaussianOutlierDetector_anomaly_score gb g None = Inr y)
   \<and> (gmm_gmm m = Some mm \<and> gmm_y_score m = Some y \<longrightarrow>
      GaussianMixtureOutlierDetector_anomaly_score mb m None = Inr y)
   \<and> (vmf_normalizer v = Some () \<and> vmf_y_score v = Some z \<longrightarrow>
      VMFOutlierDetector_anomaly_score v None = Inr z)
   \<and> FastABOD_anomaly_score nb (a\<lparr>abod_y_score := c\<rparr>) None = FastABOD_anomaly_score nb a None
   \<and> (FastABOD_fit nb a X = (a', None) \<longrightarrow>
      (\<exists>y. abod_y_score a' = Some y \<and> FastABOD_anomaly_score nb a' None = Inr y))
   \<and> (KernelDensityOutlierDetector_fit kb k X = (k', None) \<longrightarrow>
      (\<exists>y. kde_y_score k' = Some y
           \<and> KernelDensityOutlierDetector_anomaly_score kb k' None = Inr y))
   \<and> (GaussianOutlierDetector_fit gb chi2 g X = (g', None) \<longrightarrow>
      (\<exists>y. gauss_y_score g' = Some y
           \<and> GaussianOutlierDetector_anomaly_score gb g' None = Inr y))
   \<and> (GaussianMixtureOutlierDetector_fit mb m X = (m', None) \<longrightarrow>
      (\<exists>y. gmm_y_score m' = Some y
           \<and> GaussianMixtureOutlierDetector_anomaly_score mb m' None = Inr y))
   \<and> (VMFOutlierDetector_fit chi2 v X = (v', None) \<longrightarrow>
      (\<exists>y. vmf_y_score v' = Some y \<and> VMFOutlierDetector_anomaly_score v' None = Inr y))"
proof (intro conjI impI)
  assume "kde_kde k = Some km \<and> kde_y_score k = Some y"
  thus "KernelDensityOutlierDetector_anomaly_score kb k None = Inr y"
    by (simp add: KernelDensityOutlierDetector_anomaly_score_def)
next
  assume "gauss_glasso g = Some gm \<and> gauss_y_score g = Some y"
  thus "GaussianOutlierDetector_anomaly_score gb g None = Inr y"
    by (simp add: GaussianOutlierDetector_anomaly_score_def)
next
  assume "gmm_gmm m = Some mm \<and> gmm_y_score m = Some y"
  thus "GaussianMixtureOutlierDetector_anomaly_score mb m None = Inr y"
    by (simp add: GaussianMixtureOutlierDetector_anomaly_score_def)
next
  assume "vmf_normalizer v = Some () \<and> vmf_y_score v = Some z"
  thus "VMFOutlierDetector_anomaly_score v None = Inr z"
    by (simp add: VMFOutlierDetector_anomaly_score_def)
next
  show "FastABOD_anomaly_score nb (a\<lparr>abod_y_score := c\<rparr>) None = FastABOD_anomaly_score nb a None"
    by (rule FastABOD_anomaly_score_cong) simp_all
next
  assume "FastABOD_fit nb a X = (a', None)"
  from FastABOD_fit_success[OF this] obtain knn y t where
    y: "FastABOD_anomaly_score nb (a\<lparr>abod_knn := Some knn\<rparr>) None = Inr y"
    and s: "a' = a\<lparr>abod_knn := Some knn, abod_y_score := Some y, abod_threshold := Some t\<rparr>"
    by blast
  have "FastABOD_anomaly_score nb a' None = FastABOD_anomaly_score nb (a\<lparr>abod_knn := Some knn\<rparr>) None"
    by (rule FastABOD_anomaly_score_cong) (simp_all add: s)
  with y s show "\<exists>y. abod_y_score a' = Some y \<and> FastABOD_anomaly_score nb a' None = Inr y"
    by simp
next
  assume "KernelDensityOutlierDetector_fit kb k X = (k', None)"
  from KDE_fit_success[OF this]
  show "\<exists>y. kde_y_score k' = Some y
           \<and> KernelDensityOutlierDetector_anomaly_score kb k' None = Inr y"
    by (auto simp: KernelDensityOutlierDetector_anomaly_score_def)
next
  assume "GaussianOutlierDetector_fit gb chi2 g X = (g', None)"
  from Gaussian_fit_success[OF this]
  show "\<exists>y. gauss_y_score g' = Some y
           \<and> GaussianOutlierDetector_anomaly_score gb g' None = Inr y"
    by (auto simp: GaussianOutlierDetector_anomaly_score_def)
next
  assume "GaussianMixtureOutlierDetector_fit mb m X = (m', None)"
  from GMM_fit_success[OF this]
  show "\<exists>y. gmm_y_score m' = Some y
           \<and> GaussianMixtureOutlierDetector_anomaly_score mb m' None = Inr y"
    by (auto simp: GaussianMixtureOutlierDetector_anomaly_score_def)
next
  assume "VMFOutlierDetector_fit chi2 v X = (v', None)"
  from VMF_fit_success[OF this]
  show "\<exists>y. vmf_y_score v' = Some y \<and> VMFOutlierDetector_anomaly_score v' None = Inr y"
    by (auto simp: VMFOutlierDetector_anomaly_score_def)
qed


theorem anomaly_score_without_argument_witness:
  "(kde_kde (fst (KernelDensityOutlierDetector_fit centroid_kde (kde_new (1/2)) line_train))
       = Some line_train
    \<and> kde_y_score (fst (KernelDensityOutlierDetector_fit centroid_kde (kde_new (1/2)) line_train))
       = Some [25 / 4, 9 / 4, 1 / 4, 81 / 4])
   \<and> KernelDensityOutlierDetector_anomaly_score
        (centroid_kde\<lparr>kde_score_samples := \<lambda>km Q. Inl FloatingPointError\<rparr>)
        (fst (KernelDensityOutlierDetector_fit centroid_kde (kde_new (1/2)) line_train)) None
       = Inr [25 / 4, 9 / 4, 1 / 4, 81 / 4]
   \<and> (gauss_glasso (fst (GaussianOutlierDetector_fit centroid_glasso chi2_two (gauss_new 0)
                            line_train)) = Some line_train
    \<and> gauss_y_score (fst (GaussianOutlierDetector_fit centroid_glasso chi2_two (gauss_new 0)
                            line_train)) = Some [25 / 4, 9 / 4, 1 / 4, 81 / 4])
   \<and> GaussianOutlierDetector_anomaly_score centroid_glasso
        (fst (GaussianOutlierDetector_fit centroid_glasso chi2_two (gauss_new 0) line_train)) None
       = Inr [25 / 4, 9 / 4, 1 / 4, 81 / 4]
   \<and> (gmm_gmm (fst (GaussianMixtureOutlierDetector_fit centroid_gmm (gmm_new (1/2)) line_train))
       = Some line_train
    \<and> gmm_y_score (fst (GaussianMixtureOutlierDetector_fit centroid_gmm (gmm_new (1/2))
                          line_train)) = Some [25 / 4, 9 / 4, 1 / 4, 81 / 4])
   \<and> GaussianMixtureOutlierDetector_anomaly_score centroid_gmm
        (fst (GaussianMixtureOutlierDetector_fit centroid_gmm (gmm_new (1/2)) line_train)) None
       = Inr [25 / 4, 9 / 4, 1 / 4, 81 / 4]
   \<and> (vmf_normalizer (fst (VMFOutlierDetector_fit chi2_two (vmf_new False 1) vmf_train))
       = Some ()
    \<and> vmf_y_score (fst (VMFOutlierDetector_fit chi2_two (vmf_new False 1) vmf_train))
       = Some [Finite 0, Finite 2, Finite 0])
   \<and> VMFOutlierDetector_anomaly_score
        (fst (VMFOutlierDetector_fit chi2_two (vmf_new False 1) vmf_train)) None
       = Inr [Finite 0, Finite 2, Finite 0]
   \<and> FastABOD_fit brute_neighbors abod_new abod_train = (abod_fitted, None)
   \<and> (\<exists>y. abod_y_score abod_fitted = Some y
          \<and> FastABOD_anomaly_score brute_neighbors abod_fitted None = Inr y)
   \<and> snd (KernelDensityOutlierDetector_fit centroid_kde (kde_new (1/2)) line_train) = None
   \<and> (\<exists>y. kde_y_score (fst (KernelDensityOutlierDetector_fit centroid_kde (kde_new (1/2))
                               line_train)) = Some y
          \<and> KernelDensityOutlierDetector_anomaly_score centroid_kde
               (fst (KernelDensityOutlierDetector_fit centroid_kde (kde_new (1/2)) line_train))
               None = Inr y)
   \<and> snd (GaussianOutlierDetector_fit centroid_glasso chi2_two (gauss_new 0) line_train) = None
   \<and> (\<exists>y. gauss_y_score (fst (GaussianOutlierDetector_fit centroid_glasso chi2_two
                                 (gauss_new 0) line_train)) = Some y
          \<and> GaussianOutlierDetector_anomaly_score centroid_glasso
               (fst (GaussianOutlierDetector_fit centroid_glasso chi2_two (gauss_new 0)
                       line_train)) None = Inr y)
   \<and> snd (GaussianMixtureOutlierDetector_fit centroid_gmm (gmm_new (1/2)) line_train) = None
   \<and> (\<exists>y. gmm_y_score (fst (GaussianMixtureOutlierDetector_fit centroid_gmm (gmm_new (1/2))
                               line_train)) = Some y
          \<and> GaussianMixtureOutlierDetector_anomaly_score centroid_gmm
               (fst (GaussianMixtureOutlierDetector_fit centroid_gmm (gmm_new (1/2)) line_train))
               None = Inr y)
   \<and> snd (VMFOutlierDetector_fit chi2_two (vmf_new False 1) vmf_train) = None
   \<and> (\<exists>y. vmf_y_score (fst (VMFOutlierDetector_fit chi2_two (vmf_new False 1) vmf_train))
             = Some y
          \<and> VMFOutlierDetector_anomaly_score
               (fst (VMFOutlierDetector_fit chi2_two (vmf_new False 1) vmf_train)) None = Inr y)"
proof -
  note R = anomaly_score_without_argument
  have hk: "kde_kde (fst (KernelDensityOutlierDetector_fit centroid_kde (kde_new (1/2)) line_train))
       = Some line_train
    \<and> kde_y_score (fst (KernelDensityOutlierDetector_fit centroid_kde (kde_new (1/2)) line_train))
       = Some [25 / 4, 9 / 4, 1 / 4, 81 / 4]"
    by code_simp
  note ck = R [THEN conjunct1, THEN mp, OF hk]
  have hg: "gauss_glasso (fst (GaussianOutlierDetector_fit centroid_glasso chi2_two (gauss_new 0)
                            line_train)) = Some line_train
    \<and> gauss_y_score (fst (GaussianOutlierDetector_fit centroid_glasso chi2_two (gauss_new 0)
                            line_train)) = Some [25 / 4, 9 / 4, 1 / 4, 81 / 4]"
    using gauss_example_state[of 0] by blast
  note cg = R [THEN conjunct2, THEN conjunct1, THEN mp, OF hg]
  have hm: "gmm_gmm (fst (GaussianMixtureOutlierDetector_fit centroid_gmm (gmm_new (1/2)) line_train))
       = Some line_train
    \<and> gmm_y_score (fst (GaussianMixtureOutlierDetector_fit centroid_gmm (gmm_new (1/2))
                          line_train)) = Some [25 / 4, 9 / 4, 1 / 4, 81 / 4]"
    by code_simp
  note cm = R [THEN conjunct2, THEN conjunct2, THEN conjunct1, THEN mp, OF hm]
  have hv: "vmf_normalizer (fst (VMFOutlierDetector_fit chi2_two (vmf_new False 1) vmf_train))
       = Some ()
    \<and> vmf_y_score (fst (VMFOutlierDetector_fit chi2_two (vmf_new False 1) vmf_train))
       = Some [Finite 0, Finite 2, Finite 0]"
    by (simp add: vmf_fit_example)
  note cv = R [THEN conjunct2, THEN conjunct2, THEN conjunct2, THEN conjunct1, THEN mp, OF hv]
  note T = R [THEN conjunct2, THEN conjunct2, THEN conjunct2, THEN conjunct2, THEN conjunct2]
  have fa: "FastABOD_fit brute_neighbors abod_new abod_train = (abod_fitted, None)"
    by (rule fit_train_example)
  note ca = T [THEN conjunct1, THEN mp, OF fa]
  have fk: "snd (KernelDensityOutlierDetector_fit centroid_kde (kde_new (1/2)) line_train) = None"
    by code_simp
  hence "KernelDensityOutlierDetector_fit centroid_kde (kde_new (1/2)) line_train
          = (fst (KernelDensityOutlierDetector_fit centroid_kde (kde_new (1/2)) line_train), None)"
    by (simp add: prod_eq_iff)
  note dk = T [THEN conjunct2, THEN conjunct1, THEN mp, OF this]
  have fg: "snd (GaussianOutlierDetector_fit centroid_glasso chi2_two (gauss_new 0) line_train) = None"
    by (rule gauss_fit_example) simp_all
  hence "GaussianOutlierDetector_fit centroid_glasso chi2_two (gauss_new 0) line_train
          = (fst (GaussianOutlierDetector_fit centroid_glasso chi2_two (gauss_new 0) line_train), None)"
    by (simp add: prod_eq_iff)
  note dg = T [THEN conjunct2, THEN conjunct2, THEN conjunct1, THEN mp, OF this]
  have fm: "snd (GaussianMixtureOutlierDetector_fit centroid_gmm (gmm_new (1/2)) line_train) = None"
    by code_simp
  hence "GaussianMixtureOutlierDetector_fit centroid_gmm (gmm_new (1/2)) line_train
          = (fst (GaussianMixtureOutlierDetector_fit centroid_gmm (gmm_new (1/2)) line_train), None)"
    by (simp add: prod_eq_iff)
  note dm = T [THEN conjunct2, THEN conjunct2, THEN conjunct2, THEN conjunct1, THEN mp, OF this]
  have fv: "snd (VMFOutlierDetector_fit chi2_two (vmf_new False 1) vmf_train) = None"
    by (simp add: vmf_fit_example)
  hence "VMFOutlierDetector_fit chi2_two (vmf_new False 1) vmf_train
          = (fst (VMFOutlierDetector_fit chi2_two (vmf_new False 1) vmf_train), None)"
    by (simp add: prod_eq_iff)
  note dv = T [THEN conjunct2, THEN conjunct2, THEN conjunct2, THEN conjunct2, THEN mp, OF this]
  show ?thesis
    by (rule conjI[OF hk conjI[OF ck conjI[OF hg conjI[OF cg conjI[OF hm conjI[OF cm
          conjI[OF hv conjI[OF cv conjI[OF fa conjI[OF ca conjI[OF fk conjI[OF dk
          conjI[OF fg conjI[OF dg conjI[OF fm conjI[OF dm conjI[OF fv dv]]]]]]]]]]]]]]]]])
qed

text \<open>
  C2 as stated fails for FastABOD, which recomputes: with the cache overwritten the call
  still returns the recomputed scores; and once a refit has failed on a matrix with a
  repeated row, the scores cached by the earlier successful \<^verbatim>\<open>fit\<close> are still stored,
  yet \<^verbatim>\<open>anomaly_score()\<close> raises instead of returning them.
\<close>

theorem FastABOD_recomputes_counterexample:
  "FastABOD_fit brute_neighbors abod_new abod_train = (abod_fitted, None)
   \<and> FastABOD_anomaly_score brute_neighbors (abod_fitted\<lparr>abod_y_score := Some [0, 0, 0, 0]\<rparr>)
        None = Inr [- (1 / 216), - (62 / 2925), - (499 / 45000), - (1 / 228150)]
   \<and> abod_y_score (fst (FastABOD_fit brute_neighbors abod_fitted abod_dup))
        = Some [- (1 / 216), - (62 / 2925), - (499 / 45000), - (1 / 228150)]
   \<and> FastABOD_anomaly_score brute_neighbors
        (fst (FastABOD_fit brute_neighbors abod_fitted abod_dup)) None
        = Inl (ValueError ''X must not contain training samples'')"
proof -
  have a: "FastABOD_fit brute_neighbors abod_new abod_train = (abod_fitted, None)"
    by (rule fit_train_example)
  have b: "FastABOD_anomaly_score brute_neighbors
             (abod_fitted\<lparr>abod_y_score := Some [0, 0, 0, 0]\<rparr>) None
           = Inr [- (1 / 216), - (62 / 2925), - (499 / 45000), - (1 / 228150)]"
    by code_simp
  have c: "abod_y_score (fst (FastABOD_fit brute_neighbors abod_fitted abod_dup))
        = Some [- (1 / 216), - (62 / 2925), - (499 / 45000), - (1 / 228150)]"
    by code_simp
  have d: "FastABOD_anomaly_score brute_neighbors
        (fst (FastABOD_fit brute_neighbors abod_fitted abod_dup)) None
        = Inl (ValueError ''X must not contain training samples'')"
    by code_simp
  show ?thesis by (rule conjI[OF a conjI[OF b conjI[OF c d]]])
qed

subsection \<open>Thresholds and the number of flagged samples\<close>

lemma n_flagged_labels:
  "n_flagged (map (\<lambda>y. if P y then 1 else 0) ys) = length (filter P ys)"
  by (induction ys) (auto simp: n_flagged_def)

lemma filter_length_mono:
  "(\<And>y. y \<in> set ys \<Longrightarrow> P y \<Longrightarrow> Q y) \<Longrightarrow> length (filter P ys) \<le> length (filter Q ys)"
  by (induction ys) auto

lemma np_greater_trans:
  "np_less_equal t2 t1 \<Longrightarrow> np_greater v t1 \<Longrightarrow> np_greater v t2"
  by (cases v; cases t1; cases t2) auto

text \<open>The interpolated order statistic at position \<open>h\<close> of a sorted list.\<close>

lemma interp_mono:
  fixes s :: "real list"
  assumes srt: "sorted s" and n: "s \<noteq> []"
      and h: "0 \<le> h2" "h2 \<le> h1" "h1 \<le> real (length s - 1)"
  shows "s ! nat \<lfloor>h2\<rfloor> * (1 - (h2 - real (nat \<lfloor>h2\<rfloor>)))
           + s ! min (nat \<lfloor>h2\<rfloor> + 1) (length s - 1) * (h2 - real (nat \<lfloor>h2\<rfloor>))
         \<le> s ! nat \<lfloor>h1\<rfloor> * (1 - (h1 - real (nat \<lfloor>h1\<rfloor>)))
           + s ! min (nat \<lfloor>h1\<rfloor> + 1) (length s - 1) * (h1 - real (nat \<lfloor>h1\<rfloor>))"
proof -
  define N where "N = length s - 1"
  define l1 where "l1 = nat \<lfloor>h1\<rfloor>"
  define l2 where "l2 = nat \<lfloor>h2\<rfloor>"
  define w1 where "w1 = h1 - real l1"
  define w2 where "w2 = h2 - real l2"
  have N: "N < length s" using n by (simp add: N_def)
  have h1': "0 \<le> h1" using h by simp
  have fl1: "real l1 \<le> h1" "h1 < real l1 + 1"
    using h1' by (simp_all add: l1_def)
  have fl2: "real l2 \<le> h2" "h2 < real l2 + 1"
    using h(1) by (simp_all add: l2_def)
  have w: "0 \<le> w1" "w1 < 1" "0 \<le> w2" "w2 < 1" using fl1 fl2 by (simp_all add: w1_def w2_def)
  have "real l1 \<le> real N" using fl1(1) h(3) by (simp add: N_def)
  hence l1N: "l1 \<le> N" by simp
  have l21: "l2 \<le> l1" using h(2) by (simp add: l1_def l2_def nat_mono floor_mono)
  hence l2N: "l2 \<le> N" using l1N by simp
  have mono: "\<And>i j. i \<le> j \<Longrightarrow> j \<le> N \<Longrightarrow> s ! i \<le> s ! j"
    using srt N by (simp add: sorted_nth_mono)
  let ?u1 = "min (l1 + 1) N" and ?u2 = "min (l2 + 1) N"
  have a1: "s ! l1 \<le> s ! ?u1" using l1N by (intro mono) simp_all
  have a2: "s ! l2 \<le> s ! ?u2" using l2N by (intro mono) simp_all
  have lo1: "s ! l1 \<le> s ! l1 * (1 - w1) + s ! ?u1 * w1"
  proof -
    have "s ! l1 * (1 - w1) + s ! ?u1 * w1 = s ! l1 + w1 * (s ! ?u1 - s ! l1)"
      by (simp add: algebra_simps)
    moreover have "0 \<le> w1 * (s ! ?u1 - s ! l1)" using w(1) a1 by simp
    ultimately show ?thesis by simp
  qed
  have up2: "s ! l2 * (1 - w2) + s ! ?u2 * w2 \<le> s ! ?u2"
  proof -
    have "s ! l2 * (1 - w2) + s ! ?u2 * w2 = s ! ?u2 - (1 - w2) * (s ! ?u2 - s ! l2)"
      by (simp add: algebra_simps)
    moreover have "0 \<le> (1 - w2) * (s ! ?u2 - s ! l2)" using w(4) a2 by simp
    ultimately show ?thesis by simp
  qed
  have "s ! l2 * (1 - w2) + s ! ?u2 * w2 \<le> s ! l1 * (1 - w1) + s ! ?u1 * w1"
  proof (cases "l2 = l1")
    case True
    have ww: "w2 \<le> w1" using h(2) True by (simp add: w1_def w2_def)
    have "s ! l1 * (1 - w2) + s ! ?u1 * w2 = s ! l1 + w2 * (s ! ?u1 - s ! l1)"
      by (simp add: algebra_simps)
    also have "\<dots> \<le> s ! l1 + w1 * (s ! ?u1 - s ! l1)"
      using ww a1 by (simp add: mult_right_mono)
    also have "\<dots> = s ! l1 * (1 - w1) + s ! ?u1 * w1" by (simp add: algebra_simps)
    finally show ?thesis using True by simp
  next
    case False
    hence "l2 + 1 \<le> l1" using l21 by simp
    hence "?u2 \<le> l1" by simp
    hence "s ! ?u2 \<le> s ! l1" using l1N by (intro mono)
    with up2 lo1 show ?thesis by linarith
  qed
  thus ?thesis by (simp add: l1_def l2_def w1_def w2_def N_def)
qed

lemma np_percentile_mono:
  assumes "np_percentile a q1 = Inr t1" "np_percentile a q2 = Inr t2" "q2 \<le> q1"
  shows "np_less_equal t2 t1 \<or> (t1 = NaN \<and> t2 = NaN)"
proof (cases "a = []")
  case True
  with assms show ?thesis by (auto simp: np_percentile_def split: if_splits)
next
  case False
  from assms(1) False have q1: "0 \<le> q1" "q1 \<le> 100"
    by (auto simp: np_percentile_def split: if_splits)
  from assms(2) False have q2: "0 \<le> q2" "q2 \<le> 100"
    by (auto simp: np_percentile_def split: if_splits)
  let ?s = "sort a"
  let ?N = "real (length a - 1)"
  have s0: "length ?s = length a" by simp
  have s: "sorted ?s" "?s \<noteq> []" "length ?s = length a"
    using False s0 by (simp, metis length_0_conv, simp)
  have N0: "0 \<le> ?N" by simp
  have b1: "0 \<le> q2 / 100 * ?N" using q2(1) N0 by simp
  have b2: "q2 / 100 * ?N \<le> q1 / 100 * ?N"
    using assms(3) N0 by (intro mult_right_mono) simp_all
  have "q1 / 100 * ?N \<le> 1 * ?N" using q1(2) N0 by (intro mult_right_mono) simp_all
  hence b3: "q1 / 100 * ?N \<le> real (length ?s - 1)" by simp
  note b = b1 b2 b3
  note m = interp_mono[OF s(1) s(2) b]
  from assms(1) False q1 have t1: "t1 = Finite (?s ! nat \<lfloor>q1 / 100 * ?N\<rfloor>
            * (1 - (q1 / 100 * ?N - real (nat \<lfloor>q1 / 100 * ?N\<rfloor>)))
           + ?s ! min (nat \<lfloor>q1 / 100 * ?N\<rfloor> + 1) (length a - 1)
            * (q1 / 100 * ?N - real (nat \<lfloor>q1 / 100 * ?N\<rfloor>)))"
    by (simp add: np_percentile_def Let_def)
  from assms(2) False q2 have t2: "t2 = Finite (?s ! nat \<lfloor>q2 / 100 * ?N\<rfloor>
            * (1 - (q2 / 100 * ?N - real (nat \<lfloor>q2 / 100 * ?N\<rfloor>)))
           + ?s ! min (nat \<lfloor>q2 / 100 * ?N\<rfloor> + 1) (length a - 1)
            * (q2 / 100 * ?N - real (nat \<lfloor>q2 / 100 * ?N\<rfloor>)))"
    by (simp add: np_percentile_def Let_def)
  show ?thesis using m unfolding t1 t2 by (simp only: s(3) np_less_equal.simps) simp
qed

lemma np_percentile_100:
  assumes "np_percentile a 100 = Inr t" "v \<in> set a"
  shows "\<not> np_greater (Finite v) t"
proof -
  from assms(2) have ne: "a \<noteq> []" by auto
  let ?s = "sort a"
  have t: "t = Finite (?s ! (length a - 1))"
    using assms(1) ne by (simp add: np_percentile_def Let_def)
  have "v \<in> set ?s" using assms(2) by simp
  then obtain i where i: "i < length ?s" "?s ! i = v" by (metis in_set_conv_nth)
  have "?s ! i \<le> ?s ! (length a - 1)"
    using i(1) ne by (intro sorted_nth_mono) simp_all
  thus ?thesis using t i(2) by simp
qed

lemma flagged_mono:
  assumes "np_less_equal t2 t1 \<or> (t1 = NaN \<and> t2 = NaN)"
  shows "n_flagged (map (\<lambda>y. if np_greater y t1 then 1 else 0) zs)
           \<le> n_flagged (map (\<lambda>y. if np_greater y t2 then 1 else 0) zs)"
proof -
  have "\<And>y. np_greater y t1 \<Longrightarrow> np_greater y t2"
    using assms np_greater_trans by blast
  thus ?thesis unfolding n_flagged_labels by (intro filter_length_mono)
qed

lemma flagged_none:
  assumes "\<And>z. z \<in> set zs \<Longrightarrow> \<not> np_greater z t"
  shows "n_flagged (map (\<lambda>y. if np_greater y t then 1 else 0) zs) = 0"
  unfolding n_flagged_labels using assms by (induction zs) auto

lemma np_greater_PosInf: "\<not> np_greater z PosInf"
  by (cases z) auto

lemma predict_labels_eq:
  "DetectorMixin_predict (Some t) r = Inr l \<Longrightarrow>
     \<exists>zs. r = Inr zs \<and> l = map (\<lambda>y. if np_greater y t then 1 else 0) zs"
  by (cases r) (auto simp: DetectorMixin_predict_def)

text \<open>Two thresholds over the same scores.\<close>

lemma two_thresholds:
  assumes "DetectorMixin_predict (Some t1) r = Inr l1"
      and "DetectorMixin_predict (Some t2) r = Inr l2"
      and "np_less_equal t2 t1 \<or> (t1 = NaN \<and> t2 = NaN)"
  shows "n_flagged l1 \<le> n_flagged l2"
proof -
  from predict_labels_eq[OF assms(1)] predict_labels_eq[OF assms(2)]
  obtain zs where "l1 = map (\<lambda>y. if np_greater y t1 then 1 else 0) zs"
    "l2 = map (\<lambda>y. if np_greater y t2 then 1 else 0) zs" by auto
  thus ?thesis using flagged_mono[OF assms(3)] by simp
qed

lemma percentile_thresholds:
  assumes "DetectorMixin_predict (Some t1) (Inr (map Finite ys)) = Inr l1"
      and "DetectorMixin_predict (Some t2) (Inr (map Finite ys)) = Inr l2"
      and "np_percentile ys (100 * (1 - f1)) = Inr t1"
      and "np_percentile ys (100 * (1 - f2)) = Inr t2"
      and "f1 \<le> f2"
  shows "n_flagged l1 \<le> n_flagged l2"
proof -
  have "100 * (1 - f2) \<le> 100 * (1 - f1)" using assms(5) by simp
  from np_percentile_mono[OF assms(3) assms(4) this] two_thresholds[OF assms(1) assms(2)]
  show ?thesis by blast
qed

lemma percentile_100_threshold:
  assumes "DetectorMixin_predict (Some t) (Inr (map Finite ys)) = Inr l"
      and "np_percentile ys (100 * (1 - 0)) = Inr t"
  shows "n_flagged l = 0"
proof -
  from assms(2) have p: "np_percentile ys 100 = Inr t" by simp
  from predict_labels_eq[OF assms(1)]
  have l: "l = map (\<lambda>y. if np_greater y t then 1 else 0) (map Finite ys)" by simp
  have "n_flagged (map (\<lambda>y. if np_greater y t then 1 else 0) (map Finite ys)) = 0"
  proof (rule flagged_none)
    fix z assume "z \<in> set (map Finite ys)"
    then obtain v where "v \<in> set ys" "z = Finite v" by auto
    thus "\<not> np_greater z t" using np_percentile_100[OF p] by simp
  qed
  thus ?thesis unfolding l .
qed

subsection \<open>\<^verbatim>\<open>predict\<close> on a fitted instance, by family\<close>

lemma KDE_fit_predict:
  assumes "KernelDensityOutlierDetector_fit kb (k\<lparr>kde_fpr := f\<rparr>) X = (s, None)"
  shows "\<exists>kde ld t.
           KernelDensity_fit kb (kde_bandwidth k) (kde_kernel k) (kde_metric k)
             (kde_metric_params k) X = Inr kde
         \<and> kde_score_samples kb kde X = Inr ld
         \<and> np_percentile (map uminus ld) (100 * (1 - f)) = Inr t
         \<and> KernelDensityOutlierDetector_predict kb s (Some X)
             = DetectorMixin_predict (Some t) (Inr (map Finite (map uminus ld)))"
proof -
  from KDE_fit_success[OF assms] obtain kde ld t where
    c: "check_array X = Inr X"
    and k: "KernelDensity_fit kb (kde_bandwidth k) (kde_kernel k) (kde_metric k)
             (kde_metric_params k) X = Inr kde"
    and l: "kde_score_samples kb kde X = Inr ld"
    and p: "np_percentile (map uminus ld) (100 * (1 - f)) = Inr t"
    and s: "s = k\<lparr>kde_fpr := f, kde_kde := Some kde, kde_y_score := Some (map uminus ld),
                   kde_threshold := Some t\<rparr>"
    by auto
  have "KernelDensityOutlierDetector_predict kb s (Some X)
             = DetectorMixin_predict (Some t) (Inr (map Finite (map uminus ld)))"
    by (simp add: KernelDensityOutlierDetector_predict_def s c l finite_scores_def
        KernelDensityOutlierDetector_anomaly_score_def)
  with k l p show ?thesis by blast
qed

lemma GMM_fit_predict:
  assumes "GaussianMixtureOutlierDetector_fit mb (m\<lparr>gmm_fpr := f\<rparr>) X = (s, None)"
  shows "\<exists>gmm ll t.
           GaussianMixture_fit mb (gmm_covariance_type m) (gmm_max_iter m)
                  (gmm_means_init m) (gmm_n_components m) (gmm_precisions_init m)
                  (gmm_random_state m) (gmm_tol m) (gmm_warm_start m)
                  (gmm_weights_init m) X = Inr gmm
         \<and> gmm_score_samples mb gmm X = Inr ll
         \<and> np_percentile (map uminus ll) (100 * (1 - f)) = Inr t
         \<and> GaussianMixtureOutlierDetector_predict mb s (Some X)
             = DetectorMixin_predict (Some t) (Inr (map Finite (map uminus ll)))"
proof -
  from GMM_fit_success[OF assms] obtain gmm ll t where
    c: "check_array X = Inr X"
    and k: "GaussianMixture_fit mb (gmm_covariance_type m) (gmm_max_iter m)
                  (gmm_means_init m) (gmm_n_components m) (gmm_precisions_init m)
                  (gmm_random_state m) (gmm_tol m) (gmm_warm_start m)
                  (gmm_weights_init m) X = Inr gmm"
    and l: "gmm_score_samples mb gmm X = Inr ll"
    and p: "np_percentile (map uminus ll) (100 * (1 - f)) = Inr t"
    and s: "s = m\<lparr>gmm_fpr := f, gmm_gmm := Some gmm, gmm_y_score := Some (map uminus ll),
                   gmm_threshold := Some t\<rparr>"
    by auto
  have "GaussianMixtureOutlierDetector_predict mb s (Some X)
             = DetectorMixin_predict (Some t) (Inr (map Finite (map uminus ll)))"
    by (simp add: GaussianMixtureOutlierDetector_predict_def s c l finite_scores_def
        GaussianMixtureOutlierDetector_anomaly_score_def)
  with k l p show ?thesis by blast
qed

lemma Gaussian_fit_predict:
  assumes "GaussianOutlierDetector_fit gb chi2 (g\<lparr>gauss_fpr := f\<rparr>) X = (s, None)"
  shows "\<exists>gl y df loc scale.
           GraphLasso_fit gb (gauss_alpha g) (gauss_assume_centered g) (gauss_max_iter g)
             (gauss_tol g) X = Inr gl
         \<and> mahalanobis gb gl X = Inr y
         \<and> chi2_fit chi2 (map Finite y) = Inr (df, loc, scale)
         \<and> GaussianOutlierDetector_predict gb s (Some X)
             = DetectorMixin_predict (Some (chi2_ppf chi2 (1 - f) df loc scale))
                 (Inr (map Finite y))"
proof -
  from Gaussian_fit_success[OF assms] obtain gl y df loc scale where
    c: "check_array X = Inr X"
    and k: "GraphLasso_fit gb (gauss_alpha g) (gauss_assume_centered g) (gauss_max_iter g)
             (gauss_tol g) X = Inr gl"
    and l: "mahalanobis gb gl X = Inr y"
    and p: "chi2_fit chi2 (map Finite y) = Inr (df, loc, scale)"
    and s: "gauss_glasso s = Some gl"
           "gauss_threshold s = Some (chi2_ppf chi2 (1 - f) df loc scale)"
    by auto
  have "GaussianOutlierDetector_predict gb s (Some X)
             = DetectorMixin_predict (Some (chi2_ppf chi2 (1 - f) df loc scale))
                 (Inr (map Finite y))"
    by (simp add: GaussianOutlierDetector_predict_def s c l finite_scores_def
        GaussianOutlierDetector_anomaly_score_def)
  with k l p show ?thesis by blast
qed

lemma FastABOD_fit_predict:
  assumes "FastABOD_fit nb (a\<lparr>abod_fpr := f\<rparr>) X = (s, None)"
  shows "\<exists>knn y t.
           NearestNeighbors_fit nb (abod_metric a) (abod_metric_params a) (abod_n_jobs a)
             (abod_n_neighbors a) (abod_p a) X = Inr knn
         \<and> FastABOD_anomaly_score nb (a\<lparr>abod_knn := Some knn\<rparr>) None = Inr y
         \<and> np_percentile y (100 * (1 - f)) = Inr t
         \<and> FastABOD_predict nb s None = DetectorMixin_predict (Some t) (Inr (map Finite y))"
proof -
  from FastABOD_fit_success[OF assms] obtain knn y t where
    k: "NearestNeighbors_fit nb (abod_metric a) (abod_metric_params a) (abod_n_jobs a)
             (abod_n_neighbors a) (abod_p a) X = Inr knn"
    and l: "FastABOD_anomaly_score nb (a\<lparr>abod_fpr := f, abod_knn := Some knn\<rparr>) None = Inr y"
    and p: "np_percentile y (100 * (1 - f)) = Inr t"
    and s: "s = a\<lparr>abod_fpr := f, abod_knn := Some knn, abod_y_score := Some y,
                   abod_threshold := Some t\<rparr>"
    by auto
  have 1: "FastABOD_anomaly_score nb (a\<lparr>abod_knn := Some knn\<rparr>) None = Inr y"
    using l FastABOD_anomaly_score_cong[of "a\<lparr>abod_knn := Some knn\<rparr>"
        "a\<lparr>abod_fpr := f, abod_knn := Some knn\<rparr>" nb None] by simp
  have 2: "FastABOD_anomaly_score nb s None = Inr y"
    using l FastABOD_anomaly_score_cong[of s
        "a\<lparr>abod_fpr := f, abod_knn := Some knn\<rparr>" nb None] by (simp add: s)
  have 3: "abod_threshold s = Some t" by (simp add: s)
  have "FastABOD_predict nb s None = DetectorMixin_predict (Some t) (Inr (map Finite y))"
    unfolding FastABOD_predict_def 2 3 finite_scores_def by simp
  with k 1 p show ?thesis by blast
qed

lemma VMF_fit_unfold:
  assumes "check_array X = Inr X"
  shows "VMFOutlierDetector_fit chi2 self X =
     (let self2 = (if \<not> vmf_assume_normalized self
                   then self\<lparr>vmf_normalizer := Some ()\<rparr> else self)
                  \<lparr>vmf_mean_direction := Some (vmf_direction (vmf_assume_normalized self) X)\<rparr>
      in case VMFOutlierDetector_anomaly_score self2
                (Some (if \<not> vmf_assume_normalized self then Normalizer_transform X else X)) of
           Inl e \<Rightarrow> (self2, Some e)
         | Inr y \<Rightarrow>
             (case chi2_fit chi2 y of
                Inl e \<Rightarrow> (self2\<lparr>vmf_y_score := Some y\<rparr>, Some e)
              | Inr (df, loc, scale) \<Rightarrow>
                  (self2\<lparr>vmf_y_score := Some y, vmf_threshold :=
                            Some (chi2_ppf chi2 (1 - vmf_fpr self) df loc scale)\<rparr>, None)))"
  by (simp add: VMFOutlierDetector_fit_def assms Let_def vmf_direction_def
      split: sum.splits prod.splits)

lemma VMF_score_some:
  assumes "VMFOutlierDetector_anomaly_score self (Some X) = Inr y"
  shows "vmf_normalizer self = Some () \<and> check_array X = Inr X
       \<and> (\<exists>d. vmf_mean_direction self = Some d
              \<and> vmf_score (if \<not> vmf_assume_normalized self then Normalizer_transform X else X) d
                  = Inr y)"
proof -
  from assms have n: "vmf_normalizer self = Some ()"
    by (cases "vmf_normalizer self") (simp_all add: VMFOutlierDetector_anomaly_score_def)
  from assms n obtain X1 where c: "check_array X = Inr X1"
    by (cases "check_array X") (simp_all add: VMFOutlierDetector_anomaly_score_def)
  from check_array_rect[OF c] have x: "X1 = X" by blast
  from assms n c x obtain d where d: "vmf_mean_direction self = Some d"
    by (cases "vmf_mean_direction self")
       (simp_all add: VMFOutlierDetector_anomaly_score_def Let_def)
  from assms n c x d show ?thesis
    by (simp add: VMFOutlierDetector_anomaly_score_def Let_def)
qed

lemma VMF_fit_predict_gen:
  assumes "VMFOutlierDetector_fit chi2 w X = (s, None)"
  shows "\<exists>y df loc scale.
           vmf_score (if \<not> vmf_assume_normalized w
                      then Normalizer_transform (Normalizer_transform X) else X)
             (vmf_direction (vmf_assume_normalized w) X) = Inr y
         \<and> chi2_fit chi2 y = Inr (df, loc, scale)
         \<and> VMFOutlierDetector_predict s (Some X)
             = DetectorMixin_predict (Some (chi2_ppf chi2 (1 - vmf_fpr w) df loc scale))
                 (vmf_score (if \<not> vmf_assume_normalized w then Normalizer_transform X else X)
                    (vmf_direction (vmf_assume_normalized w) X))"
proof -
  define an where "an = vmf_assume_normalized w"
  define D where "D = vmf_direction an X"
  define X2 where "X2 = (if \<not> an then Normalizer_transform X else X)"
  define self2 where "self2 = (if \<not> an then w\<lparr>vmf_normalizer := Some ()\<rparr> else w)
                                 \<lparr>vmf_mean_direction := Some D\<rparr>"
  from assms obtain X1 where c0: "check_array X = Inr X1"
    by (cases "check_array X") (simp_all add: VMFOutlierDetector_fit_def)
  from check_array_rect[OF c0] have x: "X1 = X" by blast
  hence c: "check_array X = Inr X" using c0 by simp
  have u: "VMFOutlierDetector_fit chi2 w X =
     (case VMFOutlierDetector_anomaly_score self2 (Some X2) of
           Inl e \<Rightarrow> (self2, Some e)
         | Inr y \<Rightarrow>
             (case chi2_fit chi2 y of
                Inl e \<Rightarrow> (self2\<lparr>vmf_y_score := Some y\<rparr>, Some e)
              | Inr (df, loc, scale) \<Rightarrow>
                  (self2\<lparr>vmf_y_score := Some y, vmf_threshold :=
                            Some (chi2_ppf chi2 (1 - vmf_fpr w) df loc scale)\<rparr>, None)))"
    unfolding self2_def X2_def D_def an_def
    by (rule VMF_fit_unfold[OF c, unfolded Let_def])
  from assms u obtain y where y: "VMFOutlierDetector_anomaly_score self2 (Some X2) = Inr y"
    by (cases "VMFOutlierDetector_anomaly_score self2 (Some X2)") simp_all
  from assms u y obtain df loc scale where p: "chi2_fit chi2 y = Inr (df, loc, scale)"
    by (cases "chi2_fit chi2 y") auto
  from assms u y p have s: "s = self2\<lparr>vmf_y_score := Some y, vmf_threshold :=
                            Some (chi2_ppf chi2 (1 - vmf_fpr w) df loc scale)\<rparr>" by simp
  have f2: "vmf_assume_normalized self2 = an" "vmf_mean_direction self2 = Some D"
    by (simp_all add: self2_def an_def)
  from VMF_score_some[OF y] have n: "vmf_normalizer self2 = Some ()"
    and sc: "vmf_score (if \<not> an then Normalizer_transform X2 else X2) D = Inr y"
    by (simp_all add: f2)
  have 1: "vmf_score (if \<not> an then Normalizer_transform (Normalizer_transform X) else X) D
            = Inr y"
    using sc by (simp add: X2_def split: if_splits)
  have ns: "vmf_normalizer s = Some ()" "vmf_mean_direction s = Some D"
    "vmf_assume_normalized s = an"
    "vmf_threshold s = Some (chi2_ppf chi2 (1 - vmf_fpr w) df loc scale)"
    using n f2 by (simp_all add: s)
  have 2: "VMFOutlierDetector_anomaly_score s (Some X) = vmf_score X2 D"
    by (simp add: VMFOutlierDetector_anomaly_score_def ns c Let_def X2_def)
  have "VMFOutlierDetector_predict s (Some X)
             = DetectorMixin_predict (Some (chi2_ppf chi2 (1 - vmf_fpr w) df loc scale))
                 (vmf_score X2 D)"
    unfolding VMFOutlierDetector_predict_def 2 ns(4) ..
  with 1 p show ?thesis unfolding X2_def D_def an_def by blast
qed

lemma VMF_fit_predict:
  assumes "VMFOutlierDetector_fit chi2 (v\<lparr>vmf_fpr := f\<rparr>) X = (s, None)"
  shows "\<exists>y df loc scale.
           vmf_score (if \<not> vmf_assume_normalized v
                      then Normalizer_transform (Normalizer_transform X) else X)
             (vmf_direction (vmf_assume_normalized v) X) = Inr y
         \<and> chi2_fit chi2 y = Inr (df, loc, scale)
         \<and> VMFOutlierDetector_predict s (Some X)
             = DetectorMixin_predict (Some (chi2_ppf chi2 (1 - f) df loc scale))
                 (vmf_score (if \<not> vmf_assume_normalized v then Normalizer_transform X else X)
                    (vmf_direction (vmf_assume_normalized v) X))"
  using VMF_fit_predict_gen[OF assms] by simp

lemma dot_scale: "dot (map (\<lambda>v. v / n) x) (map (\<lambda>v. v / n) x) = dot x x / (n * n)"
  unfolding dot_def by (induction x) (simp_all add: add_divide_distrib)

lemma dot_self_nonneg: "0 \<le> dot x x"
  unfolding dot_def by (induction x) simp_all

lemma normalize_row_idem: "normalize_row (normalize_row x) = normalize_row x"
proof (cases "sqrt (dot x x) = 0")
  case True
  then show ?thesis by (simp add: normalize_row_def)
next
  case False
  define n where "n = sqrt (dot x x)"
  have n0: "n \<noteq> 0" using False by (simp add: n_def)
  have r: "normalize_row x = map (\<lambda>v. v / n) x"
    using n0 by (simp add: normalize_row_def n_def)
  have "dot x x = n * n" using dot_self_nonneg[of x] by (simp add: n_def)
  hence "dot (map (\<lambda>v. v / n) x) (map (\<lambda>v. v / n) x) = 1"
    using n0 unfolding dot_scale by simp
  thus ?thesis unfolding r by (simp add: normalize_row_def)
qed

lemma Normalizer_transform_idem:
  "Normalizer_transform (Normalizer_transform X) = Normalizer_transform X"
  by (simp add: Normalizer_transform_def normalize_row_idem)


subsection \<open>The scores that \<^verbatim>\<open>fit\<close> stores are those of the training matrix\<close>

lemma FastABOD_fit_scores:
  assumes "FastABOD_fit nb a X = (a', None)"
  shows "\<exists>knn y t.
           NearestNeighbors_fit nb (abod_metric a) (abod_metric_params a) (abod_n_jobs a)
             (abod_n_neighbors a) (abod_p a) X = Inr knn
         \<and> abod_knn a' = Some knn
         \<and> FastABOD_anomaly_score nb a' None = Inr y
         \<and> abod_y_score a' = Some y
         \<and> np_percentile y (100 * (1 - abod_fpr a)) = Inr t
         \<and> abod_threshold a' = Some t"
proof -
  from FastABOD_fit_success[OF assms] obtain knn y t where
    k: "NearestNeighbors_fit nb (abod_metric a) (abod_metric_params a) (abod_n_jobs a)
             (abod_n_neighbors a) (abod_p a) X = Inr knn"
    and l: "FastABOD_anomaly_score nb (a\<lparr>abod_knn := Some knn\<rparr>) None = Inr y"
    and p: "np_percentile y (100 * (1 - abod_fpr a)) = Inr t"
    and s: "a' = a\<lparr>abod_knn := Some knn, abod_y_score := Some y, abod_threshold := Some t\<rparr>"
    by blast
  have 2: "FastABOD_anomaly_score nb a' None = Inr y"
    using l FastABOD_anomaly_score_cong[of a' "a\<lparr>abod_knn := Some knn\<rparr>" nb None]
    by (simp add: s)
  have 3: "abod_knn a' = Some knn" "abod_y_score a' = Some y" "abod_threshold a' = Some t"
    by (simp_all add: s)
  from k 2 3 p show ?thesis by blast
qed

lemma KDE_fit_scores:
  assumes "KernelDensityOutlierDetector_fit kb k X = (k', None)"
  shows "\<exists>kde y t.
           KernelDensity_fit kb (kde_bandwidth k) (kde_kernel k) (kde_metric k)
             (kde_metric_params k) X = Inr kde
         \<and> kde_kde k' = Some kde
         \<and> KernelDensityOutlierDetector_anomaly_score kb k' (Some X) = Inr y
         \<and> kde_y_score k' = Some y
         \<and> np_percentile y (100 * (1 - kde_fpr k)) = Inr t
         \<and> kde_threshold k' = Some t"
proof -
  from KDE_fit_success[OF assms] obtain kde ld t where
    c: "check_array X = Inr X"
    and f: "KernelDensity_fit kb (kde_bandwidth k) (kde_kernel k) (kde_metric k)
                 (kde_metric_params k) X = Inr kde"
    and l: "kde_score_samples kb kde X = Inr ld"
    and p: "np_percentile (map uminus ld) (100 * (1 - kde_fpr k)) = Inr t"
    and s: "k' = k\<lparr>kde_kde := Some kde, kde_y_score := Some (map uminus ld),
                      kde_threshold := Some t\<rparr>"
    by blast
  have 2: "KernelDensityOutlierDetector_anomaly_score kb k' (Some X) = Inr (map uminus ld)"
    by (simp add: KernelDensityOutlierDetector_anomaly_score_def s c l)
  have 3: "kde_kde k' = Some kde" "kde_y_score k' = Some (map uminus ld)"
    "kde_threshold k' = Some t"
    by (simp_all add: s)
  from f 2 3 p show ?thesis by blast
qed

lemma GMM_fit_scores:
  assumes "GaussianMixtureOutlierDetector_fit mb m X = (m', None)"
  shows "\<exists>gmm y t.
           GaussianMixture_fit mb (gmm_covariance_type m) (gmm_max_iter m)
                  (gmm_means_init m) (gmm_n_components m) (gmm_precisions_init m)
                  (gmm_random_state m) (gmm_tol m) (gmm_warm_start m)
                  (gmm_weights_init m) X = Inr gmm
         \<and> gmm_gmm m' = Some gmm
         \<and> GaussianMixtureOutlierDetector_anomaly_score mb m' (Some X) = Inr y
         \<and> gmm_y_score m' = Some y
         \<and> np_percentile y (100 * (1 - gmm_fpr m)) = Inr t
         \<and> gmm_threshold m' = Some t"
proof -
  from GMM_fit_success[OF assms] obtain gmm ll t where
    c: "check_array X = Inr X"
    and f: "GaussianMixture_fit mb (gmm_covariance_type m) (gmm_max_iter m)
                  (gmm_means_init m) (gmm_n_components m) (gmm_precisions_init m)
                  (gmm_random_state m) (gmm_tol m) (gmm_warm_start m)
                  (gmm_weights_init m) X = Inr gmm"
    and l: "gmm_score_samples mb gmm X = Inr ll"
    and p: "np_percentile (map uminus ll) (100 * (1 - gmm_fpr m)) = Inr t"
    and s: "m' = m\<lparr>gmm_gmm := Some gmm, gmm_y_score := Some (map uminus ll),
                      gmm_threshold := Some t\<rparr>"
    by blast
  have 2: "GaussianMixtureOutlierDetector_anomaly_score mb m' (Some X) = Inr (map uminus ll)"
    by (simp add: GaussianMixtureOutlierDetector_anomaly_score_def s c l)
  have 3: "gmm_gmm m' = Some gmm" "gmm_y_score m' = Some (map uminus ll)"
    "gmm_threshold m' = Some t"
    by (simp_all add: s)
  from f 2 3 p show ?thesis by blast
qed

lemma Gaussian_fit_scores:
  assumes "GaussianOutlierDetector_fit gb chi2 g X = (g', None)"
  shows "\<exists>gl y df loc scale.
           GraphLasso_fit gb (gauss_alpha g) (gauss_assume_centered g) (gauss_max_iter g)
             (gauss_tol g) X = Inr gl
         \<and> gauss_glasso g' = Some gl
         \<and> GaussianOutlierDetector_anomaly_score gb g' (Some X) = Inr y
         \<and> gauss_y_score g' = Some y
         \<and> chi2_fit chi2 (map Finite y) = Inr (df, loc, scale)
         \<and> gauss_threshold g' = Some (chi2_ppf chi2 (1 - gauss_fpr g) df loc scale)"
proof -
  from Gaussian_fit_success[OF assms] obtain gl y df loc scale where
    c: "check_array X = Inr X"
    and f: "GraphLasso_fit gb (gauss_alpha g) (gauss_assume_centered g)
                 (gauss_max_iter g) (gauss_tol g) X = Inr gl"
    and l: "mahalanobis gb gl X = Inr y"
    and p: "chi2_fit chi2 (map Finite y) = Inr (df, loc, scale)"
    and 3: "gauss_glasso g' = Some gl" "gauss_y_score g' = Some y"
      "gauss_threshold g' = Some (chi2_ppf chi2 (1 - gauss_fpr g) df loc scale)"
    by blast
  have 2: "GaussianOutlierDetector_anomaly_score gb g' (Some X) = Inr y"
    by (simp add: GaussianOutlierDetector_anomaly_score_def 3 c l)
  from f 2 3 p show ?thesis by blast
qed

lemma VMF_fit_state:
  assumes "VMFOutlierDetector_fit chi2 w X = (s, None)"
  shows "\<exists>y df loc scale.
           check_array X = Inr X
         \<and> vmf_score (if \<not> vmf_assume_normalized w
                      then Normalizer_transform (Normalizer_transform X) else X)
             (vmf_direction (vmf_assume_normalized w) X) = Inr y
         \<and> chi2_fit chi2 y = Inr (df, loc, scale)
         \<and> vmf_normalizer s = Some ()
         \<and> vmf_assume_normalized s = vmf_assume_normalized w
         \<and> vmf_mean_direction s = Some (vmf_direction (vmf_assume_normalized w) X)
         \<and> vmf_y_score s = Some y
         \<and> vmf_threshold s = Some (chi2_ppf chi2 (1 - vmf_fpr w) df loc scale)"
proof -
  define an where "an = vmf_assume_normalized w"
  define D where "D = vmf_direction an X"
  define X2 where "X2 = (if \<not> an then Normalizer_transform X else X)"
  define self2 where "self2 = (if \<not> an then w\<lparr>vmf_normalizer := Some ()\<rparr> else w)
                                 \<lparr>vmf_mean_direction := Some D\<rparr>"
  from assms obtain X1 where c0: "check_array X = Inr X1"
    by (cases "check_array X") (simp_all add: VMFOutlierDetector_fit_def)
  from check_array_rect[OF c0] have x: "X1 = X" by blast
  hence c: "check_array X = Inr X" using c0 by simp
  have u: "VMFOutlierDetector_fit chi2 w X =
     (case VMFOutlierDetector_anomaly_score self2 (Some X2) of
           Inl e \<Rightarrow> (self2, Some e)
         | Inr y \<Rightarrow>
             (case chi2_fit chi2 y of
                Inl e \<Rightarrow> (self2\<lparr>vmf_y_score := Some y\<rparr>, Some e)
              | Inr (df, loc, scale) \<Rightarrow>
                  (self2\<lparr>vmf_y_score := Some y, vmf_threshold :=
                            Some (chi2_ppf chi2 (1 - vmf_fpr w) df loc scale)\<rparr>, None)))"
    unfolding self2_def X2_def D_def an_def
    by (rule VMF_fit_unfold[OF c, unfolded Let_def])
  from assms u obtain y where y: "VMFOutlierDetector_anomaly_score self2 (Some X2) = Inr y"
    by (cases "VMFOutlierDetector_anomaly_score self2 (Some X2)") simp_all
  from assms u y obtain df loc scale where p: "chi2_fit chi2 y = Inr (df, loc, scale)"
    by (cases "chi2_fit chi2 y") auto
  from assms u y p have s: "s = self2\<lparr>vmf_y_score := Some y, vmf_threshold :=
                            Some (chi2_ppf chi2 (1 - vmf_fpr w) df loc scale)\<rparr>" by simp
  have f2: "vmf_assume_normalized self2 = an" "vmf_mean_direction self2 = Some D"
    by (simp_all add: self2_def an_def)
  from VMF_score_some[OF y] have n: "vmf_normalizer self2 = Some ()"
    and sc: "vmf_score (if \<not> an then Normalizer_transform X2 else X2) D = Inr y"
    by (simp_all add: f2)
  have 1: "vmf_score (if \<not> an then Normalizer_transform (Normalizer_transform X) else X) D
            = Inr y"
    using sc by (simp add: X2_def split: if_splits)
  have ns: "vmf_normalizer s = Some ()" "vmf_mean_direction s = Some D"
    "vmf_assume_normalized s = an" "vmf_y_score s = Some y"
    "vmf_threshold s = Some (chi2_ppf chi2 (1 - vmf_fpr w) df loc scale)"
    using n f2 by (simp_all add: s)
  from c 1 p ns show ?thesis unfolding D_def an_def by blast
qed

lemma VMF_fit_scores:
  assumes "VMFOutlierDetector_fit chi2 v X = (v', None)"
  shows "\<exists>y df loc scale.
           vmf_mean_direction v' = Some (vmf_direction (vmf_assume_normalized v) X)
         \<and> VMFOutlierDetector_anomaly_score v' (Some X) = Inr y
         \<and> vmf_y_score v' = Some y
         \<and> chi2_fit chi2 y = Inr (df, loc, scale)
         \<and> vmf_threshold v' = Some (chi2_ppf chi2 (1 - vmf_fpr v) df loc scale)"
proof -
  from VMF_fit_state[OF assms] obtain y df loc scale where
    c: "check_array X = Inr X"
    and sc: "vmf_score (if \<not> vmf_assume_normalized v
                      then Normalizer_transform (Normalizer_transform X) else X)
             (vmf_direction (vmf_assume_normalized v) X) = Inr y"
    and p: "chi2_fit chi2 y = Inr (df, loc, scale)"
    and ns: "vmf_normalizer v' = Some ()"
      "vmf_assume_normalized v' = vmf_assume_normalized v"
      "vmf_mean_direction v' = Some (vmf_direction (vmf_assume_normalized v) X)"
    and ys: "vmf_y_score v' = Some y"
    and t: "vmf_threshold v' = Some (chi2_ppf chi2 (1 - vmf_fpr v) df loc scale)"
    by blast
  have "VMFOutlierDetector_anomaly_score v' (Some X)
          = vmf_score (if \<not> vmf_assume_normalized v then Normalizer_transform X else X)
              (vmf_direction (vmf_assume_normalized v) X)"
    by (simp add: VMFOutlierDetector_anomaly_score_def ns c Let_def)
  hence 2: "VMFOutlierDetector_anomaly_score v' (Some X) = Inr y"
    using sc unfolding Normalizer_transform_idem by simp
  from ns(3) 2 ys p t show ?thesis by blast
qed

text \<open>
  C9. After a successful \<^verbatim>\<open>fit(X)\<close> the stored \<^verbatim>\<open>y_score_\<close> is the in-sample score vector:
  the model attribute holds what the underlying estimator returned for \<open>X\<close>, and
  \<^verbatim>\<open>y_score_\<close> is what \<^verbatim>\<open>anomaly_score\<close> of the fitted instance returns for the training data
  (\<^verbatim>\<open>anomaly_score(X)\<close> for the kernel-density, mixture, Gaussian and von Mises-Fisher
  detectors; \<^verbatim>\<open>anomaly_score()\<close>, each training point scored against its neighbours other
  than itself, for FastABOD). The stored threshold is \<^verbatim>\<open>np.percentile\<close> of that vector
  at \<open>100 (1 - fpr)\<close> for FastABOD, kernel density and the Gaussian mixture, and the
  chi-squared quantile at \<open>1 - fpr\<close> with the degrees of freedom, location and scale that
  \<^verbatim>\<open>chi2.fit\<close> returns for that vector for the Gaussian (graphical lasso) and
  von Mises-Fisher detectors.
\<close>

theorem threshold_after_fit:
  "(FastABOD_fit nb a X = (a', None) \<longrightarrow>
      (\<exists>knn y t.
           NearestNeighbors_fit nb (abod_metric a) (abod_metric_params a) (abod_n_jobs a)
             (abod_n_neighbors a) (abod_p a) X = Inr knn
         \<and> abod_knn a' = Some knn
         \<and> FastABOD_anomaly_score nb a' None = Inr y
         \<and> abod_y_score a' = Some y
         \<and> np_percentile y (100 * (1 - abod_fpr a)) = Inr t
         \<and> abod_threshold a' = Some t))
   \<and> (KernelDensityOutlierDetector_fit kb k X = (k', None) \<longrightarrow>
      (\<exists>kde y t.
           KernelDensity_fit kb (kde_bandwidth k) (kde_kernel k) (kde_metric k)
             (kde_metric_params k) X = Inr kde
         \<and> kde_kde k' = Some kde
         \<and> KernelDensityOutlierDetector_anomaly_score kb k' (Some X) = Inr y
         \<and> kde_y_score k' = Some y
         \<and> np_percentile y (100 * (1 - kde_fpr k)) = Inr t
         \<and> kde_threshold k' = Some t))
   \<and> (GaussianMixtureOutlierDetector_fit mb m X = (m', None) \<longrightarrow>
      (\<exists>gmm y t.
           GaussianMixture_fit mb (gmm_covariance_type m) (gmm_max_iter m)
                  (gmm_means_init m) (gmm_n_components m) (gmm_precisions_init m)
                  (gmm_random_state m) (gmm_tol m) (gmm_warm_start m)
                  (gmm_weights_init m) X = Inr gmm
         \<and> gmm_gmm m' = Some gmm
         \<and> GaussianMixtureOutlierDetector_anomaly_score mb m' (Some X) = Inr y
         \<and> gmm_y_score m' = Some y
         \<and> np_percentile y (100 * (1 - gmm_fpr m)) = Inr t
         \<and> gmm_threshold m' = Some t))
   \<and> (GaussianOutlierDetector_fit gb chi2 g X = (g', None) \<longrightarrow>
      (\<exists>gl y df loc scale.
           GraphLasso_fit gb (gauss_alpha g) (gauss_assume_centered g) (gauss_max_iter g)
             (gauss_tol g) X = Inr gl
         \<and> gauss_glasso g' = Some gl
         \<and> GaussianOutlierDetector_anomaly_score gb g' (Some X) = Inr y
         \<and> gauss_y_score g' = Some y
         \<and> chi2_fit chi2 (map Finite y) = Inr (df, loc, scale)
         \<and> gauss_threshold g' = Some (chi2_ppf chi2 (1 - gauss_fpr g) df loc scale)))
   \<and> (VMFOutlierDetector_fit chi2 v X = (v', None) \<longrightarrow>
      (\<exists>y df loc scale.
           vmf_mean_direction v' = Some (vmf_direction (vmf_assume_normalized v) X)
         \<and> VMFOutlierDetector_anomaly_score v' (Some X) = Inr y
         \<and> vmf_y_score v' = Some y
         \<and> chi2_fit chi2 y = Inr (df, loc, scale)
         \<and> vmf_threshold v' = Some (chi2_ppf chi2 (1 - vmf_fpr v) df loc scale)))"
proof -
  have 1: "FastABOD_fit nb a X = (a', None) \<longrightarrow>
      (\<exists>knn y t.
           NearestNeighbors_fit nb (abod_metric a) (abod_metric_params a) (abod_n_jobs a)
             (abod_n_neighbors a) (abod_p a) X = Inr knn
         \<and> abod_knn a' = Some knn
         \<and> FastABOD_anomaly_score nb a' None = Inr y
         \<and> abod_y_score a' = Some y
         \<and> np_percentile y (100 * (1 - abod_fpr a)) = Inr t
         \<and> abod_threshold a' = Some t)"
    by (rule impI) (rule FastABOD_fit_scores)
  have 2: "KernelDensityOutlierDetector_fit kb k X = (k', None) \<longrightarrow>
      (\<exists>kde y t.
           KernelDensity_fit kb (kde_bandwidth k) (kde_kernel k) (kde_metric k)
             (kde_metric_params k) X = Inr kde
         \<and> kde_kde k' = Some kde
         \<and> KernelDensityOutlierDetector_anomaly_score kb k' (Some X) = Inr y
         \<and> kde_y_score k' = Some y
         \<and> np_percentile y (100 * (1 - kde_fpr k)) = Inr t
         \<and> kde_threshold k' = Some t)"
    by (rule impI) (rule KDE_fit_scores)
  have 3: "GaussianMixtureOutlierDetector_fit mb m X = (m', None) \<longrightarrow>
      (\<exists>gmm y t.
           GaussianMixture_fit mb (gmm_covariance_type m) (gmm_max_iter m)
                  (gmm_means_init m) (gmm_n_components m) (gmm_precisions_init m)
                  (gmm_random_state m) (gmm_tol m) (gmm_warm_start m)
                  (gmm_weights_init m) X = Inr gmm
         \<and> gmm_gmm m' = Some gmm
         \<and> GaussianMixtureOutlierDetector_anomaly_score mb m' (Some X) = Inr y
         \<and> gmm_y_score m' = Some y
         \<and> np_percentile y (100 * (1 - gmm_fpr m)) = Inr t
         \<and> gmm_threshold m' = Some t)"
    by (rule impI) (rule GMM_fit_scores)
  have 4: "GaussianOutlierDetector_fit gb chi2 g X = (g', None) \<longrightarrow>
      (\<exists>gl y df loc scale.
           GraphLasso_fit gb (gauss_alpha g) (gauss_assume_centered g) (gauss_max_iter g)
             (gauss_tol g) X = Inr gl
         \<and> gauss_glasso g' = Some gl
         \<and> GaussianOutlierDetector_anomaly_score gb g' (Some X) = Inr y
         \<and> gauss_y_score g' = Some y
         \<and> chi2_fit chi2 (map Finite y) = Inr (df, loc, scale)
         \<and> gauss_threshold g' = Some (chi2_ppf chi2 (1 - gauss_fpr g) df loc scale))"
    by (rule impI) (rule Gaussian_fit_scores)
  have 5: "VMFOutlierDetector_fit chi2 v X = (v', None) \<longrightarrow>
      (\<exists>y df loc scale.
           vmf_mean_direction v' = Some (vmf_direction (vmf_assume_normalized v) X)
         \<and> VMFOutlierDetector_anomaly_score v' (Some X) = Inr y
         \<and> vmf_y_score v' = Some y
         \<and> chi2_fit chi2 y = Inr (df, loc, scale)
         \<and> vmf_threshold v' = Some (chi2_ppf chi2 (1 - vmf_fpr v) df loc scale))"
    by (rule impI) (rule VMF_fit_scores)
  show ?thesis by (rule conjI[OF 1 conjI[OF 2 conjI[OF 3 conjI[OF 4 5]]]])
qed


theorem threshold_after_fit_witness:
  "FastABOD_fit brute_neighbors abod_new abod_train = (abod_fitted, None)
   \<and> (\<exists>knn y t.
           NearestNeighbors_fit brute_neighbors (abod_metric abod_new)
             (abod_metric_params abod_new) (abod_n_jobs abod_new)
             (abod_n_neighbors abod_new) (abod_p abod_new) abod_train = Inr knn
         \<and> abod_knn abod_fitted = Some knn
         \<and> FastABOD_anomaly_score brute_neighbors abod_fitted None = Inr y
         \<and> abod_y_score abod_fitted = Some y
         \<and> np_percentile y (100 * (1 - abod_fpr abod_new)) = Inr t
         \<and> abod_threshold abod_fitted = Some t)
   \<and> snd (KernelDensityOutlierDetector_fit centroid_kde (kde_new (1/2)) line_train) = None
   \<and> (\<exists>kde y t.
           KernelDensity_fit centroid_kde (kde_bandwidth (kde_new (1/2)))
             (kde_kernel (kde_new (1/2))) (kde_metric (kde_new (1/2)))
             (kde_metric_params (kde_new (1/2))) line_train = Inr kde
         \<and> kde_kde (fst (KernelDensityOutlierDetector_fit centroid_kde (kde_new (1/2)) line_train)) = Some kde
         \<and> KernelDensityOutlierDetector_anomaly_score centroid_kde
              (fst (KernelDensityOutlierDetector_fit centroid_kde (kde_new (1/2)) line_train)) (Some line_train) = Inr y
         \<and> kde_y_score (fst (KernelDensityOutlierDetector_fit centroid_kde (kde_new (1/2)) line_train)) = Some y
         \<and> np_percentile y (100 * (1 - kde_fpr (kde_new (1/2)))) = Inr t
         \<and> kde_threshold (fst (KernelDensityOutlierDetector_fit centroid_kde (kde_new (1/2)) line_train)) = Some t)
   \<and> snd (GaussianMixtureOutlierDetector_fit centroid_gmm (gmm_new (1/2)) line_train) = None
   \<and> (\<exists>gmm y t.
           GaussianMixture_fit centroid_gmm (gmm_covariance_type (gmm_new (1/2)))
             (gmm_max_iter (gmm_new (1/2))) (gmm_means_init (gmm_new (1/2)))
             (gmm_n_components (gmm_new (1/2))) (gmm_precisions_init (gmm_new (1/2)))
             (gmm_random_state (gmm_new (1/2))) (gmm_tol (gmm_new (1/2)))
             (gmm_warm_start (gmm_new (1/2))) (gmm_weights_init (gmm_new (1/2)))
             line_train = Inr gmm
         \<and> gmm_gmm (fst (GaussianMixtureOutlierDetector_fit centroid_gmm (gmm_new (1/2)) line_train)) = Some gmm
         \<and> GaussianMixtureOutlierDetector_anomaly_score centroid_gmm
              (fst (GaussianMixtureOutlierDetector_fit centroid_gmm (gmm_new (1/2)) line_train)) (Some line_train) = Inr y
         \<and> gmm_y_score (fst (GaussianMixtureOutlierDetector_fit centroid_gmm (gmm_new (1/2)) line_train)) = Some y
         \<and> np_percentile y (100 * (1 - gmm_fpr (gmm_new (1/2)))) = Inr t
         \<and> gmm_threshold (fst (GaussianMixtureOutlierDetector_fit centroid_gmm (gmm_new (1/2)) line_train)) = Some t)
   \<and> snd (GaussianOutlierDetector_fit centroid_glasso chi2_two (gauss_new 0) line_train) = None
   \<and> (\<exists>gl y df loc scale.
           GraphLasso_fit centroid_glasso (gauss_alpha (gauss_new 0))
             (gauss_assume_centered (gauss_new 0)) (gauss_max_iter (gauss_new 0))
             (gauss_tol (gauss_new 0)) line_train = Inr gl
         \<and> gauss_glasso (fst (GaussianOutlierDetector_fit centroid_glasso chi2_two (gauss_new 0) line_train)) = Some gl
         \<and> GaussianOutlierDetector_anomaly_score centroid_glasso
              (fst (GaussianOutlierDetector_fit centroid_glasso chi2_two (gauss_new 0) line_train)) (Some line_train) = Inr y
         \<and> gauss_y_score (fst (GaussianOutlierDetector_fit centroid_glasso chi2_two (gauss_new 0) line_train)) = Some y
         \<and> chi2_fit chi2_two (map Finite y) = Inr (df, loc, scale)
         \<and> gauss_threshold (fst (GaussianOutlierDetector_fit centroid_glasso chi2_two (gauss_new 0) line_train))
             = Some (chi2_ppf chi2_two (1 - gauss_fpr (gauss_new 0)) df loc scale))
   \<and> snd (VMFOutlierDetector_fit chi2_two (vmf_new False 1) vmf_train) = None
   \<and> (\<exists>y df loc scale.
           vmf_mean_direction (fst (VMFOutlierDetector_fit chi2_two (vmf_new False 1) vmf_train))
             = Some (vmf_direction (vmf_assume_normalized (vmf_new False 1)) vmf_train)
         \<and> VMFOutlierDetector_anomaly_score (fst (VMFOutlierDetector_fit chi2_two (vmf_new False 1) vmf_train)) (Some vmf_train) = Inr y
         \<and> vmf_y_score (fst (VMFOutlierDetector_fit chi2_two (vmf_new False 1) vmf_train)) = Some y
         \<and> chi2_fit chi2_two y = Inr (df, loc, scale)
         \<and> vmf_threshold (fst (VMFOutlierDetector_fit chi2_two (vmf_new False 1) vmf_train))
             = Some (chi2_ppf chi2_two (1 - vmf_fpr (vmf_new False 1)) df loc scale))"
proof -
  note R = threshold_after_fit
  have a: "FastABOD_fit brute_neighbors abod_new abod_train = (abod_fitted, None)"
    by (rule fit_train_example)
  note a' = R [THEN conjunct1, THEN mp, OF a]
  have k: "snd (KernelDensityOutlierDetector_fit centroid_kde (kde_new (1/2)) line_train) = None"
    by code_simp
  hence "KernelDensityOutlierDetector_fit centroid_kde (kde_new (1/2)) line_train
          = (fst (KernelDensityOutlierDetector_fit centroid_kde (kde_new (1/2)) line_train), None)"
    by (simp add: prod_eq_iff)
  note k' = R [THEN conjunct2, THEN conjunct1, THEN mp, OF this]
  have m: "snd (GaussianMixtureOutlierDetector_fit centroid_gmm (gmm_new (1/2)) line_train) = None"
    by code_simp
  hence "GaussianMixtureOutlierDetector_fit centroid_gmm (gmm_new (1/2)) line_train
          = (fst (GaussianMixtureOutlierDetector_fit centroid_gmm (gmm_new (1/2)) line_train), None)"
    by (simp add: prod_eq_iff)
  note m' = R [THEN conjunct2, THEN conjunct2, THEN conjunct1, THEN mp, OF this]
  have g: "snd (GaussianOutlierDetector_fit centroid_glasso chi2_two (gauss_new 0) line_train) = None"
    by (rule gauss_fit_example) simp_all
  hence "GaussianOutlierDetector_fit centroid_glasso chi2_two (gauss_new 0) line_train
          = (fst (GaussianOutlierDetector_fit centroid_glasso chi2_two (gauss_new 0) line_train), None)"
    by (simp add: prod_eq_iff)
  note g' = R [THEN conjunct2, THEN conjunct2, THEN conjunct2, THEN conjunct1, THEN mp, OF this]
  have v: "snd (VMFOutlierDetector_fit chi2_two (vmf_new False 1) vmf_train) = None"
    by (simp add: vmf_fit_example)
  hence "VMFOutlierDetector_fit chi2_two (vmf_new False 1) vmf_train
          = (fst (VMFOutlierDetector_fit chi2_two (vmf_new False 1) vmf_train), None)"
    by (simp add: prod_eq_iff)
  note v' = R [THEN conjunct2, THEN conjunct2, THEN conjunct2, THEN conjunct2, THEN mp, OF this]
  show ?thesis
    by (rule conjI[OF a conjI[OF a' conjI[OF k conjI[OF k' conjI[OF m conjI[OF m'
          conjI[OF g conjI[OF g' conjI[OF v v']]]]]]]]])
qed

subsection \<open>The labels of \<^verbatim>\<open>predict\<close>\<close>











subsection \<open>The number of flagged training samples as a function of \<open>fpr\<close>\<close>

lemma KDE_flagged_mono:
  assumes "f1 \<le> f2"
      and "KernelDensityOutlierDetector_fit kb (k\<lparr>kde_fpr := f1\<rparr>) X = (s1, None)"
      and "KernelDensityOutlierDetector_fit kb (k\<lparr>kde_fpr := f2\<rparr>) X = (s2, None)"
      and "KernelDensityOutlierDetector_predict kb s1 (Some X) = Inr l1"
      and "KernelDensityOutlierDetector_predict kb s2 (Some X) = Inr l2"
  shows "n_flagged l1 \<le> n_flagged l2"
proof -
  from KDE_fit_predict[OF assms(2)] obtain kde ld t1 where
    a: "KernelDensity_fit kb (kde_bandwidth k) (kde_kernel k) (kde_metric k)
             (kde_metric_params k) X = Inr kde"
       "kde_score_samples kb kde X = Inr ld"
       "np_percentile (map uminus ld) (100 * (1 - f1)) = Inr t1"
       "KernelDensityOutlierDetector_predict kb s1 (Some X)
             = DetectorMixin_predict (Some t1) (Inr (map Finite (map uminus ld)))"
    by blast
  from KDE_fit_predict[OF assms(3)] obtain kde' ld' t2 where
    b: "KernelDensity_fit kb (kde_bandwidth k) (kde_kernel k) (kde_metric k)
             (kde_metric_params k) X = Inr kde'"
       "kde_score_samples kb kde' X = Inr ld'"
       "np_percentile (map uminus ld') (100 * (1 - f2)) = Inr t2"
       "KernelDensityOutlierDetector_predict kb s2 (Some X)
             = DetectorMixin_predict (Some t2) (Inr (map Finite (map uminus ld')))"
    by blast
  from a(1) b(1) have "kde' = kde" by simp
  with a(2) b(2) have e: "ld' = ld" by simp
  show ?thesis
    using percentile_thresholds[OF _ _ a(3) b(3)[unfolded e] assms(1), of l1 l2]
      a(4) b(4) assms(4,5) unfolding e by simp
qed

lemma KDE_flagged_zero:
  assumes "KernelDensityOutlierDetector_fit kb (k\<lparr>kde_fpr := 0\<rparr>) X = (s0, None)"
      and "KernelDensityOutlierDetector_predict kb s0 (Some X) = Inr l0"
  shows "n_flagged l0 = 0"
proof -
  from KDE_fit_predict[OF assms(1)] obtain ld t where
    a: "np_percentile (map uminus ld) (100 * (1 - 0)) = Inr t"
       "KernelDensityOutlierDetector_predict kb s0 (Some X)
             = DetectorMixin_predict (Some t) (Inr (map Finite (map uminus ld)))"
    by blast
  show ?thesis using percentile_100_threshold[OF _ a(1), of l0] a(2) assms(2) by simp
qed

lemma GMM_flagged_mono:
  assumes "f1 \<le> f2"
      and "GaussianMixtureOutlierDetector_fit mb (m\<lparr>gmm_fpr := f1\<rparr>) X = (s1, None)"
      and "GaussianMixtureOutlierDetector_fit mb (m\<lparr>gmm_fpr := f2\<rparr>) X = (s2, None)"
      and "GaussianMixtureOutlierDetector_predict mb s1 (Some X) = Inr l1"
      and "GaussianMixtureOutlierDetector_predict mb s2 (Some X) = Inr l2"
  shows "n_flagged l1 \<le> n_flagged l2"
proof -
  from GMM_fit_predict[OF assms(2)] obtain gmm ll t1 where
    a: "GaussianMixture_fit mb (gmm_covariance_type m) (gmm_max_iter m)
                  (gmm_means_init m) (gmm_n_components m) (gmm_precisions_init m)
                  (gmm_random_state m) (gmm_tol m) (gmm_warm_start m)
                  (gmm_weights_init m) X = Inr gmm"
       "gmm_score_samples mb gmm X = Inr ll"
       "np_percentile (map uminus ll) (100 * (1 - f1)) = Inr t1"
       "GaussianMixtureOutlierDetector_predict mb s1 (Some X)
             = DetectorMixin_predict (Some t1) (Inr (map Finite (map uminus ll)))"
    by blast
  from GMM_fit_predict[OF assms(3)] obtain gmm' ll' t2 where
    b: "GaussianMixture_fit mb (gmm_covariance_type m) (gmm_max_iter m)
                  (gmm_means_init m) (gmm_n_components m) (gmm_precisions_init m)
                  (gmm_random_state m) (gmm_tol m) (gmm_warm_start m)
                  (gmm_weights_init m) X = Inr gmm'"
       "gmm_score_samples mb gmm' X = Inr ll'"
       "np_percentile (map uminus ll') (100 * (1 - f2)) = Inr t2"
       "GaussianMixtureOutlierDetector_predict mb s2 (Some X)
             = DetectorMixin_predict (Some t2) (Inr (map Finite (map uminus ll')))"
    by blast
  from a(1) b(1) have "gmm' = gmm" by simp
  with a(2) b(2) have e: "ll' = ll" by simp
  show ?thesis
    using percentile_thresholds[OF _ _ a(3) b(3)[unfolded e] assms(1), of l1 l2]
      a(4) b(4) assms(4,5) unfolding e by simp
qed

lemma GMM_flagged_zero:
  assumes "GaussianMixtureOutlierDetector_fit mb (m\<lparr>gmm_fpr := 0\<rparr>) X = (s0, None)"
      and "GaussianMixtureOutlierDetector_predict mb s0 (Some X) = Inr l0"
  shows "n_flagged l0 = 0"
proof -
  from GMM_fit_predict[OF assms(1)] obtain ll t where
    a: "np_percentile (map uminus ll) (100 * (1 - 0)) = Inr t"
       "GaussianMixtureOutlierDetector_predict mb s0 (Some X)
             = DetectorMixin_predict (Some t) (Inr (map Finite (map uminus ll)))"
    by blast
  show ?thesis using percentile_100_threshold[OF _ a(1), of l0] a(2) assms(2) by simp
qed

lemma FastABOD_flagged_mono:
  assumes "f1 \<le> f2"
      and "FastABOD_fit nb (a\<lparr>abod_fpr := f1\<rparr>) X = (s1, None)"
      and "FastABOD_fit nb (a\<lparr>abod_fpr := f2\<rparr>) X = (s2, None)"
      and "FastABOD_predict nb s1 None = Inr l1"
      and "FastABOD_predict nb s2 None = Inr l2"
  shows "n_flagged l1 \<le> n_flagged l2"
proof -
  from FastABOD_fit_predict[OF assms(2)] obtain knn y t1 where
    a: "NearestNeighbors_fit nb (abod_metric a) (abod_metric_params a) (abod_n_jobs a)
             (abod_n_neighbors a) (abod_p a) X = Inr knn"
       "FastABOD_anomaly_score nb (a\<lparr>abod_knn := Some knn\<rparr>) None = Inr y"
       "np_percentile y (100 * (1 - f1)) = Inr t1"
       "FastABOD_predict nb s1 None = DetectorMixin_predict (Some t1) (Inr (map Finite y))"
    by blast
  from FastABOD_fit_predict[OF assms(3)] obtain knn' y' t2 where
    b: "NearestNeighbors_fit nb (abod_metric a) (abod_metric_params a) (abod_n_jobs a)
             (abod_n_neighbors a) (abod_p a) X = Inr knn'"
       "FastABOD_anomaly_score nb (a\<lparr>abod_knn := Some knn'\<rparr>) None = Inr y'"
       "np_percentile y' (100 * (1 - f2)) = Inr t2"
       "FastABOD_predict nb s2 None = DetectorMixin_predict (Some t2) (Inr (map Finite y'))"
    by blast
  from a(1) b(1) have "knn' = knn" by simp
  with a(2) b(2) have e: "y' = y" by simp
  show ?thesis
    using percentile_thresholds[OF _ _ a(3) b(3)[unfolded e] assms(1), of l1 l2]
      a(4) b(4) assms(4,5) unfolding e by simp
qed

lemma FastABOD_flagged_zero:
  assumes "FastABOD_fit nb (a\<lparr>abod_fpr := 0\<rparr>) X = (s0, None)"
      and "FastABOD_predict nb s0 None = Inr l0"
  shows "n_flagged l0 = 0"
proof -
  from FastABOD_fit_predict[OF assms(1)] obtain y t where
    a: "np_percentile y (100 * (1 - 0)) = Inr t"
       "FastABOD_predict nb s0 None = DetectorMixin_predict (Some t) (Inr (map Finite y))"
    by blast
  show ?thesis using percentile_100_threshold[OF _ a(1), of l0] a(2) assms(2) by simp
qed

lemma Gaussian_flagged_mono:
  assumes "quantile_nondecreasing chi2" "0 \<le> f1" "f1 \<le> f2" "f2 \<le> 1"
      and "GaussianOutlierDetector_fit gb chi2 (g\<lparr>gauss_fpr := f1\<rparr>) X = (s1, None)"
      and "GaussianOutlierDetector_fit gb chi2 (g\<lparr>gauss_fpr := f2\<rparr>) X = (s2, None)"
      and "GaussianOutlierDetector_predict gb s1 (Some X) = Inr l1"
      and "GaussianOutlierDetector_predict gb s2 (Some X) = Inr l2"
  shows "n_flagged l1 \<le> n_flagged l2"
proof -
  from Gaussian_fit_predict[OF assms(5)] obtain gl y df loc scale where
    a: "GraphLasso_fit gb (gauss_alpha g) (gauss_assume_centered g) (gauss_max_iter g)
             (gauss_tol g) X = Inr gl"
       "mahalanobis gb gl X = Inr y"
       "chi2_fit chi2 (map Finite y) = Inr (df, loc, scale)"
       "GaussianOutlierDetector_predict gb s1 (Some X)
             = DetectorMixin_predict (Some (chi2_ppf chi2 (1 - f1) df loc scale))
                 (Inr (map Finite y))"
    by blast
  from Gaussian_fit_predict[OF assms(6)] obtain gl' y' df' loc' scale' where
    b: "GraphLasso_fit gb (gauss_alpha g) (gauss_assume_centered g) (gauss_max_iter g)
             (gauss_tol g) X = Inr gl'"
       "mahalanobis gb gl' X = Inr y'"
       "chi2_fit chi2 (map Finite y') = Inr (df', loc', scale')"
       "GaussianOutlierDetector_predict gb s2 (Some X)
             = DetectorMixin_predict (Some (chi2_ppf chi2 (1 - f2) df' loc' scale'))
                 (Inr (map Finite y'))"
    by blast
  from a(1) b(1) have "gl' = gl" by simp
  with a(2) b(2) have e: "y' = y" by simp
  with a(3) b(3) have p: "df' = df" "loc' = loc" "scale' = scale" by simp_all
  have q: "0 \<le> 1 - f2" "1 - f2 \<le> 1 - f1" "1 - f1 \<le> 1" using assms(2-4) by simp_all
  have le: "np_less_equal (chi2_ppf chi2 (1 - f2) df loc scale)
              (chi2_ppf chi2 (1 - f1) df loc scale)"
    using assms(1) a(3) q unfolding quantile_nondecreasing_def by blast
  have 1: "DetectorMixin_predict (Some (chi2_ppf chi2 (1 - f1) df loc scale))
             (Inr (map Finite y)) = Inr l1" using a(4) assms(7) by simp
  have 2: "DetectorMixin_predict (Some (chi2_ppf chi2 (1 - f2) df loc scale))
             (Inr (map Finite y)) = Inr l2" using b(4) assms(8) unfolding e p by simp
  show ?thesis by (rule two_thresholds[OF 1 2]) (rule disjI1[OF le])
qed

lemma Gaussian_flagged_zero:
  assumes "quantile_unbounded chi2"
      and "GaussianOutlierDetector_fit gb chi2 (g\<lparr>gauss_fpr := 0\<rparr>) X = (s0, None)"
      and "GaussianOutlierDetector_predict gb s0 (Some X) = Inr l0"
  shows "n_flagged l0 = 0"
proof -
  from Gaussian_fit_predict[OF assms(2)] obtain y df loc scale where
    a: "chi2_fit chi2 (map Finite y) = Inr (df, loc, scale)"
       "GaussianOutlierDetector_predict gb s0 (Some X)
             = DetectorMixin_predict (Some (chi2_ppf chi2 (1 - 0) df loc scale))
                 (Inr (map Finite y))"
    by blast
  have t: "chi2_ppf chi2 (1 - 0) df loc scale = PosInf"
    using assms(1) a(1) unfolding quantile_unbounded_def by simp
  from a(2) assms(3) have "DetectorMixin_predict (Some PosInf) (Inr (map Finite y)) = Inr l0"
    unfolding t by simp
  from predict_labels_eq[OF this]
  have l: "l0 = map (\<lambda>y. if np_greater y PosInf then 1 else 0) (map Finite y)" by simp
  show ?thesis unfolding l by (rule flagged_none) (rule np_greater_PosInf)
qed

lemma VMF_flagged_mono:
  assumes "quantile_nondecreasing chi2" "0 \<le> f1" "f1 \<le> f2" "f2 \<le> 1"
      and "VMFOutlierDetector_fit chi2 (v\<lparr>vmf_fpr := f1\<rparr>) X = (s1, None)"
      and "VMFOutlierDetector_fit chi2 (v\<lparr>vmf_fpr := f2\<rparr>) X = (s2, None)"
      and "VMFOutlierDetector_predict s1 (Some X) = Inr l1"
      and "VMFOutlierDetector_predict s2 (Some X) = Inr l2"
  shows "n_flagged l1 \<le> n_flagged l2"
proof -
  let ?r = "vmf_score (if \<not> vmf_assume_normalized v then Normalizer_transform X else X)
                    (vmf_direction (vmf_assume_normalized v) X)"
  let ?f = "vmf_score (if \<not> vmf_assume_normalized v
                      then Normalizer_transform (Normalizer_transform X) else X)
             (vmf_direction (vmf_assume_normalized v) X)"
  from VMF_fit_predict[OF assms(5)] obtain y df loc scale where
    a: "?f = Inr y" "chi2_fit chi2 y = Inr (df, loc, scale)"
       "VMFOutlierDetector_predict s1 (Some X)
             = DetectorMixin_predict (Some (chi2_ppf chi2 (1 - f1) df loc scale)) ?r"
    by blast
  from VMF_fit_predict[OF assms(6)] obtain y' df' loc' scale' where
    b: "?f = Inr y'" "chi2_fit chi2 y' = Inr (df', loc', scale')"
       "VMFOutlierDetector_predict s2 (Some X)
             = DetectorMixin_predict (Some (chi2_ppf chi2 (1 - f2) df' loc' scale')) ?r"
    by blast
  from a(1) b(1) have e: "y' = y" by simp
  with a(2) b(2) have p: "df' = df" "loc' = loc" "scale' = scale" by simp_all
  have q: "0 \<le> 1 - f2" "1 - f2 \<le> 1 - f1" "1 - f1 \<le> 1" using assms(2-4) by simp_all
  have le: "np_less_equal (chi2_ppf chi2 (1 - f2) df loc scale)
              (chi2_ppf chi2 (1 - f1) df loc scale)"
    using assms(1) a(2) q unfolding quantile_nondecreasing_def by blast
  have 1: "DetectorMixin_predict (Some (chi2_ppf chi2 (1 - f1) df loc scale)) ?r = Inr l1"
    using a(3) assms(7) by simp
  have 2: "DetectorMixin_predict (Some (chi2_ppf chi2 (1 - f2) df loc scale)) ?r = Inr l2"
    using b(3) assms(8) unfolding p by simp
  show ?thesis by (rule two_thresholds[OF 1 2]) (rule disjI1[OF le])
qed

lemma VMF_flagged_zero:
  assumes "quantile_unbounded chi2"
      and "VMFOutlierDetector_fit chi2 (v\<lparr>vmf_fpr := 0\<rparr>) X = (s0, None)"
      and "VMFOutlierDetector_predict s0 (Some X) = Inr l0"
  shows "n_flagged l0 = 0"
proof -
  let ?r = "vmf_score (if \<not> vmf_assume_normalized v then Normalizer_transform X else X)
                    (vmf_direction (vmf_assume_normalized v) X)"
  from VMF_fit_predict[OF assms(2)] obtain y df loc scale where
    a: "chi2_fit chi2 y = Inr (df, loc, scale)"
       "VMFOutlierDetector_predict s0 (Some X)
             = DetectorMixin_predict (Some (chi2_ppf chi2 (1 - 0) df loc scale)) ?r"
    by blast
  have t: "chi2_ppf chi2 (1 - 0) df loc scale = PosInf"
    using assms(1) a(1) unfolding quantile_unbounded_def by simp
  from a(2) assms(3) have "DetectorMixin_predict (Some PosInf) ?r = Inr l0"
    unfolding t by simp
  from predict_labels_eq[OF this] obtain zs where
    l: "l0 = map (\<lambda>y. if np_greater y PosInf then 1 else 0) zs" by blast
  show ?thesis unfolding l by (rule flagged_none) (rule np_greater_PosInf)
qed

lemma chi2_two_nondecreasing: "quantile_nondecreasing chi2_two"
proof -
  have "np_less_equal (chi2_ppf chi2_two q 2 0 1) (chi2_ppf chi2_two q' 2 0 1)"
    if "0 \<le> q" "q \<le> q'" "q' \<le> 1" for q q'
  proof (cases "q' = 1")
    case True
    then show ?thesis using that by (simp add: chi2_two_def)
  next
    case False
    hence "0 < 1 - q'" "1 - q' \<le> 1 - q" using that by simp_all
    hence "ln (1 - q') \<le> ln (1 - q)" by simp
    thus ?thesis using that False by (simp add: chi2_two_def)
  qed
  thus ?thesis unfolding quantile_nondecreasing_def by (auto simp: chi2_two_def)
qed

lemma chi2_two_unbounded: "quantile_unbounded chi2_two"
  unfolding quantile_unbounded_def by (simp add: chi2_two_def)


lemma vmf_fit_example_zero:
  "VMFOutlierDetector_fit chi2_two (vmf_new False 0) vmf_train
     = ((vmf_new False 0)\<lparr> vmf_normalizer := Some (),
           vmf_mean_direction := Some [Finite 1, Finite 0],
           vmf_y_score := Some [Finite 0, Finite 2, Finite 0],
           vmf_threshold := Some PosInf \<rparr>, None)"
  by (simp add: VMFOutlierDetector_fit_def vmf_new_def vmf_train_def check_array_def
      Normalizer_transform_def normalize_row_def dot_def np_mean_def sqrt_ninth
      np_true_divide_def VMFOutlierDetector_anomaly_score_def vmf_score_def np_dot_f_def
      chi2_two_def Let_def)

lemma vmf_example_score_zero:
  "VMFOutlierDetector_anomaly_score
     (fst (VMFOutlierDetector_fit chi2_two (vmf_new False 0) vmf_train)) (Some vmf_train)
     = Inr [Finite 0, Finite 2, Finite 0]"
  by (simp add: vmf_fit_example_zero)
     (simp add: VMFOutlierDetector_anomaly_score_def vmf_new_def vmf_train_def check_array_def
        Normalizer_transform_def normalize_row_def dot_def vmf_score_def np_dot_f_def)

lemma gauss_example_predict:
  "GaussianOutlierDetector_predict centroid_glasso
     (fst (GaussianOutlierDetector_fit centroid_glasso chi2_two (gauss_new f) line_train))
     (Some line_train)
   = DetectorMixin_predict (Some (chi2_ppf chi2_two (1 - f) 2 0 1))
       (Inr [Finite (25 / 4), Finite (9 / 4), Finite (1 / 4), Finite (81 / 4)])"
proof -
  note s = gauss_example_state[of f]
  from gauss_example_score[OF s[THEN conjunct1]] s
  show ?thesis by (simp add: GaussianOutlierDetector_predict_def finite_scores_def)
qed

text \<open>
  C3. With the training matrix and the other hyperparameters fixed, lowering \<open>fpr\<close>
  never \<^emph>\<open>raises\<close> the number of training samples that \<^verbatim>\<open>predict\<close> flags after \<^verbatim>\<open>fit\<close>:
  for \<open>f1 \<le> f2\<close> the detector fitted with \<open>fpr = f1\<close> flags at most as many training
  samples as the one fitted with \<open>fpr = f2\<close>, and the detector fitted with \<open>fpr = 0\<close>
  flags none. This holds as it stands for the percentile thresholds (kernel density,
  Gaussian mixture, and FastABOD, whose in-sample labels are those of \<^verbatim>\<open>predict\<close> with
  \<open>X\<close> omitted since \<^verbatim>\<open>predict(X)\<close> raises on training samples); for the chi-squared
  thresholds (Gaussian, von Mises-Fisher) it holds for \<open>0 \<le> f1 \<le> f2 \<le> 1\<close> when the
  quantile function is nondecreasing, and no sample is flagged at \<open>fpr = 0\<close> when its
  value at level \<open>1\<close> is \<open>+inf\<close>. The underlying estimators are functions of their
  arguments: fitted twice on the same data with the same parameters they return the
  same model.
\<close>

theorem flagged_count_monotone_in_fpr:
  "(f1 \<le> f2
      \<and> KernelDensityOutlierDetector_fit kb (k\<lparr>kde_fpr := f1\<rparr>) X = (k1, None)
      \<and> KernelDensityOutlierDetector_fit kb (k\<lparr>kde_fpr := f2\<rparr>) X = (k2, None)
      \<and> KernelDensityOutlierDetector_predict kb k1 (Some X) = Inr l1
      \<and> KernelDensityOutlierDetector_predict kb k2 (Some X) = Inr l2
      \<longrightarrow> n_flagged l1 \<le> n_flagged l2)
   \<and> (KernelDensityOutlierDetector_fit kb (k\<lparr>kde_fpr := 0\<rparr>) X = (k0, None)
      \<and> KernelDensityOutlierDetector_predict kb k0 (Some X) = Inr l0
      \<longrightarrow> n_flagged l0 = 0)
   \<and> (f1 \<le> f2
      \<and> GaussianMixtureOutlierDetector_fit mb (m\<lparr>gmm_fpr := f1\<rparr>) X = (m1, None)
      \<and> GaussianMixtureOutlierDetector_fit mb (m\<lparr>gmm_fpr := f2\<rparr>) X = (m2, None)
      \<and> GaussianMixtureOutlierDetector_predict mb m1 (Some X) = Inr l1
      \<and> GaussianMixtureOutlierDetector_predict mb m2 (Some X) = Inr l2
      \<longrightarrow> n_flagged l1 \<le> n_flagged l2)
   \<and> (GaussianMixtureOutlierDetector_fit mb (m\<lparr>gmm_fpr := 0\<rparr>) X = (m0, None)
      \<and> GaussianMixtureOutlierDetector_predict mb m0 (Some X) = Inr l0
      \<longrightarrow> n_flagged l0 = 0)
   \<and> (f1 \<le> f2
      \<and> FastABOD_fit nb (a\<lparr>abod_fpr := f1\<rparr>) X = (a1, None)
      \<and> FastABOD_fit nb (a\<lparr>abod_fpr := f2\<rparr>) X = (a2, None)
      \<and> FastABOD_predict nb a1 None = Inr l1
      \<and> FastABOD_predict nb a2 None = Inr l2
      \<longrightarrow> n_flagged l1 \<le> n_flagged l2)
   \<and> (FastABOD_fit nb (a\<lparr>abod_fpr := 0\<rparr>) X = (a0, None)
      \<and> FastABOD_predict nb a0 None = Inr l0
      \<longrightarrow> n_flagged l0 = 0)
   \<and> (quantile_nondecreasing chi2 \<and> 0 \<le> f1 \<and> f1 \<le> f2 \<and> f2 \<le> 1
      \<and> GaussianOutlierDetector_fit gb chi2 (g\<lparr>gauss_fpr := f1\<rparr>) X = (g1, None)
      \<and> GaussianOutlierDetector_fit gb chi2 (g\<lparr>gauss_fpr := f2\<rparr>) X = (g2, None)
      \<and> GaussianOutlierDetector_predict gb g1 (Some X) = Inr l1
      \<and> GaussianOutlierDetector_predict gb g2 (Some X) = Inr l2
      \<longrightarrow> n_flagged l1 \<le> n_flagged l2)
   \<and> (quantile_unbounded chi2
      \<and> GaussianOutlierDetector_fit gb chi2 (g\<lparr>gauss_fpr := 0\<rparr>) X = (g0, None)
      \<and> GaussianOutlierDetector_predict gb g0 (Some X) = Inr l0
      \<longrightarrow> n_flagged l0 = 0)
   \<and> (quantile_nondecreasing chi2 \<and> 0 \<le> f1 \<and> f1 \<le> f2 \<and> f2 \<le> 1
      \<and> VMFOutlierDetector_fit chi2 (v\<lparr>vmf_fpr := f1\<rparr>) X = (v1, None)
      \<and> VMFOutlierDetector_fit chi2 (v\<lparr>vmf_fpr := f2\<rparr>) X = (v2, None)
      \<and> VMFOutlierDetector_predict v1 (Some X) = Inr l1
      \<and> VMFOutlierDetector_predict v2 (Some X) = Inr l2
      \<longrightarrow> n_flagged l1 \<le> n_flagged l2)
   \<and> (quantile_unbounded chi2
      \<and> VMFOutlierDetector_fit chi2 (v\<lparr>vmf_fpr := 0\<rparr>) X = (v0, None)
      \<and> VMFOutlierDetector_predict v0 (Some X) = Inr l0
      \<longrightarrow> n_flagged l0 = 0)"
proof (intro conjI impI; elim conjE)
  assume "f1 \<le> f2"
    "KernelDensityOutlierDetector_fit kb (k\<lparr>kde_fpr := f1\<rparr>) X = (k1, None)"
    "KernelDensityOutlierDetector_fit kb (k\<lparr>kde_fpr := f2\<rparr>) X = (k2, None)"
    "KernelDensityOutlierDetector_predict kb k1 (Some X) = Inr l1"
    "KernelDensityOutlierDetector_predict kb k2 (Some X) = Inr l2"
  thus "n_flagged l1 \<le> n_flagged l2" by (rule KDE_flagged_mono)
next
  assume "KernelDensityOutlierDetector_fit kb (k\<lparr>kde_fpr := 0\<rparr>) X = (k0, None)"
    "KernelDensityOutlierDetector_predict kb k0 (Some X) = Inr l0"
  thus "n_flagged l0 = 0" by (rule KDE_flagged_zero)
next
  assume "f1 \<le> f2"
    "GaussianMixtureOutlierDetector_fit mb (m\<lparr>gmm_fpr := f1\<rparr>) X = (m1, None)"
    "GaussianMixtureOutlierDetector_fit mb (m\<lparr>gmm_fpr := f2\<rparr>) X = (m2, None)"
    "GaussianMixtureOutlierDetector_predict mb m1 (Some X) = Inr l1"
    "GaussianMixtureOutlierDetector_predict mb m2 (Some X) = Inr l2"
  thus "n_flagged l1 \<le> n_flagged l2" by (rule GMM_flagged_mono)
next
  assume "GaussianMixtureOutlierDetector_fit mb (m\<lparr>gmm_fpr := 0\<rparr>) X = (m0, None)"
    "GaussianMixtureOutlierDetector_predict mb m0 (Some X) = Inr l0"
  thus "n_flagged l0 = 0" by (rule GMM_flagged_zero)
next
  assume "f1 \<le> f2"
    "FastABOD_fit nb (a\<lparr>abod_fpr := f1\<rparr>) X = (a1, None)"
    "FastABOD_fit nb (a\<lparr>abod_fpr := f2\<rparr>) X = (a2, None)"
    "FastABOD_predict nb a1 None = Inr l1"
    "FastABOD_predict nb a2 None = Inr l2"
  thus "n_flagged l1 \<le> n_flagged l2" by (rule FastABOD_flagged_mono)
next
  assume "FastABOD_fit nb (a\<lparr>abod_fpr := 0\<rparr>) X = (a0, None)"
    "FastABOD_predict nb a0 None = Inr l0"
  thus "n_flagged l0 = 0" by (rule FastABOD_flagged_zero)
next
  assume "quantile_nondecreasing chi2" "0 \<le> f1" "f1 \<le> f2" "f2 \<le> 1"
    "GaussianOutlierDetector_fit gb chi2 (g\<lparr>gauss_fpr := f1\<rparr>) X = (g1, None)"
    "GaussianOutlierDetector_fit gb chi2 (g\<lparr>gauss_fpr := f2\<rparr>) X = (g2, None)"
    "GaussianOutlierDetector_predict gb g1 (Some X) = Inr l1"
    "GaussianOutlierDetector_predict gb g2 (Some X) = Inr l2"
  thus "n_flagged l1 \<le> n_flagged l2" by (rule Gaussian_flagged_mono)
next
  assume "quantile_unbounded chi2"
    "GaussianOutlierDetector_fit gb chi2 (g\<lparr>gauss_fpr := 0\<rparr>) X = (g0, None)"
    "GaussianOutlierDetector_predict gb g0 (Some X) = Inr l0"
  thus "n_flagged l0 = 0" by (rule Gaussian_flagged_zero)
next
  assume "quantile_nondecreasing chi2" "0 \<le> f1" "f1 \<le> f2" "f2 \<le> 1"
    "VMFOutlierDetector_fit chi2 (v\<lparr>vmf_fpr := f1\<rparr>) X = (v1, None)"
    "VMFOutlierDetector_fit chi2 (v\<lparr>vmf_fpr := f2\<rparr>) X = (v2, None)"
    "VMFOutlierDetector_predict v1 (Some X) = Inr l1"
    "VMFOutlierDetector_predict v2 (Some X) = Inr l2"
  thus "n_flagged l1 \<le> n_flagged l2" by (rule VMF_flagged_mono)
next
  assume "quantile_unbounded chi2"
    "VMFOutlierDetector_fit chi2 (v\<lparr>vmf_fpr := 0\<rparr>) X = (v0, None)"
    "VMFOutlierDetector_predict v0 (Some X) = Inr l0"
  thus "n_flagged l0 = 0" by (rule VMF_flagged_zero)
qed

theorem flagged_count_monotone_in_fpr_witness:
  "((0::real) \<le> 1/2
    \<and> snd (KernelDensityOutlierDetector_fit centroid_kde ((kde_new 0)\<lparr>kde_fpr := 0\<rparr>) line_train) = None
    \<and> snd (KernelDensityOutlierDetector_fit centroid_kde ((kde_new 0)\<lparr>kde_fpr := 1/2\<rparr>) line_train) = None
    \<and> KernelDensityOutlierDetector_predict centroid_kde
        (fst (KernelDensityOutlierDetector_fit centroid_kde ((kde_new 0)\<lparr>kde_fpr := 0\<rparr>) line_train))
        (Some line_train) = Inr [0, 0, 0, 0]
    \<and> KernelDensityOutlierDetector_predict centroid_kde
        (fst (KernelDensityOutlierDetector_fit centroid_kde ((kde_new 0)\<lparr>kde_fpr := 1/2\<rparr>) line_train))
        (Some line_train) = Inr [1, 0, 0, 1])
   \<and> n_flagged ([0, 0, 0, 0] :: int list) \<le> n_flagged ([1, 0, 0, 1] :: int list)
   \<and> (snd (KernelDensityOutlierDetector_fit centroid_kde ((kde_new 0)\<lparr>kde_fpr := 0\<rparr>) line_train) = None
    \<and> KernelDensityOutlierDetector_predict centroid_kde
        (fst (KernelDensityOutlierDetector_fit centroid_kde ((kde_new 0)\<lparr>kde_fpr := 0\<rparr>) line_train))
        (Some line_train) = Inr [0, 0, 0, 0])
   \<and> n_flagged ([0, 0, 0, 0] :: int list) = 0
   \<and> ((0::real) \<le> 1/2
    \<and> snd (GaussianMixtureOutlierDetector_fit centroid_gmm ((gmm_new 0)\<lparr>gmm_fpr := 0\<rparr>) line_train) = None
    \<and> snd (GaussianMixtureOutlierDetector_fit centroid_gmm ((gmm_new 0)\<lparr>gmm_fpr := 1/2\<rparr>) line_train) = None
    \<and> GaussianMixtureOutlierDetector_predict centroid_gmm
        (fst (GaussianMixtureOutlierDetector_fit centroid_gmm ((gmm_new 0)\<lparr>gmm_fpr := 0\<rparr>) line_train))
        (Some line_train) = Inr [0, 0, 0, 0]
    \<and> GaussianMixtureOutlierDetector_predict centroid_gmm
        (fst (GaussianMixtureOutlierDetector_fit centroid_gmm ((gmm_new 0)\<lparr>gmm_fpr := 1/2\<rparr>) line_train))
        (Some line_train) = Inr [1, 0, 0, 1])
   \<and> n_flagged ([0, 0, 0, 0] :: int list) \<le> n_flagged ([1, 0, 0, 1] :: int list)
   \<and> (snd (GaussianMixtureOutlierDetector_fit centroid_gmm ((gmm_new 0)\<lparr>gmm_fpr := 0\<rparr>) line_train) = None
    \<and> GaussianMixtureOutlierDetector_predict centroid_gmm
        (fst (GaussianMixtureOutlierDetector_fit centroid_gmm ((gmm_new 0)\<lparr>gmm_fpr := 0\<rparr>) line_train))
        (Some line_train) = Inr [0, 0, 0, 0])
   \<and> n_flagged ([0, 0, 0, 0] :: int list) = 0
   \<and> ((0::real) \<le> 1/2
    \<and> snd (FastABOD_fit brute_neighbors (abod_new\<lparr>abod_fpr := 0\<rparr>) abod_train) = None
    \<and> snd (FastABOD_fit brute_neighbors (abod_new\<lparr>abod_fpr := 1/2\<rparr>) abod_train) = None
    \<and> FastABOD_predict brute_neighbors
        (fst (FastABOD_fit brute_neighbors (abod_new\<lparr>abod_fpr := 0\<rparr>) abod_train)) None = Inr [0, 0, 0, 0]
    \<and> FastABOD_predict brute_neighbors
        (fst (FastABOD_fit brute_neighbors (abod_new\<lparr>abod_fpr := 1/2\<rparr>) abod_train)) None = Inr [1, 0, 0, 1])
   \<and> n_flagged ([0, 0, 0, 0] :: int list) \<le> n_flagged ([1, 0, 0, 1] :: int list)
   \<and> (snd (FastABOD_fit brute_neighbors (abod_new\<lparr>abod_fpr := 0\<rparr>) abod_train) = None
    \<and> FastABOD_predict brute_neighbors
        (fst (FastABOD_fit brute_neighbors (abod_new\<lparr>abod_fpr := 0\<rparr>) abod_train)) None = Inr [0, 0, 0, 0])
   \<and> n_flagged ([0, 0, 0, 0] :: int list) = 0
   \<and> (quantile_nondecreasing chi2_two \<and> (0::real) \<le> 0 \<and> (0::real) \<le> 1 \<and> (1::real) \<le> 1
    \<and> snd (GaussianOutlierDetector_fit centroid_glasso chi2_two ((gauss_new 0)\<lparr>gauss_fpr := 0\<rparr>) line_train) = None
    \<and> snd (GaussianOutlierDetector_fit centroid_glasso chi2_two ((gauss_new 0)\<lparr>gauss_fpr := 1\<rparr>) line_train) = None
    \<and> GaussianOutlierDetector_predict centroid_glasso
        (fst (GaussianOutlierDetector_fit centroid_glasso chi2_two ((gauss_new 0)\<lparr>gauss_fpr := 0\<rparr>) line_train))
        (Some line_train) = Inr [0, 0, 0, 0]
    \<and> GaussianOutlierDetector_predict centroid_glasso
        (fst (GaussianOutlierDetector_fit centroid_glasso chi2_two ((gauss_new 0)\<lparr>gauss_fpr := 1\<rparr>) line_train))
        (Some line_train) = Inr [1, 1, 1, 1])
   \<and> n_flagged ([0, 0, 0, 0] :: int list) \<le> n_flagged ([1, 1, 1, 1] :: int list)
   \<and> (quantile_unbounded chi2_two \<and> snd (GaussianOutlierDetector_fit centroid_glasso chi2_two ((gauss_new 0)\<lparr>gauss_fpr := 0\<rparr>) line_train) = None
    \<and> GaussianOutlierDetector_predict centroid_glasso
        (fst (GaussianOutlierDetector_fit centroid_glasso chi2_two ((gauss_new 0)\<lparr>gauss_fpr := 0\<rparr>) line_train))
        (Some line_train) = Inr [0, 0, 0, 0])
   \<and> n_flagged ([0, 0, 0, 0] :: int list) = 0
   \<and> (quantile_nondecreasing chi2_two \<and> (0::real) \<le> 0 \<and> (0::real) \<le> 1 \<and> (1::real) \<le> 1
    \<and> snd (VMFOutlierDetector_fit chi2_two ((vmf_new False 0)\<lparr>vmf_fpr := 0\<rparr>) vmf_train) = None
    \<and> snd (VMFOutlierDetector_fit chi2_two ((vmf_new False 0)\<lparr>vmf_fpr := 1\<rparr>) vmf_train) = None
    \<and> VMFOutlierDetector_predict
        (fst (VMFOutlierDetector_fit chi2_two ((vmf_new False 0)\<lparr>vmf_fpr := 0\<rparr>) vmf_train))
        (Some vmf_train) = Inr [0, 0, 0]
    \<and> VMFOutlierDetector_predict
        (fst (VMFOutlierDetector_fit chi2_two ((vmf_new False 0)\<lparr>vmf_fpr := 1\<rparr>) vmf_train))
        (Some vmf_train) = Inr [0, 1, 0])
   \<and> n_flagged ([0, 0, 0] :: int list) \<le> n_flagged ([0, 1, 0] :: int list)
   \<and> (quantile_unbounded chi2_two \<and> snd (VMFOutlierDetector_fit chi2_two ((vmf_new False 0)\<lparr>vmf_fpr := 0\<rparr>) vmf_train) = None
    \<and> VMFOutlierDetector_predict
        (fst (VMFOutlierDetector_fit chi2_two ((vmf_new False 0)\<lparr>vmf_fpr := 0\<rparr>) vmf_train))
        (Some vmf_train) = Inr [0, 0, 0])
   \<and> n_flagged ([0, 0, 0] :: int list) = 0"
proof -
  note R = flagged_count_monotone_in_fpr
  have le: "(0::real) \<le> 1/2" by simp
  have z0: "(0::real) \<le> 0" by simp
  have z1: "(0::real) \<le> 1" by simp
  have o1: "(1::real) \<le> 1" by simp
  have qn: "quantile_nondecreasing chi2_two" by (rule chi2_two_nondecreasing)
  have qu: "quantile_unbounded chi2_two" by (rule chi2_two_unbounded)
  have eqg: "(gauss_new 0)\<lparr>gauss_fpr := f\<rparr> = gauss_new f" for f
    by (simp add: gauss_new_def)
  have eqv: "(vmf_new False 0)\<lparr>vmf_fpr := f\<rparr> = vmf_new False f" for f
    by (simp add: vmf_new_def)
  have t0: "chi2_ppf chi2_two (1 - 0) 2 0 1 = PosInf" by (simp add: chi2_two_def)
  have t1: "chi2_ppf chi2_two (1 - 1) 2 0 1 = Finite 0" by (simp add: chi2_two_def)
  have sk0: "snd (KernelDensityOutlierDetector_fit centroid_kde ((kde_new 0)\<lparr>kde_fpr := 0\<rparr>) line_train) = None"
    by code_simp
  hence ek0: "KernelDensityOutlierDetector_fit centroid_kde ((kde_new 0)\<lparr>kde_fpr := 0\<rparr>) line_train
          = (fst (KernelDensityOutlierDetector_fit centroid_kde ((kde_new 0)\<lparr>kde_fpr := 0\<rparr>) line_train), None)"
    by (simp add: prod_eq_iff)
  have sk1: "snd (KernelDensityOutlierDetector_fit centroid_kde ((kde_new 0)\<lparr>kde_fpr := 1/2\<rparr>) line_train) = None"
    by code_simp
  hence ek1: "KernelDensityOutlierDetector_fit centroid_kde ((kde_new 0)\<lparr>kde_fpr := 1/2\<rparr>) line_train
          = (fst (KernelDensityOutlierDetector_fit centroid_kde ((kde_new 0)\<lparr>kde_fpr := 1/2\<rparr>) line_train), None)"
    by (simp add: prod_eq_iff)
  have pk0: "KernelDensityOutlierDetector_predict centroid_kde
        (fst (KernelDensityOutlierDetector_fit centroid_kde ((kde_new 0)\<lparr>kde_fpr := 0\<rparr>) line_train))
        (Some line_train) = Inr [0, 0, 0, 0]"
    by code_simp
  have pk1: "KernelDensityOutlierDetector_predict centroid_kde
        (fst (KernelDensityOutlierDetector_fit centroid_kde ((kde_new 0)\<lparr>kde_fpr := 1/2\<rparr>) line_train))
        (Some line_train) = Inr [1, 0, 0, 1]"
    by code_simp
  have sm0: "snd (GaussianMixtureOutlierDetector_fit centroid_gmm ((gmm_new 0)\<lparr>gmm_fpr := 0\<rparr>) line_train) = None"
    by code_simp
  hence em0: "GaussianMixtureOutlierDetector_fit centroid_gmm ((gmm_new 0)\<lparr>gmm_fpr := 0\<rparr>) line_train
          = (fst (GaussianMixtureOutlierDetector_fit centroid_gmm ((gmm_new 0)\<lparr>gmm_fpr := 0\<rparr>) line_train), None)"
    by (simp add: prod_eq_iff)
  have sm1: "snd (GaussianMixtureOutlierDetector_fit centroid_gmm ((gmm_new 0)\<lparr>gmm_fpr := 1/2\<rparr>) line_train) = None"
    by code_simp
  hence em1: "GaussianMixtureOutlierDetector_fit centroid_gmm ((gmm_new 0)\<lparr>gmm_fpr := 1/2\<rparr>) line_train
          = (fst (GaussianMixtureOutlierDetector_fit centroid_gmm ((gmm_new 0)\<lparr>gmm_fpr := 1/2\<rparr>) line_train), None)"
    by (simp add: prod_eq_iff)
  have pm0: "GaussianMixtureOutlierDetector_predict centroid_gmm
        (fst (GaussianMixtureOutlierDetector_fit centroid_gmm ((gmm_new 0)\<lparr>gmm_fpr := 0\<rparr>) line_train))
        (Some line_train) = Inr [0, 0, 0, 0]"
    by code_simp
  have pm1: "GaussianMixtureOutlierDetector_predict centroid_gmm
        (fst (GaussianMixtureOutlierDetector_fit centroid_gmm ((gmm_new 0)\<lparr>gmm_fpr := 1/2\<rparr>) line_train))
        (Some line_train) = Inr [1, 0, 0, 1]"
    by code_simp
  have sa0: "snd (FastABOD_fit brute_neighbors (abod_new\<lparr>abod_fpr := 0\<rparr>) abod_train) = None"
    by code_simp
  hence ea0: "FastABOD_fit brute_neighbors (abod_new\<lparr>abod_fpr := 0\<rparr>) abod_train
          = (fst (FastABOD_fit brute_neighbors (abod_new\<lparr>abod_fpr := 0\<rparr>) abod_train), None)"
    by (simp add: prod_eq_iff)
  have sa1: "snd (FastABOD_fit brute_neighbors (abod_new\<lparr>abod_fpr := 1/2\<rparr>) abod_train) = None"
    by code_simp
  hence ea1: "FastABOD_fit brute_neighbors (abod_new\<lparr>abod_fpr := 1/2\<rparr>) abod_train
          = (fst (FastABOD_fit brute_neighbors (abod_new\<lparr>abod_fpr := 1/2\<rparr>) abod_train), None)"
    by (simp add: prod_eq_iff)
  have pa0: "FastABOD_predict brute_neighbors
        (fst (FastABOD_fit brute_neighbors (abod_new\<lparr>abod_fpr := 0\<rparr>) abod_train)) None = Inr [0, 0, 0, 0]"
    by code_simp
  have pa1: "FastABOD_predict brute_neighbors
        (fst (FastABOD_fit brute_neighbors (abod_new\<lparr>abod_fpr := 1/2\<rparr>) abod_train)) None = Inr [1, 0, 0, 1]"
    by code_simp
  have sg0: "snd (GaussianOutlierDetector_fit centroid_glasso chi2_two ((gauss_new 0)\<lparr>gauss_fpr := 0\<rparr>) line_train) = None"
    unfolding eqg by (rule gauss_fit_example) simp_all
  hence eg0: "GaussianOutlierDetector_fit centroid_glasso chi2_two ((gauss_new 0)\<lparr>gauss_fpr := 0\<rparr>) line_train
          = (fst (GaussianOutlierDetector_fit centroid_glasso chi2_two ((gauss_new 0)\<lparr>gauss_fpr := 0\<rparr>) line_train), None)"
    by (simp add: prod_eq_iff)
  have sg1: "snd (GaussianOutlierDetector_fit centroid_glasso chi2_two ((gauss_new 0)\<lparr>gauss_fpr := 1\<rparr>) line_train) = None"
    unfolding eqg by (rule gauss_fit_example) simp_all
  hence eg1: "GaussianOutlierDetector_fit centroid_glasso chi2_two ((gauss_new 0)\<lparr>gauss_fpr := 1\<rparr>) line_train
          = (fst (GaussianOutlierDetector_fit centroid_glasso chi2_two ((gauss_new 0)\<lparr>gauss_fpr := 1\<rparr>) line_train), None)"
    by (simp add: prod_eq_iff)
  have pg0: "GaussianOutlierDetector_predict centroid_glasso
        (fst (GaussianOutlierDetector_fit centroid_glasso chi2_two ((gauss_new 0)\<lparr>gauss_fpr := 0\<rparr>) line_train))
        (Some line_train) = Inr [0, 0, 0, 0]"
    unfolding eqg gauss_example_predict t0 by (simp add: DetectorMixin_predict_def)
  have pg1: "GaussianOutlierDetector_predict centroid_glasso
        (fst (GaussianOutlierDetector_fit centroid_glasso chi2_two ((gauss_new 0)\<lparr>gauss_fpr := 1\<rparr>) line_train))
        (Some line_train) = Inr [1, 1, 1, 1]"
    unfolding eqg gauss_example_predict t1 by (simp add: DetectorMixin_predict_def)
  have sv0: "snd (VMFOutlierDetector_fit chi2_two ((vmf_new False 0)\<lparr>vmf_fpr := 0\<rparr>) vmf_train) = None"
    unfolding eqv by (simp add: vmf_fit_example_zero)
  hence ev0: "VMFOutlierDetector_fit chi2_two ((vmf_new False 0)\<lparr>vmf_fpr := 0\<rparr>) vmf_train
          = (fst (VMFOutlierDetector_fit chi2_two ((vmf_new False 0)\<lparr>vmf_fpr := 0\<rparr>) vmf_train), None)"
    by (simp add: prod_eq_iff)
  have sv1: "snd (VMFOutlierDetector_fit chi2_two ((vmf_new False 0)\<lparr>vmf_fpr := 1\<rparr>) vmf_train) = None"
    unfolding eqv by (simp add: vmf_fit_example)
  hence ev1: "VMFOutlierDetector_fit chi2_two ((vmf_new False 0)\<lparr>vmf_fpr := 1\<rparr>) vmf_train
          = (fst (VMFOutlierDetector_fit chi2_two ((vmf_new False 0)\<lparr>vmf_fpr := 1\<rparr>) vmf_train), None)"
    by (simp add: prod_eq_iff)
  have pv0: "VMFOutlierDetector_predict
        (fst (VMFOutlierDetector_fit chi2_two ((vmf_new False 0)\<lparr>vmf_fpr := 0\<rparr>) vmf_train))
        (Some vmf_train) = Inr [0, 0, 0]"
    unfolding eqv VMFOutlierDetector_predict_def vmf_example_score_zero
    by (simp add: vmf_fit_example_zero DetectorMixin_predict_def)
  have pv1: "VMFOutlierDetector_predict
        (fst (VMFOutlierDetector_fit chi2_two ((vmf_new False 0)\<lparr>vmf_fpr := 1\<rparr>) vmf_train))
        (Some vmf_train) = Inr [0, 1, 0]"
    unfolding eqv VMFOutlierDetector_predict_def vmf_example_score
    by (simp add: vmf_fit_example DetectorMixin_predict_def)
  note w1 = R [THEN conjunct1, THEN mp, OF conjI[OF le conjI[OF ek0 conjI[OF ek1 conjI[OF pk0 pk1]]]]]
  note w2 = R [THEN conjunct2, THEN conjunct1, THEN mp, OF conjI[OF ek0 pk0]]
  note w3 = R [THEN conjunct2, THEN conjunct2, THEN conjunct1, THEN mp, OF conjI[OF le conjI[OF em0 conjI[OF em1 conjI[OF pm0 pm1]]]]]
  note w4 = R [THEN conjunct2, THEN conjunct2, THEN conjunct2, THEN conjunct1, THEN mp, OF conjI[OF em0 pm0]]
  note w5 = R [THEN conjunct2, THEN conjunct2, THEN conjunct2, THEN conjunct2, THEN conjunct1, THEN mp, OF conjI[OF le conjI[OF ea0 conjI[OF ea1 conjI[OF pa0 pa1]]]]]
  note w6 = R [THEN conjunct2, THEN conjunct2, THEN conjunct2, THEN conjunct2, THEN conjunct2, THEN conjunct1, THEN mp, OF conjI[OF ea0 pa0]]
  note w7 = R [THEN conjunct2, THEN conjunct2, THEN conjunct2, THEN conjunct2, THEN conjunct2, THEN conjunct2, THEN conjunct1, THEN mp, OF conjI[OF qn conjI[OF z0 conjI[OF z1 conjI[OF o1 conjI[OF eg0 conjI[OF eg1 conjI[OF pg0 pg1]]]]]]]]
  note w8 = R [THEN conjunct2, THEN conjunct2, THEN conjunct2, THEN conjunct2, THEN conjunct2, THEN conjunct2, THEN conjunct2, THEN conjunct1, THEN mp, OF conjI[OF qu conjI[OF eg0 pg0]]]
  note w9 = R [THEN conjunct2, THEN conjunct2, THEN conjunct2, THEN conjunct2, THEN conjunct2, THEN conjunct2, THEN conjunct2, THEN conjunct2, THEN conjunct1, THEN mp, OF conjI[OF qn conjI[OF z0 conjI[OF z1 conjI[OF o1 conjI[OF ev0 conjI[OF ev1 conjI[OF pv0 pv1]]]]]]]]
  note w10 = R [THEN conjunct2, THEN conjunct2, THEN conjunct2, THEN conjunct2, THEN conjunct2, THEN conjunct2, THEN conjunct2, THEN conjunct2, THEN conjunct2, THEN mp, OF conjI[OF qu conjI[OF ev0 pv0]]]
  show ?thesis
    by (rule conjI[OF conjI[OF le conjI[OF sk0 conjI[OF sk1 conjI[OF pk0 pk1]]]] conjI[OF w1 conjI[OF conjI[OF sk0 pk0] conjI[OF w2 conjI[OF conjI[OF le conjI[OF sm0 conjI[OF sm1 conjI[OF pm0 pm1]]]] conjI[OF w3 conjI[OF conjI[OF sm0 pm0] conjI[OF w4 conjI[OF conjI[OF le conjI[OF sa0 conjI[OF sa1 conjI[OF pa0 pa1]]]] conjI[OF w5 conjI[OF conjI[OF sa0 pa0] conjI[OF w6 conjI[OF conjI[OF qn conjI[OF z0 conjI[OF z1 conjI[OF o1 conjI[OF sg0 conjI[OF sg1 conjI[OF pg0 pg1]]]]]]] conjI[OF w7 conjI[OF conjI[OF qu conjI[OF sg0 pg0]] conjI[OF w8 conjI[OF conjI[OF qn conjI[OF z0 conjI[OF z1 conjI[OF o1 conjI[OF sv0 conjI[OF sv1 conjI[OF pv0 pv1]]]]]]] conjI[OF w9 conjI[OF conjI[OF qu conjI[OF sv0 pv0]] w10]]]]]]]]]]]]]]]]]]])
qed

text \<open>
  C3, as it was worded. The kernel-density detector on the points \<open>0, 1, 2, 7\<close> flags
  two training samples with \<open>fpr = 1/2\<close> and none with \<open>fpr = 0\<close>: lowering \<open>fpr\<close> has
  lowered the count. The Gaussian detector with \<open>fpr = 0\<close> has the threshold \<open>+inf\<close> and
  flags no training sample at all.
\<close>

theorem lower_fpr_flags_fewer_counterexample:
  "snd (KernelDensityOutlierDetector_fit centroid_kde (kde_new (1/2)) line_train) = None
   \<and> KernelDensityOutlierDetector_predict centroid_kde
        (fst (KernelDensityOutlierDetector_fit centroid_kde (kde_new (1/2)) line_train))
        (Some line_train) = Inr [1, 0, 0, 1]
   \<and> snd (KernelDensityOutlierDetector_fit centroid_kde (kde_new 0) line_train) = None
   \<and> KernelDensityOutlierDetector_predict centroid_kde
        (fst (KernelDensityOutlierDetector_fit centroid_kde (kde_new 0) line_train))
        (Some line_train) = Inr [0, 0, 0, 0]
   \<and> n_flagged [0, 0, 0, 0] < n_flagged [1, 0, 0, 1]
   \<and> snd (GaussianOutlierDetector_fit centroid_glasso chi2_two (gauss_new 0) line_train) = None
   \<and> gauss_threshold (fst (GaussianOutlierDetector_fit centroid_glasso chi2_two (gauss_new 0)
                              line_train)) = Some PosInf
   \<and> GaussianOutlierDetector_predict centroid_glasso
        (fst (GaussianOutlierDetector_fit centroid_glasso chi2_two (gauss_new 0) line_train))
        (Some line_train) = Inr [0, 0, 0, 0]
   \<and> n_flagged [0, 0, 0, 0] = 0"
proof -
  have t0: "chi2_ppf chi2_two (1 - 0) 2 0 1 = PosInf" by (simp add: chi2_two_def)
  have 1: "snd (KernelDensityOutlierDetector_fit centroid_kde (kde_new (1/2)) line_train) = None"
    by code_simp
  have 2: "KernelDensityOutlierDetector_predict centroid_kde
        (fst (KernelDensityOutlierDetector_fit centroid_kde (kde_new (1/2)) line_train))
        (Some line_train) = Inr [1, 0, 0, 1]"
    by code_simp
  have 3: "snd (KernelDensityOutlierDetector_fit centroid_kde (kde_new 0) line_train) = None"
    by code_simp
  have 4: "KernelDensityOutlierDetector_predict centroid_kde
        (fst (KernelDensityOutlierDetector_fit centroid_kde (kde_new 0) line_train))
        (Some line_train) = Inr [0, 0, 0, 0]"
    by code_simp
  have 5: "n_flagged [0, 0, 0, 0] < n_flagged [1, 0, 0, 1]"
    by (simp add: n_flagged_def)
  have 6: "snd (GaussianOutlierDetector_fit centroid_glasso chi2_two (gauss_new 0) line_train)
             = None"
    by (rule gauss_fit_example) simp_all
  have 7: "gauss_threshold (fst (GaussianOutlierDetector_fit centroid_glasso chi2_two
             (gauss_new 0) line_train)) = Some PosInf"
    using gauss_example_state[of 0] t0 by simp
  have 8: "GaussianOutlierDetector_predict centroid_glasso
        (fst (GaussianOutlierDetector_fit centroid_glasso chi2_two (gauss_new 0) line_train))
        (Some line_train) = Inr [0, 0, 0, 0]"
    unfolding gauss_example_predict t0 by (simp add: DetectorMixin_predict_def)
  have 9: "n_flagged [0, 0, 0, 0] = 0" by (simp add: n_flagged_def)
  show ?thesis
    by (rule conjI[OF 1 conjI[OF 2 conjI[OF 3 conjI[OF 4 conjI[OF 5 conjI[OF 6
          conjI[OF 7 conjI[OF 8 9]]]]]]]])
qed

end
